theory Spec2Isabelle
  imports Complex_Main "HOL-Library.Word" "HOL-Library.Char_ord" "HOL-Library.List_Lexorder"
begin

section \<open>Data model of MediumMagboltz\<close>

text \<open>
  The class \<^verbatim>\<open>MediumMagboltz\<close> (Include/MediumMagboltz.hh, Source/MediumMagboltz.cc)
  is embedded with explicit state passing. A C++ \<^verbatim>\<open>double\<close> is modelled as a
  \<^typ>\<open>real\<close>: every statement below is about exact real arithmetic, not about IEEE
  rounding, infinities or NaN. An \<^verbatim>\<open>unsigned int\<close> counter is a \<^typ>\<open>32 word\<close>,
  so that increments wrap around as in the source. Array indices are \<^typ>\<open>nat\<close>;
  the signed indices of the de-excitation table (\<^verbatim>\<open>-1\<close> is "none") are \<^typ>\<open>int\<close>.
\<close>

subsection \<open>Sizes and tags (MediumMagboltz.hh, lines 139-149 and 195-201)\<close>

definition nEnergySteps :: nat where "nEnergySteps = 20000"
definition nEnergyStepsLog :: nat where "nEnergyStepsLog = 200"
definition nMaxLevels :: nat where "nMaxLevels = 512"
definition nCsTypes :: nat where "nCsTypes = 6"
definition nCsTypesGamma :: nat where "nCsTypesGamma = 4"

text \<open>Collision counters are indexed by the collision type, in the order the header
  documents: 0 elastic, 1 ionisation, 2 attachment, 3 inelastic, 4 excitation,
  5 super-elastic.\<close>

definition ElectronCollisionTypeElastic :: nat where "ElectronCollisionTypeElastic = 0"
definition ElectronCollisionTypeIonisation :: nat where "ElectronCollisionTypeIonisation = 1"
definition ElectronCollisionTypeAttachment :: nat where "ElectronCollisionTypeAttachment = 2"
definition ElectronCollisionTypeInelastic :: nat where "ElectronCollisionTypeInelastic = 3"
definition ElectronCollisionTypeExcitation :: nat where "ElectronCollisionTypeExcitation = 4"
definition ElectronCollisionTypeSuperelastic :: nat where "ElectronCollisionTypeSuperelastic = 5"

definition DxcTypeRad :: int where "DxcTypeRad = 0"
definition DxcTypeCollIon :: int where "DxcTypeCollIon = 1"
definition DxcTypeCollNonIon :: int where "DxcTypeCollNonIon = - 1"

text \<open>The numeric values of the product tags live in GarfieldConstants.hh, which is not
  part of the sources at hand; only their being distinct matters.\<close>

datatype dxcProdType = DxcProdTypeElectron | DxcProdTypePhoton

datatype ionProdType = IonProdTypeElectron | IonProdTypeIon

text \<open>The constants \<^verbatim>\<open>Small\<close>, \<^verbatim>\<open>ElectronMass\<close> and the other physical constants
  come from headers (GarfieldConstants.hh, FundamentalConstants.hh) that are not among
  the sources either. They are parameters of the model; theorems state what they need
  of them (such as \<open>0 < Small\<close>).\<close>

record constants =
  Small :: real
  ElectronMass :: real
  SpeedOfLight :: real
  FineStructureConstant :: real
  HbarC :: real
  BoltzmannConstant :: real

subsection \<open>Structures\<close>

record Deexcitation =
  dxc_gas :: nat
  dxc_level :: int
  dxc_label :: string
  dxc_energy :: real
  dxc_p :: "real list"
  dxc_final :: "int list"
  dxc_type :: "int list"
  dxc_osc :: real
  dxc_rate :: real
  dxc_sDoppler :: real
  dxc_gPressure :: real
  dxc_width :: real
  dxc_cf :: real

record dxcProd =
  prod_s :: real
  prod_t :: real
  prod_type :: dxcProdType
  prod_energy :: real

text \<open>The session: the data members of \<^verbatim>\<open>MediumMagboltz\<close> that the modelled
  functions read or write, together with the members inherited from \<^verbatim>\<open>MediumGas\<close>
  that they use (composition, Penning parameters, the dirty flag).\<close>

record session =
  m_temperature :: real
  m_nComponents :: nat
  m_gas :: "string list"
  m_fraction :: "real list"
  m_rPenningGlobal :: real
  m_lambdaPenningGlobal :: real
  m_rPenningGas :: "real list"
  m_lambdaPenningGas :: "real list"
  m_usePenning :: bool
  m_isChanged :: bool
  m_eFinal :: real
  m_eStep :: real
  m_eHigh :: real
  m_eHighLog :: real
  m_lnStep :: real
  m_useAutoAdjust :: bool
  m_nTerms :: nat
  m_rgas :: "real list"
  m_wOpalBeaty :: "real list"
  m_parGreenSawada :: "real list list"
  m_hasGreenSawada :: "bool list"
  m_energyLoss :: "real list"
  m_csType :: "nat list"
  m_useAnisotropic :: bool
  m_scatPar :: "real list list"
  m_scatCut :: "real list list"
  m_scatParLog :: "real list list"
  m_scatCutLog :: "real list list"
  m_scatModel :: "int list"
  m_description :: "string list"
  m_cfTot :: "real list"
  m_cfTotLog :: "real list"
  m_cfNull :: real
  m_cf :: "real list list"
  m_cfLog :: "real list list"
  m_nCollisions :: "32 word list"
  m_nCollisionsDetailed :: "32 word list"
  m_rPenning :: "real list"
  m_lambdaPenning :: "real list"
  m_nPenning :: "32 word"
  m_useDeexcitation :: bool
  m_deexcitations :: "Deexcitation list"
  m_iDeexcitation :: "int list"
  m_dxcProducts :: "dxcProd list"
  m_ionPot :: "real list"
  m_minIonPot :: real
  m_scaleExc :: "real list"
  m_useOpalBeaty :: bool
  m_useGreenSawada :: bool
  m_nPhotonCollisions :: "32 word list"

subsection \<open>External collaborators\<close>

text \<open>What \<^verbatim>\<open>Magboltz::gasmix_\<close> hands back for one gas and one energy grid: the
  numbers of inelastic and ionisation terms, thresholds, scattering models, Opal-Beaty
  parameters, descriptions (50 characters each), and per energy step the cross-sections
  and angular-distribution parameters. The Fortran routine is outside the repository.\<close>

record gasdata =
  g_nIn :: nat
  g_nIon :: nat
  g_e :: "real list"
  g_eIn :: "real list"
  g_eIon :: "real list"
  g_kIn :: "int list"
  g_kEl :: "int list"
  g_eoby :: "real list"
  g_scrpt :: "string list"
  g_q :: "real list list"
  g_qIn :: "real list list"
  g_qIon :: "real list list"
  g_pEqEl :: "real list list"
  g_pEqIn :: "real list list"
  g_pEqIon :: "real list list"

text \<open>The environment of a session: the cross-section provider (called with the
  anisotropy switch, the gas number, and the step and upper end of the energy grid set
  in the common block), the number density of \<^verbatim>\<open>MediumGas\<close>, the quenching blocks
  of \<^verbatim>\<open>ComputeDeexcitationTable\<close> that read \<^verbatim>\<open>OpticalData\<close>, and the availability
  test of \<^verbatim>\<open>OpticalData\<close>.\<close>

record environment =
  gasmix :: "bool \<Rightarrow> int \<Rightarrow> real \<Rightarrow> real \<Rightarrow> gasdata"
  GetNumberDensity :: real
  quenching :: "session \<Rightarrow> Deexcitation list \<Rightarrow> Deexcitation list"
  optical_IsAvailable :: "string \<Rightarrow> bool"

section \<open>Mixer: totals and cumulative probabilities of one energy bin\<close>

text \<open>
  Lines 1817-1842 (linear grid) and 1844-1865 (logarithmic grid) of
  \<^verbatim>\<open>Mixer\<close>. Each bin \<open>iE\<close> is treated by three loops over the levels
  \<open>k < m_nTerms\<close>, written here as folds over the index range, followed by the
  scaling of the total. The row is \<^verbatim>\<open>m_cf[iE]\<close> (length \<open>nMaxLevels\<close>), the
  running total is \<^verbatim>\<open>m_cfTot[iE]\<close>.
\<close>

text \<open>\<^verbatim>\<open>if (m_cf[iE][k] < 0.) m_cf[iE][k] = 0.;  m_cfTot[iE] += m_cf[iE][k];\<close>\<close>

definition clamp_and_sum :: "nat \<Rightarrow> real list \<times> real \<Rightarrow> real list \<times> real" where
  "clamp_and_sum k = (\<lambda>(row, tot).
     let row' = (if row ! k < 0 then row[k := 0] else row)
     in (row', tot + row' ! k))"

text \<open>\<^verbatim>\<open>m_cf[iE][k] /= m_cfTot[iE];\<close>\<close>

definition normalise :: "real \<Rightarrow> nat \<Rightarrow> real list \<Rightarrow> real list" where
  "normalise tot k row = row[k := row ! k / tot]"

text \<open>\<^verbatim>\<open>m_cf[iE][k] += m_cf[iE][k - 1];\<close>\<close>

definition accumulate :: "nat \<Rightarrow> real list \<Rightarrow> real list" where
  "accumulate k row = row[k := row ! k + row ! (k - 1)]"

text \<open>The total collision frequency of a bin as the first loop leaves it, before it is
  scaled: this is the value the test \<^verbatim>\<open>m_cfTot[iE] > 0.\<close> looks at.\<close>

definition bin_frequency_sum :: "nat \<Rightarrow> real list \<Rightarrow> real \<Rightarrow> real" where
  "bin_frequency_sum nTerms row tot0 = snd (fold clamp_and_sum [0..<nTerms] (row, tot0))"

text \<open>One iteration of the loop over the linear grid (lines 1817-1842). The entries are
  reals, so the divisions and additions are exact and a normalised row ends in exactly
  1; in double precision the last entry of a row can differ from 1 by the rounding of
  these operations.\<close>

definition Mixer_linear_bin ::
  "constants \<Rightarrow> real \<Rightarrow> nat \<Rightarrow> nat \<Rightarrow> real list \<times> real \<Rightarrow> real list \<times> real" where
  "Mixer_linear_bin c eStep nTerms iE = (\<lambda>(row0, tot0).
     let (row1, tot1) = fold clamp_and_sum [0..<nTerms] (row0, tot0);
         row2 = (if tot1 > 0 then fold (normalise tot1) [0..<nTerms] row1 else row1);
         row3 = fold accumulate [1..<nTerms] row2;
         ekin = eStep * (real iE + 0.5);
         tot2 = tot1 * sqrt ekin;
         tot3 = (if ekin > 1000
                 then (let re = ekin / ElectronMass c
                       in tot2 * (sqrt (1 + 0.5 * re) / (1 + re)))
                 else tot2)
     in (row3, tot3))"

text \<open>One iteration of the loop over the logarithmic grid (lines 1846-1864). The
  normalising loop runs downwards (\<^verbatim>\<open>for (int k = m_nTerms; k--;)\<close>); the stored
  total is the logarithm of the scaled rate. For a bin whose rate is 0 the source
  stores \<^verbatim>\<open>log(0.)\<close>, minus infinity, a value the reals do not have (\<open>ln 0\<close> is
  0 in HOL): for such a bin the total of the model is the value HOL gives to \<open>ln 0\<close> and
  carries no meaning.\<close>

definition Mixer_log_bin ::
  "constants \<Rightarrow> real \<Rightarrow> real \<Rightarrow> nat \<Rightarrow> nat \<Rightarrow> real list \<times> real \<Rightarrow> real list \<times> real" where
  "Mixer_log_bin c eHigh rLog nTerms iE = (\<lambda>(row0, tot0).
     let (row1, tot1) = fold clamp_and_sum [0..<nTerms] (row0, tot0);
         row2 = (if tot1 > 0 then fold (normalise tot1) (rev [0..<nTerms]) row1 else row1);
         row3 = fold accumulate [1..<nTerms] row2;
         ekin = eHigh * rLog ^ (iE + 1);
         re = ekin / ElectronMass c;
         tot2 = tot1 * (sqrt ekin * sqrt (1 + re) / (1 + re))
     in (row3, ln tot2))"

section \<open>GetElectronCollision: choice of the level\<close>

text \<open>
  \<^verbatim>\<open>std::lower_bound(begin, begin + m_nTerms, r)\<close> is the binary search of the C++
  standard library: starting from the range \<open>[first, first + len)\<close> it halves the
  range, moving past the middle element when that is smaller than the value.
\<close>

function lower_bound :: "real list \<Rightarrow> nat \<Rightarrow> nat \<Rightarrow> real \<Rightarrow> nat" where
  "lower_bound xs first len val =
     (if len = 0 then first
      else (let half = len div 2; middle = first + half
            in if xs ! middle < val
               then lower_bound xs (middle + 1) (len - half - 1) val
               else lower_bound xs first half val))"
  by pat_completeness auto
termination
  by (relation "measure (\<lambda>(xs, first, len, val). len)") auto

declare lower_bound.simps [simp del]

text \<open>Lines 647-655 (and, for the logarithmic grid, 665-673): the level sampled from the
  cumulative probabilities \<open>cf\<close> of the bin with the uniform draw \<open>r\<close>.\<close>

definition sample_level :: "real list \<Rightarrow> nat \<Rightarrow> real \<Rightarrow> nat" where
  "sample_level cf nTerms r =
     (if r \<le> cf ! 0 then 0
      else if r \<ge> cf ! (nTerms - 1) then nTerms - 1
      else lower_bound cf 0 nTerms r)"

section \<open>ComputeDeexcitationTable\<close>

text \<open>
  Lines 2010-3095. The table is built for argon only (\<open>iAr\<close>). The blocks that add
  quenching by CO2, CH4, C2H6, iC4H10, C2H2 and CF4 (lines 2591-3022) need the optical
  data of class \<^verbatim>\<open>OpticalData\<close>, which is not among the sources; each of them is
  entered only when argon and that gas are both in the mixture, and each only appends
  channels whose final level is \<^verbatim>\<open>-1\<close>. They are a parameter of the model
  (\<open>quenching\<close> below), applied under the source's guards.
\<close>

subsection \<open>The two std::map objects\<close>

text \<open>\<^verbatim>\<open>std::map<std::string, int>\<close> keeps its keys sorted; iteration follows the
  order of the keys (bytewise lexicographic, the order of \<^typ>\<open>string\<close> here) and an
  assignment to an existing key replaces its value.\<close>

fun smap_set :: "string \<Rightarrow> 'v \<Rightarrow> (string \<times> 'v) list \<Rightarrow> (string \<times> 'v) list" where
  "smap_set k v [] = [(k, v)]"
| "smap_set k v ((k', v') # m) =
     (if k = k' then (k, v) # m
      else if k < k' then (k, v) # (k', v') # m
      else (k', v') # smap_set k v m)"

text \<open>\<^verbatim>\<open>lvl["..."]\<close> on a key that is absent inserts it with the value 0 and returns 0;
  the map \<open>lvl\<close> is never iterated after that, so reading 0 is all the insertion does.\<close>

definition lvl_at :: "(string \<times> int) list \<Rightarrow> string \<Rightarrow> int" where
  "lvl_at lvl k = (case map_of lvl k of Some n \<Rightarrow> n | None \<Rightarrow> 0)"

subsection \<open>Level names (lines 2022-2037)\<close>

definition levelNamesAr :: "(string \<times> string) list" where
  "levelNamesAr = [
     (''1S5    '', ''Ar_1S5''),
     (''1S4    '', ''Ar_1S4''),
     (''1S3    '', ''Ar_1S3''),
     (''1S2    '', ''Ar_1S2''),
     (''2P10   '', ''Ar_2P10''),
     (''2P9    '', ''Ar_2P9''),
     (''2P8    '', ''Ar_2P8''),
     (''2P7    '', ''Ar_2P7''),
     (''2P6    '', ''Ar_2P6''),
     (''2P5    '', ''Ar_2P5''),
     (''2P4    '', ''Ar_2P4''),
     (''2P3    '', ''Ar_2P3''),
     (''2P2    '', ''Ar_2P2''),
     (''2P1    '', ''Ar_2P1''),
     (''3D6    '', ''Ar_3D6''),
     (''3D5    '', ''Ar_3D5''),
     (''3D3    '', ''Ar_3D3''),
     (''3D4!   '', ''Ar_3D4!''),
     (''3D4    '', ''Ar_3D4''),
     (''3D1!!  '', ''Ar_3D1!!''),
     (''2S5    '', ''Ar_2S5''),
     (''2S4    '', ''Ar_2S4''),
     (''3D1!   '', ''Ar_3D1!''),
     (''3D2    '', ''Ar_3D2''),
     (''3S1!!!!'', ''Ar_3S1!!!!''),
     (''3S1!!  '', ''Ar_3S1!!''),
     (''3S1!!! '', ''Ar_3S1!!!''),
     (''2S3    '', ''Ar_2S3''),
     (''2S2    '', ''Ar_2S2''),
     (''3S1!   '', ''Ar_3S1!''),
     (''4D5    '', ''Ar_4D5''),
     (''3S4    '', ''Ar_3S4''),
     (''4D2    '', ''Ar_4D2''),
     (''4S1!   '', ''Ar_4S1!''),
     (''3S2    '', ''Ar_3S2''),
     (''5D5    '', ''Ar_5D5''),
     (''4S4    '', ''Ar_4S4''),
     (''5D2    '', ''Ar_5D2''),
     (''6D5    '', ''Ar_6D5''),
     (''5S1!   '', ''Ar_5S1!''),
     (''4S2    '', ''Ar_4S2''),
     (''5S4    '', ''Ar_5S4''),
     (''6D2    '', ''Ar_6D2''),
     (''HIGH   '', ''Ar_Higher'')]"

subsection \<open>Mapping of the excitation levels (lines 2039-2069)\<close>

text \<open>The seven characters of the Magboltz description that name the level.\<close>

definition level_label :: "string \<Rightarrow> string" where
  "level_label descr = take 7 (drop 5 descr)"

text \<open>One pass of the loop of lines 2041-2059 over the level \<open>i\<close>. A description that
  is not in \<open>levelNamesAr\<close> only writes a message to the error stream: the level is left
  out of \<open>mapLevels\<close> and the loop goes on.\<close>

definition map_level :: "session \<Rightarrow> nat \<Rightarrow> int \<times> (string \<times> nat) list \<Rightarrow> int \<times> (string \<times> nat) list" where
  "map_level st i = (\<lambda>(iAr, mapLevels).
     if m_csType st ! i mod nCsTypes \<noteq> ElectronCollisionTypeExcitation then (iAr, mapLevels)
     else
       let ngas = m_csType st ! i div nCsTypes in
       if m_gas st ! ngas = ''Ar'' then
         (let iAr' = (if iAr < 0 then int ngas else iAr);
              level = level_label (m_description st ! i)
          in case map_of levelNamesAr level of
               Some name \<Rightarrow> (iAr', smap_set name i mapLevels)
             | None \<Rightarrow> (iAr', mapLevels))
       else (iAr, mapLevels))"

text \<open>Lines 2062-2069: the levels are numbered in the order of their names.\<close>

definition count_levels ::
  "(string \<times> nat) list \<Rightarrow> int list \<Rightarrow> (string \<times> int) list \<times> int list" where
  "count_levels mapLevels iDeexcitation =
     fold (\<lambda>(n, (level, i)) (lvl, iD). (lvl @ [(level, int n)], iD[i := int n]))
       (enumerate 0 mapLevels) ([], iDeexcitation)"

subsection \<open>Radiative channels (lines 2083-2345)\<close>

text \<open>\<^verbatim>\<open>levelsAr4s\<close> of line 2094.\<close>

definition levelsAr4s :: "(string \<Rightarrow> int) \<Rightarrow> int list" where
  "levelsAr4s lvl = [lvl ''Ar_1S5'', lvl ''Ar_1S4'', lvl ''Ar_1S3'', lvl ''Ar_1S2'']"

text \<open>The chain of comparisons of \<open>level\<close> with the known names, one row per name:
  oscillator strength, transition rates \<open>p\<close> and final levels. Where the source computes
  \<open>p0\<close> from the oscillator strength the row has \<open>f2A * energy * energy * osc\<close>.\<close>

definition radiative_table ::
  "real \<Rightarrow> real \<Rightarrow> (string \<Rightarrow> int) \<Rightarrow> (string \<times> real \<times> real list \<times> int list) list" where
  "radiative_table f2A energy lvl = [
     (''Ar_1S5'', 0,
        [],
        []),
     (''Ar_1S3'', 0,
        [],
        []),
     (''Ar_1S4'', 0.0609,
        [0.119],
        [- 1]),
     (''Ar_1S2'', 0.25,
        [0.51],
        [- 1]),
     (''Ar_2P10'', 0,
        [0.0189, 5.43 / 10 ^ 3, 9.8 / 10 ^ 4, 1.9 / 10 ^ 4],
        levelsAr4s lvl),
     (''Ar_2P9'', 0,
        [0.0331],
        [lvl ''Ar_1S5'']),
     (''Ar_2P8'', 0,
        [9.28 / 10 ^ 3, 0.0215, 1.47 / 10 ^ 3],
        [lvl ''Ar_1S5'', lvl ''Ar_1S4'', lvl ''Ar_1S2'']),
     (''Ar_2P7'', 0,
        [5.18 / 10 ^ 3, 0.025, 2.43 / 10 ^ 3, 1.06 / 10 ^ 3],
        levelsAr4s lvl),
     (''Ar_2P6'', 0,
        [0.0245, 4.9 / 10 ^ 3, 5.03 / 10 ^ 3],
        [lvl ''Ar_1S5'', lvl ''Ar_1S4'', lvl ''Ar_1S2'']),
     (''Ar_2P5'', 0,
        [0.0402],
        [lvl ''Ar_1S4'']),
     (''Ar_2P4'', 0,
        [6.25 / 10 ^ 4, 2.2 / 10 ^ 5, 0.0186, 0.0139],
        levelsAr4s lvl),
     (''Ar_2P3'', 0,
        [3.8 / 10 ^ 3, 8.47 / 10 ^ 3, 0.0223],
        [lvl ''Ar_1S5'', lvl ''Ar_1S4'', lvl ''Ar_1S2'']),
     (''Ar_2P2'', 0,
        [6.39 / 10 ^ 3, 1.83 / 10 ^ 3, 0.0117, 0.0153],
        levelsAr4s lvl),
     (''Ar_2P1'', 0,
        [2.36 / 10 ^ 4, 0.0445],
        [lvl ''Ar_1S4'', lvl ''Ar_1S2'']),
     (''Ar_3D6'', 0,
        [8.1 / 10 ^ 3, 7.73 / 10 ^ 4, 1.2 / 10 ^ 4, 3.6 / 10 ^ 4],
        [lvl ''Ar_2P10'', lvl ''Ar_2P7'', lvl ''Ar_2P4'', lvl ''Ar_2P2'']),
     (''Ar_3D5'', 0.0011,
        [7.4 / 10 ^ 3, 3.9 / 10 ^ 5, 3.09 / 10 ^ 4, 1.37 / 10 ^ 3, 5.75 / 10 ^ 4, 3.2 / 10 ^ 5, 1.4 / 10 ^ 4, 1.7 / 10 ^ 4, 2.49 / 10 ^ 6, f2A * energy * energy * 0.0011],
        [lvl ''Ar_2P10'', lvl ''Ar_2P8'', lvl ''Ar_2P7'', lvl ''Ar_2P6'', lvl ''Ar_2P5'', lvl ''Ar_2P4'', lvl ''Ar_2P3'', lvl ''Ar_2P2'', lvl ''Ar_2P1'', - 1]),
     (''Ar_3D3'', 0,
        [4.9 / 10 ^ 3, 9.82 / 10 ^ 5, 1.2 / 10 ^ 4, 2.6 / 10 ^ 4, 2.5 / 10 ^ 3, 9.41 / 10 ^ 5, 3.9 / 10 ^ 4, 1.1 / 10 ^ 4],
        [lvl ''Ar_2P10'', lvl ''Ar_2P9'', lvl ''Ar_2P8'', lvl ''Ar_2P7'', lvl ''Ar_2P6'', lvl ''Ar_2P4'', lvl ''Ar_2P3'', lvl ''Ar_2P2'']),
     (''Ar_3D4!'', 0,
        [0.01593],
        [lvl ''Ar_2P9'']),
     (''Ar_3D4'', 0,
        [2.29 / 10 ^ 3, 0.011, 8.8 / 10 ^ 5, 2.53 / 10 ^ 6],
        [lvl ''Ar_2P9'', lvl ''Ar_2P8'', lvl ''Ar_2P6'', lvl ''Ar_2P3'']),
     (''Ar_3D1!!'', 0,
        [5.85 / 10 ^ 6, 1.2 / 10 ^ 4, 5.7 / 10 ^ 3, 7.3 / 10 ^ 3, 2 / 10 ^ 4, 1.54 / 10 ^ 6, 2.08 / 10 ^ 5, 6.75 / 10 ^ 7],
        [lvl ''Ar_2P10'', lvl ''Ar_2P9'', lvl ''Ar_2P8'', lvl ''Ar_2P7'', lvl ''Ar_2P6'', lvl ''Ar_2P4'', lvl ''Ar_2P3'', lvl ''Ar_2P2'']),
     (''Ar_2S5'', 0,
        [4.9 / 10 ^ 3, 0.011, 1.1 / 10 ^ 3, 4.6 / 10 ^ 4, 3.3 / 10 ^ 3, 5.9 / 10 ^ 5, 1.2 / 10 ^ 4, 3.1 / 10 ^ 4],
        [lvl ''Ar_2P10'', lvl ''Ar_2P9'', lvl ''Ar_2P8'', lvl ''Ar_2P7'', lvl ''Ar_2P6'', lvl ''Ar_2P4'', lvl ''Ar_2P3'', lvl ''Ar_2P2'']),
     (''Ar_2S4'', 0.027,
        [0.077, 2.44 / 10 ^ 3, 8.9 / 10 ^ 3, 4.6 / 10 ^ 3, 2.7 / 10 ^ 3, 1.3 / 10 ^ 3, 4.5 / 10 ^ 4, 2.9 / 10 ^ 5, 3 / 10 ^ 5, 1.6 / 10 ^ 4],
        [- 1, lvl ''Ar_2P10'', lvl ''Ar_2P8'', lvl ''Ar_2P7'', lvl ''Ar_2P6'', lvl ''Ar_2P5'', lvl ''Ar_2P4'', lvl ''Ar_2P3'', lvl ''Ar_2P2'', lvl ''Ar_2P1'']),
     (''Ar_3D1!'', 0,
        [3.1 / 10 ^ 3, 2 / 10 ^ 3, 0.015, 9.8 / 10 ^ 6],
        [lvl ''Ar_2P9'', lvl ''Ar_2P8'', lvl ''Ar_2P6'', lvl ''Ar_2P3'']),
     (''Ar_3D2'', 0.0932,
        [0.27, 1.35 / 10 ^ 5, 9.52 / 10 ^ 4, 0.011, 4.01 / 10 ^ 5, 4.3 / 10 ^ 3, 8.96 / 10 ^ 4, 4.45 / 10 ^ 5, 5.87 / 10 ^ 5, 8.77 / 10 ^ 4],
        [- 1, lvl ''Ar_2P10'', lvl ''Ar_2P8'', lvl ''Ar_2P7'', lvl ''Ar_2P6'', lvl ''Ar_2P5'', lvl ''Ar_2P4'', lvl ''Ar_2P3'', lvl ''Ar_2P2'', lvl ''Ar_2P1'']),
     (''Ar_3S1!!!!'', 0,
        [7.51 / 10 ^ 6, 4.3 / 10 ^ 5, 8.3 / 10 ^ 4, 5.01 / 10 ^ 5, 2.09 / 10 ^ 4, 0.013, 2.2 / 10 ^ 3, 3.35 / 10 ^ 6],
        [lvl ''Ar_2P10'', lvl ''Ar_2P9'', lvl ''Ar_2P8'', lvl ''Ar_2P7'', lvl ''Ar_2P6'', lvl ''Ar_2P4'', lvl ''Ar_2P3'', lvl ''Ar_2P2'']),
     (''Ar_3S1!!'', 0,
        [1.89 / 10 ^ 4, 1.52 / 10 ^ 4, 7.21 / 10 ^ 4, 3.69 / 10 ^ 4, 3.76 / 10 ^ 3, 1.72 / 10 ^ 4, 5.8 / 10 ^ 4, 6.2 / 10 ^ 3],
        [lvl ''Ar_2P10'', lvl ''Ar_2P9'', lvl ''Ar_2P8'', lvl ''Ar_2P7'', lvl ''Ar_2P6'', lvl ''Ar_2P4'', lvl ''Ar_2P3'', lvl ''Ar_2P2'']),
     (''Ar_3S1!!!'', 0,
        [7.36 / 10 ^ 4, 4.2 / 10 ^ 5, 9.3 / 10 ^ 5, 0.015],
        [lvl ''Ar_2P9'', lvl ''Ar_2P8'', lvl ''Ar_2P6'', lvl ''Ar_2P3'']),
     (''Ar_2S3'', 0,
        [3.26 / 10 ^ 3, 2.22 / 10 ^ 3, 0.01, 5.1 / 10 ^ 3],
        [lvl ''Ar_2P10'', lvl ''Ar_2P7'', lvl ''Ar_2P4'', lvl ''Ar_2P2'']),
     (''Ar_2S2'', 0.0119,
        [0.035, 1.76 / 10 ^ 3, 2.1 / 10 ^ 4, 2.8 / 10 ^ 4, 1.39 / 10 ^ 3, 3.8 / 10 ^ 4, 2.0 / 10 ^ 3, 8.9 / 10 ^ 3, 3.4 / 10 ^ 3, 1.9 / 10 ^ 3],
        [- 1, lvl ''Ar_2P10'', lvl ''Ar_2P8'', lvl ''Ar_2P7'', lvl ''Ar_2P6'', lvl ''Ar_2P5'', lvl ''Ar_2P4'', lvl ''Ar_2P3'', lvl ''Ar_2P2'', lvl ''Ar_2P1'']),
     (''Ar_3S1!'', 0.106,
        [0.313, 2.05 / 10 ^ 5, 8.33 / 10 ^ 5, 3.9 / 10 ^ 4, 3.96 / 10 ^ 4, 4.2 / 10 ^ 4, 4.5 / 10 ^ 3, 4.84 / 10 ^ 5, 7.1 / 10 ^ 3, 5.2 / 10 ^ 3],
        [- 1, lvl ''Ar_2P10'', lvl ''Ar_2P8'', lvl ''Ar_2P7'', lvl ''Ar_2P6'', lvl ''Ar_2P5'', lvl ''Ar_2P4'', lvl ''Ar_2P3'', lvl ''Ar_2P2'', lvl ''Ar_2P1'']),
     (''Ar_4D5'', 0.0019,
        [2.78 / 10 ^ 3, 2.8 / 10 ^ 4, 8.6 / 10 ^ 4, 9.2 / 10 ^ 4, 4.6 / 10 ^ 4, 1.6 / 10 ^ 4, f2A * energy * energy * 0.0019],
        [lvl ''Ar_2P10'', lvl ''Ar_2P8'', lvl ''Ar_2P6'', lvl ''Ar_2P5'', lvl ''Ar_2P3'', lvl ''Ar_2P2'', - 1]),
     (''Ar_3S4'', 0.0144,
        [4.21 / 10 ^ 4, 2 / 10 ^ 3, 1.7 / 10 ^ 3, 7.2 / 10 ^ 4, 3.5 / 10 ^ 4, 1.2 / 10 ^ 4, 4.2 / 10 ^ 6, 3.3 / 10 ^ 5, 9.7 / 10 ^ 5, f2A * energy * energy * 0.0144],
        [lvl ''Ar_2P10'', lvl ''Ar_2P8'', lvl ''Ar_2P7'', lvl ''Ar_2P6'', lvl ''Ar_2P5'', lvl ''Ar_2P4'', lvl ''Ar_2P3'', lvl ''Ar_2P2'', lvl ''Ar_2P1'', - 1]),
     (''Ar_4D2'', 0.048,
        [1.7 / 10 ^ 4, f2A * energy * energy * 0.048],
        [lvl ''Ar_2P7'', - 1]),
     (''Ar_4S1!'', 0.0209,
        [1.05 / 10 ^ 3, 3.1 / 10 ^ 5, 2.5 / 10 ^ 5, 4.0 / 10 ^ 4, 5.8 / 10 ^ 5, 1.2 / 10 ^ 4, f2A * energy * energy * 0.0209],
        [lvl ''Ar_2P10'', lvl ''Ar_2P8'', lvl ''Ar_2P7'', lvl ''Ar_2P6'', lvl ''Ar_2P5'', lvl ''Ar_2P3'', - 1]),
     (''Ar_3S2'', 0.0221,
        [2.85 / 10 ^ 4, 5.1 / 10 ^ 5, 5.3 / 10 ^ 5, 1.6 / 10 ^ 4, 1.5 / 10 ^ 4, 6.0 / 10 ^ 4, 2.48 / 10 ^ 3, 9.6 / 10 ^ 4, 3.59 / 10 ^ 4, f2A * energy * energy * 0.0221],
        [lvl ''Ar_2P10'', lvl ''Ar_2P8'', lvl ''Ar_2P7'', lvl ''Ar_2P6'', lvl ''Ar_2P5'', lvl ''Ar_2P4'', lvl ''Ar_2P3'', lvl ''Ar_2P2'', lvl ''Ar_2P1'', - 1]),
     (''Ar_5D5'', 0.0041,
        [2.2 / 10 ^ 3, 1.1 / 10 ^ 4, 7.6 / 10 ^ 5, 4.2 / 10 ^ 4, 2.4 / 10 ^ 4, 2.1 / 10 ^ 4, 2.4 / 10 ^ 4, 1.2 / 10 ^ 4, f2A * energy * energy * 0.0041],
        [lvl ''Ar_2P10'', lvl ''Ar_2P8'', lvl ''Ar_2P7'', lvl ''Ar_2P6'', lvl ''Ar_2P5'', lvl ''Ar_2P4'', lvl ''Ar_2P3'', lvl ''Ar_2P2'', - 1]),
     (''Ar_4S4'', 0.0139,
        [1.9 / 10 ^ 4, 1.1 / 10 ^ 3, 5.2 / 10 ^ 4, 5.1 / 10 ^ 4, 9.4 / 10 ^ 5, 5.4 / 10 ^ 5, f2A * energy * energy * 0.0139],
        [lvl ''Ar_2P10'', lvl ''Ar_2P8'', lvl ''Ar_2P7'', lvl ''Ar_2P6'', lvl ''Ar_2P5'', lvl ''Ar_2P4'', - 1]),
     (''Ar_5D2'', 0.0426,
        [5.9 / 10 ^ 5, 9.0 / 10 ^ 6, 1.5 / 10 ^ 4, 3.1 / 10 ^ 5, f2A * energy * energy * 0.0426],
        [lvl ''Ar_2P8'', lvl ''Ar_2P7'', lvl ''Ar_2P5'', lvl ''Ar_2P2'', - 1]),
     (''Ar_6D5'', 0.00075,
        [1.9 / 10 ^ 3, 4.2 / 10 ^ 4, 3 / 10 ^ 4, 5.1 / 10 ^ 5, 6.6 / 10 ^ 5, 1.21 / 10 ^ 4, f2A * energy * energy * 0.00075],
        [lvl ''Ar_2P10'', lvl ''Ar_2P6'', lvl ''Ar_2P5'', lvl ''Ar_2P4'', lvl ''Ar_2P3'', lvl ''Ar_2P1'', - 1]),
     (''Ar_5S1!'', 0.00051,
        [7.7 / 10 ^ 5, f2A * energy * energy * 0.00051],
        [lvl ''Ar_2P5'', - 1]),
     (''Ar_4S2'', 0.00074,
        [4.5 / 10 ^ 4, 2 / 10 ^ 4, 2.1 / 10 ^ 4, 1.2 / 10 ^ 4, 1.8 / 10 ^ 4, 9 / 10 ^ 4, 3.3 / 10 ^ 4, f2A * energy * energy * 0.00074],
        [lvl ''Ar_2P10'', lvl ''Ar_2P8'', lvl ''Ar_2P7'', lvl ''Ar_2P5'', lvl ''Ar_2P4'', lvl ''Ar_2P3'', lvl ''Ar_2P2'', - 1]),
     (''Ar_5S4'', 0.0211,
        [3.6 / 10 ^ 4, 1.2 / 10 ^ 4, 1.5 / 10 ^ 4, 1.4 / 10 ^ 4, 7.5 / 10 ^ 5, f2A * energy * energy * 0.0211],
        [lvl ''Ar_2P8'', lvl ''Ar_2P6'', lvl ''Ar_2P4'', lvl ''Ar_2P3'', lvl ''Ar_2P2'', - 1]),
     (''Ar_6D2'', 0.0574,
        [3.33 / 10 ^ 3, f2A * energy * energy * 0.0574],
        [lvl ''Ar_2P7'', - 1]),
     (''Ar_Higher'', 0,
        [100, 100, 100, 100, 100],
        [lvl ''Ar_6D5'', lvl ''Ar_5S1!'', lvl ''Ar_4S2'', lvl ''Ar_5S4'', lvl ''Ar_6D2''])]"

definition f2A :: "constants \<Rightarrow> real" where
  "f2A c = 2 * SpeedOfLight c * FineStructureConstant c / (3 * ElectronMass c * HbarC c)"

definition radiative_entry ::
  "constants \<Rightarrow> session \<Rightarrow> (string \<times> int) list \<Rightarrow> string \<times> nat \<Rightarrow> Deexcitation option" where
  "radiative_entry c st lvl = (\<lambda>(level, i).
     let gas = m_csType st ! i div nCsTypes;
         energy = m_energyLoss st ! i * m_rgas st ! gas
     in case map_of (radiative_table (f2A c) energy (lvl_at lvl)) level of
          None \<Rightarrow> None
        | Some (osc, p, final) \<Rightarrow>
            Some \<lparr>dxc_gas = gas, dxc_level = int i, dxc_label = level, dxc_energy = energy,
                  dxc_p = p, dxc_final = final,
                  dxc_type = (if level = ''Ar_Higher'' then replicate 5 DxcTypeCollNonIon
                              else replicate (length p) DxcTypeRad),
                  dxc_osc = osc, dxc_rate = 0, dxc_sDoppler = 0, dxc_gPressure = 0,
                  dxc_width = 0, dxc_cf = 0\<rparr>)"

text \<open>The loop over \<open>mapLevels\<close>. A name without data makes the function return at once
  (line 2341), which the first component \<open>False\<close> records. The field \<^verbatim>\<open>rate\<close> is
  not initialised by the source here; it is assigned by the last loop of the function.\<close>

fun radiative_entries ::
  "constants \<Rightarrow> session \<Rightarrow> (string \<times> int) list \<Rightarrow> (string \<times> nat) list \<Rightarrow> Deexcitation list
   \<Rightarrow> bool \<times> Deexcitation list" where
  "radiative_entries c st lvl [] acc = (True, acc)"
| "radiative_entries c st lvl (x # xs) acc =
     (case radiative_entry c st lvl x of
        None \<Rightarrow> (False, acc)
      | Some d \<Rightarrow> radiative_entries c st lvl xs (acc @ [d]))"

subsection \<open>Collisional channels of argon (lines 2354-2589)\<close>

definition synthetic_level :: "string \<Rightarrow> nat \<Rightarrow> Deexcitation" where
  "synthetic_level name iAr =
     \<lparr>dxc_gas = iAr, dxc_level = - 1, dxc_label = name, dxc_energy = 14.71,
      dxc_p = [], dxc_final = [], dxc_type = [],
      dxc_osc = 0, dxc_rate = 0, dxc_sDoppler = 0, dxc_gPressure = 0,
      dxc_width = 0, dxc_cf = 0\<rparr>"

text \<open>\<^verbatim>\<open>std::vector::resize(n, v)\<close>.\<close>

definition resize :: "nat \<Rightarrow> 'a \<Rightarrow> 'a list \<Rightarrow> 'a list" where
  "resize n v xs = take n xs @ replicate (n - length xs) v"

definition push_channels :: "real list \<Rightarrow> int list \<Rightarrow> Deexcitation \<Rightarrow> Deexcitation" where
  "push_channels ps fs dxc = dxc\<lparr>dxc_p := dxc_p dxc @ ps, dxc_final := dxc_final dxc @ fs\<rparr>"

text \<open>\<^verbatim>\<open>dxc.type.resize(dxc.p.size(), DxcTypeCollNonIon)\<close>.\<close>

definition type_resize :: "Deexcitation \<Rightarrow> Deexcitation" where
  "type_resize dxc = dxc\<lparr>dxc_type := resize (length (dxc_p dxc)) DxcTypeCollNonIon (dxc_type dxc)\<rparr>"

text \<open>Lines 2385-2410, with \<^verbatim>\<open>useTachibanaData = false\<close> and
  \<^verbatim>\<open>useCollMixing = true\<close> as the source fixes them.\<close>

definition collisional_4s :: "real \<Rightarrow> (string \<Rightarrow> int) \<Rightarrow> Deexcitation \<Rightarrow> Deexcitation" where
  "collisional_4s nAr lvl dxc =
     (if dxc_label dxc = ''Ar_1S5'' then
        (let d1 = push_channels [1.1 / 10 ^ 41 * nAr * nAr] [lvl ''Ar_Excimer''] dxc;
             d2 = push_channels [2.1 / 10 ^ 24 * nAr] [lvl ''Ar_1S4''] d1;
             d3 = d2\<lparr>dxc_type := dxc_type d2 @ [DxcTypeCollNonIon]\<rparr>
         in type_resize d3)
      else if dxc_label dxc = ''Ar_1S3'' then
        (let d1 = push_channels [0.83 / 10 ^ 41 * nAr * nAr] [lvl ''Ar_Excimer''] dxc;
             d2 = push_channels [5.3 / 10 ^ 24 * nAr] [lvl ''Ar_1S4''] d1
         in type_resize d2)
      else dxc)"

definition levels4s :: "(string \<Rightarrow> int) \<Rightarrow> int list" where
  "levels4s lvl = [lvl ''Ar_1S5'', lvl ''Ar_1S4'', lvl ''Ar_1S3'', lvl ''Ar_1S2'']"

text \<open>Transfer to the 4s states: \<^verbatim>\<open>p.resize(p.size() + levels4s.size(), 0.25 * k4s * nAr)\<close>
  and \<^verbatim>\<open>final.insert(final.end(), levels4s.begin(), levels4s.end())\<close>.\<close>

definition to_4s :: "real \<Rightarrow> real \<Rightarrow> (string \<Rightarrow> int) \<Rightarrow> Deexcitation \<Rightarrow> Deexcitation" where
  "to_4s k4s nAr lvl dxc = push_channels (replicate 4 (0.25 * k4s * nAr)) (levels4s lvl) dxc"

text \<open>Lines 2413-2548: collisional mixing within the 4p levels and transfer to 4s.\<close>

definition collisional_4p :: "real \<Rightarrow> (string \<Rightarrow> int) \<Rightarrow> Deexcitation \<Rightarrow> Deexcitation" where
  "collisional_4p nAr lvl dxc =
     (if dxc_label dxc = ''Ar_2P1'' then
        type_resize (to_4s (1.6 / 10 ^ 20) nAr lvl dxc)
      else if dxc_label dxc = ''Ar_2P2'' then
        type_resize (to_4s (5.3 / 10 ^ 20) nAr lvl
          (push_channels [0.5 / 10 ^ 21 * nAr] [lvl ''Ar_2P3''] dxc))
      else if dxc_label dxc = ''Ar_2P3'' then
        type_resize (to_4s (4.7 / 10 ^ 20) nAr lvl
          (push_channels
             [27.5 / 10 ^ 21 * nAr, 0.3 / 10 ^ 21 * nAr, 44.0 / 10 ^ 21 * nAr,
              1.4 / 10 ^ 21 * nAr, 1.9 / 10 ^ 21 * nAr, 0.8 / 10 ^ 21 * nAr]
             [lvl ''Ar_2P4'', lvl ''Ar_2P5'', lvl ''Ar_2P6'', lvl ''Ar_2P7'', lvl ''Ar_2P8'',
              lvl ''Ar_2P9'']
             dxc))
      else if dxc_label dxc = ''Ar_2P4'' then
        type_resize (to_4s (3.9 / 10 ^ 20) nAr lvl
          (push_channels
             [23.0 / 10 ^ 21 * nAr, 0.7 / 10 ^ 21 * nAr, 4.8 / 10 ^ 21 * nAr,
              3.2 / 10 ^ 21 * nAr, 1.4 / 10 ^ 21 * nAr, 3.3 / 10 ^ 21 * nAr]
             [lvl ''Ar_2P3'', lvl ''Ar_2P5'', lvl ''Ar_2P6'', lvl ''Ar_2P7'', lvl ''Ar_2P8'',
              lvl ''Ar_2P9'']
             dxc))
      else if dxc_label dxc = ''Ar_2P5'' then
        type_resize
          (push_channels
             [1.7 / 10 ^ 21 * nAr, 11.3 / 10 ^ 21 * nAr, 9.5 / 10 ^ 21 * nAr]
             [lvl ''Ar_2P4'', lvl ''Ar_2P6'', lvl ''Ar_2P8'']
             dxc)
      else if dxc_label dxc = ''Ar_2P6'' then
        type_resize
          (push_channels
             [4.1 / 10 ^ 21 * nAr, 6.0 / 10 ^ 21 * nAr, 1.0 / 10 ^ 21 * nAr]
             [lvl ''Ar_2P7'', lvl ''Ar_2P8'', lvl ''Ar_2P9'']
             dxc)
      else if dxc_label dxc = ''Ar_2P7'' then
        type_resize (to_4s (5.5 / 10 ^ 20) nAr lvl
          (push_channels
             [2.5 / 10 ^ 21 * nAr, 14.3 / 10 ^ 21 * nAr, 23.3 / 10 ^ 21 * nAr]
             [lvl ''Ar_2P6'', lvl ''Ar_2P8'', lvl ''Ar_2P9'']
             dxc))
      else if dxc_label dxc = ''Ar_2P8'' then
        type_resize (to_4s (3 / 10 ^ 20) nAr lvl
          (push_channels
             [0.3 / 10 ^ 21 * nAr, 0.8 / 10 ^ 21 * nAr, 18.2 / 10 ^ 21 * nAr,
              1.0 / 10 ^ 21 * nAr]
             [lvl ''Ar_2P6'', lvl ''Ar_2P7'', lvl ''Ar_2P9'', lvl ''Ar_2P10'']
             dxc))
      else if dxc_label dxc = ''Ar_2P9'' then
        type_resize (to_4s (3.5 / 10 ^ 20) nAr lvl
          (push_channels
             [6.8 / 10 ^ 21 * nAr, 5.1 / 10 ^ 21 * nAr]
             [lvl ''Ar_2P8'', lvl ''Ar_2P10'']
             dxc))
      else if dxc_label dxc = ''Ar_2P10'' then
        type_resize (to_4s (2.0 / 10 ^ 20) nAr lvl dxc)
      else dxc)"

definition levels4p :: "(string \<Rightarrow> int) \<Rightarrow> int list" where
  "levels4p lvl = [lvl ''Ar_2P10'', lvl ''Ar_2P9'', lvl ''Ar_2P8'', lvl ''Ar_2P7'', lvl ''Ar_2P6'',
                   lvl ''Ar_2P5'', lvl ''Ar_2P4'', lvl ''Ar_2P3'', lvl ''Ar_2P2'', lvl ''Ar_2P1'']"

definition levels_3d_5s :: "string list" where
  "levels_3d_5s = [''Ar_3D6'', ''Ar_3D5'', ''Ar_3D3'', ''Ar_3D4!'', ''Ar_3D4'', ''Ar_3D1!!'',
                   ''Ar_3D1!'', ''Ar_3D2'', ''Ar_3S1!!!!'', ''Ar_3S1!!'', ''Ar_3S1!!!'',
                   ''Ar_3S1!'', ''Ar_2S5'', ''Ar_2S4'', ''Ar_2S3'', ''Ar_2S2'']"

definition levels_higher :: "string list" where
  "levels_higher = [''Ar_4D5'', ''Ar_3S4'', ''Ar_4D2'', ''Ar_4S1!'', ''Ar_3S2'', ''Ar_5D5'',
                    ''Ar_4S4'', ''Ar_5D2'', ''Ar_6D5'', ''Ar_5S1!'', ''Ar_4S2'', ''Ar_5S4'',
                    ''Ar_6D2'']"

text \<open>Lines 2549-2587: transfer to the 4p levels with \<^verbatim>\<open>k4p = 1.e-20\<close>, and for the
  higher levels the Hornbeck-Molnar channel (\<^verbatim>\<open>kHM = 2.e-18\<close>) into the dimer.\<close>

definition collisional_high :: "real \<Rightarrow> (string \<Rightarrow> int) \<Rightarrow> Deexcitation \<Rightarrow> Deexcitation" where
  "collisional_high nAr lvl dxc =
     (if dxc_label dxc \<in> set levels_3d_5s then
        type_resize (push_channels (replicate 10 (0.1 * (1 / 10 ^ 20) * nAr)) (levels4p lvl) dxc)
      else if dxc_label dxc \<in> set levels_higher then
        (let d1 = type_resize
                    (push_channels (replicate 10 (0.1 * (1 / 10 ^ 20) * nAr)) (levels4p lvl) dxc);
             d2 = push_channels [2 / 10 ^ 18 * nAr] [lvl ''Ar_Dimer''] d1
         in d2\<lparr>dxc_type := dxc_type d2 @ [DxcTypeCollIon]\<rparr>)
      else dxc)"

text \<open>The block of lines 2354-2589: the two synthetic levels are appended, then every
  entry receives its collisional channels.\<close>

definition ar_collisional ::
  "real \<Rightarrow> nat \<Rightarrow> (string \<times> int) list \<Rightarrow> Deexcitation list \<Rightarrow> (string \<times> int) list \<times> Deexcitation list" where
  "ar_collisional nAr iAr lvl dxcs =
     (let lvl1 = (''Ar_Dimer'', int (length dxcs)) # lvl;
          dxcs1 = dxcs @ [synthetic_level ''Ar_Dimer'' iAr];
          lvl2 = (''Ar_Excimer'', int (length dxcs1)) # lvl1;
          dxcs2 = dxcs1 @ [synthetic_level ''Ar_Excimer'' iAr]
      in (lvl2,
          map (\<lambda>dxc. collisional_high nAr (lvl_at lvl2)
                        (collisional_4p nAr (lvl_at lvl2)
                           (collisional_4s nAr (lvl_at lvl2) dxc))) dxcs2))"

subsection \<open>Total rates and cumulative branching ratios (lines 3033-3094)\<close>

definition normalise_channels :: "Deexcitation \<Rightarrow> Deexcitation" where
  "normalise_channels dxc =
     (let nChannels = length (dxc_type dxc);
          rate = fold (\<lambda>j r. r + dxc_p dxc ! j) [0..<nChannels] 0
      in if rate > 0
         then dxc\<lparr>dxc_rate := rate,
                  dxc_p := fold (\<lambda>j p. let p1 = p[j := p ! j / rate]
                                         in if j > 0 then p1[j := p1 ! j + p1 ! (j - 1)] else p1)
                             [0..<nChannels] (dxc_p dxc)\<rparr>
         else dxc\<lparr>dxc_rate := rate\<rparr>)"

subsection \<open>The whole function\<close>

definition quencher_gases :: "string list" where
  "quencher_gases = [''CO2'', ''CH4'', ''C2H6'', ''C2H2'', ''CF4'', ''iC4H10'']"

definition ComputeDeexcitationTable :: "environment \<Rightarrow> constants \<Rightarrow> session \<Rightarrow> session" where
  "ComputeDeexcitationTable env c st =
     (let iD0 = replicate (length (m_iDeexcitation st)) (- 1);
          (iAr, mapLevels) = fold (map_level st) [0..<m_nTerms st] (- 1, []);
          (lvl, iD) = count_levels mapLevels iD0;
          (complete, dxcs) = radiative_entries c st lvl mapLevels []
      in if \<not> complete then st\<lparr>m_iDeexcitation := iD, m_deexcitations := dxcs\<rparr>
         else
           let dxcs1 = (if iAr \<ge> 0
                        then snd (ar_collisional
                                    (GetNumberDensity env * m_fraction st ! nat iAr) (nat iAr) lvl dxcs)
                        else dxcs);
               dxcs2 = (if iAr \<ge> 0
                           \<and> (\<exists>g \<in> set (take (m_nComponents st) (m_gas st)). g \<in> set quencher_gases)
                        then quenching env st dxcs1 else dxcs1)
           in st\<lparr>m_iDeexcitation := iD, m_deexcitations := map normalise_channels dxcs2\<rparr>)"

section \<open>Mixer (lines 1408-1934)\<close>

subsection \<open>GetGasNumberMagboltz (lines 1119-1406)\<close>

text \<open>The chain of comparisons of the gas name, as the table it is. The empty name and
  every name that is not listed make the function return \<^verbatim>\<open>false\<close>.\<close>

definition gas_numbers :: "(string \<times> int) list" where
  "gas_numbers = [
     (''CF4'', 1), (''Ar'', 2), (''He'', 3), (''He-4'', 3),
     (''He-3'', 4), (''Ne'', 5), (''Kr'', 6), (''Xe'', 7),
     (''CH4'', 8), (''C2H6'', 9), (''C3H8'', 10), (''iC4H10'', 11),
     (''CO2'', 12), (''neoC5H12'', 13), (''H2O'', 14), (''O2'', 15),
     (''N2'', 16), (''NO'', 17), (''N2O'', 18), (''C2H4'', 19),
     (''C2H2'', 20), (''H2'', 21), (''D2'', 22), (''CO'', 23),
     (''Methylal'', 24), (''DME'', 25), (''Reid-Step'', 26), (''Maxwell-Model'', 27),
     (''Reid-Ramp'', 28), (''C2F6'', 29), (''SF6'', 30), (''NH3'', 31),
     (''C3H6'', 32), (''cC3H6'', 33), (''CH3OH'', 34), (''C2H5OH'', 35),
     (''C3H7OH'', 36), (''Cs'', 37), (''F2'', 38), (''CS2'', 39),
     (''COS'', 40), (''CD4'', 41), (''BF3'', 42), (''C2HF5'', 43),
     (''C2H2F4'', 43), (''TMA'', 44), (''CHF3'', 50), (''CF3Br'', 51),
     (''C3F8'', 52), (''O3'', 53), (''Hg'', 54), (''H2S'', 55),
     (''nC4H10'', 56), (''nC5H12'', 57), (''N2 (Phelps)'', 58), (''GeH4'', 59),
     (''SiH4'', 60)]"

definition GetGasNumberMagboltz :: "string \<Rightarrow> int option" where
  "GetGasNumberMagboltz input = map_of gas_numbers input"

subsection \<open>SetScatteringParameters (lines 1982-2008)\<close>

text \<open>The pair returned is \<open>(cut, parOut)\<close>.\<close>

definition SetScatteringParameters :: "int \<Rightarrow> real \<Rightarrow> real \<times> real" where
  "SetScatteringParameters model parIn =
     (if model \<le> 0 then (1, 0.5)
      else if model \<ge> 2 then (1, parIn)
      else if parIn \<le> 1 then (1, parIn)
      else (let rads = 2 / pi;
                cns = parIn - 0.5;
                thetac = arcsin (2 * sqrt (cns - cns * cns));
                fac = (1 - cos thetac) / (sin thetac) ^ 2
            in (thetac * rads, cns * fac + 0.5)))"

subsection \<open>Resetting the tables (lines 1434-1455)\<close>

text \<open>\<^verbatim>\<open>assign(n, v)\<close> on a vector gives \<open>n\<close> copies of \<open>v\<close>; \<^verbatim>\<open>fill(v)\<close> on a
  \<^verbatim>\<open>std::array\<close> keeps its size.\<close>

definition Mixer_reset :: "session \<Rightarrow> session" where
  "Mixer_reset st = st
     \<lparr>m_cfTot := replicate nEnergySteps 0,
      m_cf := replicate nEnergySteps (replicate nMaxLevels 0),
      m_scatPar := replicate nEnergySteps (replicate nMaxLevels 0.5),
      m_scatCut := replicate nEnergySteps (replicate nMaxLevels 1),
      m_scatModel := replicate (length (m_scatModel st)) 0,
      m_cfTotLog := replicate nEnergyStepsLog 0,
      m_cfLog := replicate nEnergyStepsLog (replicate nMaxLevels 0),
      m_scatParLog := replicate nEnergyStepsLog (replicate nMaxLevels 0.5),
      m_scatCutLog := replicate nEnergyStepsLog (replicate nMaxLevels 1),
      m_deexcitations := [],
      m_iDeexcitation := replicate (length (m_iDeexcitation st)) (- 1),
      m_minIonPot := - 1,
      m_ionPot := replicate (length (m_ionPot st)) (- 1),
      m_wOpalBeaty := replicate (length (m_wOpalBeaty st)) 1,
      m_parGreenSawada := replicate (length (m_parGreenSawada st)) [1, 0, 0, 0, 0],
      m_hasGreenSawada := replicate (length (m_hasGreenSawada st)) False\<rparr>"

subsection \<open>The levels of one gas (lines 1571-1659)\<close>

definition set_level :: "nat \<Rightarrow> int \<Rightarrow> real \<Rightarrow> string \<Rightarrow> nat \<Rightarrow> session \<Rightarrow> session" where
  "set_level np model loss descr type st = st
     \<lparr>m_scatModel := (m_scatModel st)[np := model],
      m_energyLoss := (m_energyLoss st)[np := loss],
      m_description := (m_description st)[np := descr],
      m_csType := (m_csType st)[np := type]\<rparr>"

text \<open>One pass of the loop over the ionisation terms (lines 1582-1593); the state is
  \<open>(np, withIon, session)\<close>.\<close>

definition ion_level ::
  "gasdata \<Rightarrow> nat \<Rightarrow> real \<Rightarrow> nat \<Rightarrow> nat \<times> bool \<times> session \<Rightarrow> nat \<times> bool \<times> session" where
  "ion_level gd iGas r j = (\<lambda>(np, withIon, st).
     if m_eFinal st < g_eIon gd ! j then (np, withIon, st)
     else (np + 1, True,
           set_level (np + 1) (g_kEl gd ! 2) (g_eIon gd ! j / r) (g_scrpt gd ! (2 + j))
             (nCsTypes * iGas + ElectronCollisionTypeIonisation)
             (st\<lparr>m_nTerms := m_nTerms st + 1,
                 m_wOpalBeaty := (m_wOpalBeaty st)[np + 1 := g_eoby gd ! j]\<rparr>)))"

definition set_GreenSawada_0_4 :: "nat \<Rightarrow> real \<Rightarrow> real \<Rightarrow> session \<Rightarrow> session" where
  "set_GreenSawada_0_4 iGas v0 v4 st = st
     \<lparr>m_parGreenSawada :=
        (m_parGreenSawada st)[iGas := ((m_parGreenSawada st ! iGas)[0 := v0])[4 := v4]]\<rparr>"

text \<open>Lines 1641-1654: the type of an inelastic term, from its description, the gas
  and the sign of its threshold.\<close>

definition inelastic_type :: "string \<Rightarrow> string \<Rightarrow> real \<Rightarrow> nat" where
  "inelastic_type gas descr eIn =
     (if (descr ! 1 = CHR ''E'' \<and> descr ! 2 = CHR ''X'')
         \<or> (descr ! 0 = CHR ''E'' \<and> descr ! 1 = CHR ''X'')
         \<or> (gas = ''N2'' \<and> eIn > 6)
      then ElectronCollisionTypeExcitation
      else if eIn < 0 then ElectronCollisionTypeSuperelastic
      else ElectronCollisionTypeInelastic)"

definition inelastic_level ::
  "gasdata \<Rightarrow> nat \<Rightarrow> real \<Rightarrow> nat \<Rightarrow> nat \<times> session \<Rightarrow> nat \<times> session" where
  "inelastic_level gd iGas r j = (\<lambda>(np, st).
     let descr = g_scrpt gd ! (5 + g_nIon gd + 0 + j)
     in (np + 1,
         set_level (np + 1) (g_kIn gd ! j) (g_eIn gd ! j / r) descr
           (nCsTypes * iGas + inelastic_type (m_gas st ! iGas) descr (g_eIn gd ! j)) st))"

text \<open>The whole of lines 1571-1659. The number of attachment terms \<^verbatim>\<open>nAtt\<close> is
  set to 0 at its declaration and never changed, so of the two attachment branches
  only the second one (a single attachment term) is ever taken. The result is
  \<open>(withIon, session)\<close>.\<close>

definition gas_levels :: "gasdata \<Rightarrow> nat \<Rightarrow> nat \<Rightarrow> session \<Rightarrow> bool \<times> session" where
  "gas_levels gd iGas np0 st =
     (let r = 1 + 0.5 * g_e gd ! 1;
          st1 = set_level np0 (g_kEl gd ! 1) 0 (g_scrpt gd ! 1)
                  (nCsTypes * iGas + ElectronCollisionTypeElastic)
                  (st\<lparr>m_nTerms := m_nTerms st + 1, m_rgas := (m_rgas st)[iGas := r]\<rparr>);
          (np2, withIon, st2) =
            (if g_nIon gd > 1 then
               (let (np, w, s) = fold (ion_level gd iGas r) [0..<g_nIon gd] (np0, False, st1)
                in (np, w, (set_GreenSawada_0_4 iGas (g_eoby gd ! 0) (2 * g_eIon gd ! 0) s)
                             \<lparr>m_ionPot := (m_ionPot s)[iGas := g_eIon gd ! 0]\<rparr>))
             else if m_eFinal st1 \<ge> g_e gd ! 2 then
               (let s = set_level (np0 + 1) (g_kEl gd ! 2) (g_e gd ! 2 / r) (g_scrpt gd ! 2)
                          (nCsTypes * iGas + ElectronCollisionTypeIonisation)
                          (st1\<lparr>m_nTerms := m_nTerms st1 + 1,
                               m_wOpalBeaty := (m_wOpalBeaty st1)[np0 + 1 := g_eoby gd ! 0]\<rparr>)
                in (np0 + 1, True,
                    (set_GreenSawada_0_4 iGas (g_eoby gd ! 0) (2 * g_e gd ! 2) s)
                      \<lparr>m_ionPot := (m_ionPot s)[iGas := g_e gd ! 2]\<rparr>))
             else (np0, False, st1));
          st3 = set_level (np2 + 1) 0 0 (g_scrpt gd ! (2 + g_nIon gd))
                  (nCsTypes * iGas + ElectronCollisionTypeAttachment)
                  (st2\<lparr>m_nTerms := m_nTerms st2 + 1\<rparr>);
          (np4, st4) = fold (inelastic_level gd iGas r) [0..<g_nIn gd] (np2 + 1, st3)
      in (withIon, st4\<lparr>m_nTerms := m_nTerms st4 + g_nIn gd\<rparr>))"

subsection \<open>The collision frequencies of one gas in one bin (lines 1661-1726, 1741-1799)\<close>

text \<open>The three rows of a bin: collision frequencies, angular cuts, angular parameters.\<close>

type_synonym rows = "real list \<times> real list \<times> real list"

text \<open>A term with its frequency and its scattering parameters.\<close>

definition put_term :: "nat \<Rightarrow> real \<Rightarrow> int \<Rightarrow> real \<Rightarrow> rows \<Rightarrow> rows" where
  "put_term np v model parIn = (\<lambda>(cf, cuts, par).
     let (cuts', par') = SetScatteringParameters model parIn
     in (cf[np := v], cuts[np := cuts'], par[np := par']))"

definition ion_term ::
  "session \<Rightarrow> gasdata \<Rightarrow> real \<Rightarrow> nat \<Rightarrow> nat \<Rightarrow> nat \<times> rows \<Rightarrow> nat \<times> rows" where
  "ion_term st gd van k j = (\<lambda>(np, rs).
     if m_eFinal st < g_eIon gd ! j then (np, rs)
     else (np + 1,
           put_term (np + 1) (g_qIon gd ! k ! j * van) (m_scatModel st ! (np + 1))
             (g_pEqIon gd ! k ! j) rs))"

definition inelastic_term ::
  "session \<Rightarrow> gasdata \<Rightarrow> nat \<Rightarrow> real \<Rightarrow> nat \<Rightarrow> nat \<Rightarrow> nat \<times> rows \<Rightarrow> nat \<times> rows" where
  "inelastic_term st gd iGas van k j = (\<lambda>(np, rs).
     let v = g_qIn gd ! k ! j * van * m_scaleExc st ! iGas;
         v' = (if v < 0 then 0 else v)
     in (np + 1, put_term (np + 1) v' (m_scatModel st ! (np + 1)) (g_pEqIn gd ! k ! j) rs))"

text \<open>The body of the loop over the energy table for the row \<open>k\<close> of the provider's
  arrays (\<open>k = iE\<close> on the linear grid, \<open>k = imax\<close> on the logarithmic one). On the linear
  grid the attachment term also sets its angular parameter to 0.5.\<close>

definition fill_bin ::
  "session \<Rightarrow> gasdata \<Rightarrow> nat \<Rightarrow> real \<Rightarrow> bool \<Rightarrow> nat \<Rightarrow> nat \<Rightarrow> bool \<Rightarrow> rows \<Rightarrow> rows" where
  "fill_bin st gd iGas van withIon np0 k onLinearGrid rs0 =
     (let rs1 = put_term np0 (g_q gd ! k ! 1 * van) (m_scatModel st ! np0) (g_pEqEl gd ! k ! 1) rs0;
          (np2, rs2) =
            (if withIon then
               (if g_nIon gd > 1 then fold (ion_term st gd van k) [0..<g_nIon gd] (np0, rs1)
                else (np0 + 1,
                      put_term (np0 + 1) (g_q gd ! k ! 2 * van) (m_scatModel st ! (np0 + 1))
                        (g_pEqEl gd ! k ! 2) rs1))
             else (np0, rs1));
          np3 = np2 + 1;
          rs3 = (case rs2 of (cf, cuts, par) \<Rightarrow>
                   (cf[np3 := g_q gd ! k ! 3 * van], cuts,
                    if onLinearGrid then par[np3 := 0.5] else par))
      in snd (fold (inelastic_term st gd iGas van k) [0..<g_nIn gd] (np3, rs3)))"

text \<open>Lines 1661-1726: the loop over the linear grid.\<close>

definition gas_linear ::
  "session \<Rightarrow> gasdata \<Rightarrow> nat \<Rightarrow> real \<Rightarrow> bool \<Rightarrow> nat \<Rightarrow> session" where
  "gas_linear st gd iGas van withIon np0 =
     (let (cf, cuts, par) =
            fold (\<lambda>iE (cf, cuts, par).
                    let (r1, r2, r3) = fill_bin st gd iGas van withIon np0 iE True
                                         (cf ! iE, cuts ! iE, par ! iE)
                    in (cf[iE := r1], cuts[iE := r2], par[iE := r3]))
              [0..<nEnergySteps] (m_cf st, m_scatCut st, m_scatPar st)
      in st\<lparr>m_cf := cf, m_scatCut := cuts, m_scatPar := par\<rparr>)"

text \<open>Lines 1727-1802: the logarithmic grid, entered only when \<^verbatim>\<open>m_eFinal > m_eHigh\<close>.
  The provider is called again for every bin with the grid of that bin; the state of
  the loop carries \<^verbatim>\<open>emax\<close>.\<close>

definition gas_log ::
  "environment \<Rightarrow> session \<Rightarrow> int \<Rightarrow> nat \<Rightarrow> real \<Rightarrow> bool \<Rightarrow> nat \<Rightarrow> session" where
  "gas_log env st ngs iGas van withIon np0 =
     (if m_eFinal st \<le> m_eHigh st then st
      else
        let rLog = (m_eFinal st / m_eHigh st) powr (1 / real nEnergyStepsLog);
            imax = nEnergySteps - 1;
            (emax, cf, cuts, par) =
              fold (\<lambda>iE (emax, cf, cuts, par).
                      let estep = emax / (real nEnergySteps - 0.5);
                          efinal = emax + 0.5 * estep;
                          gd = gasmix env (m_useAnisotropic st) ngs estep efinal;
                          (r1, r2, r3) = fill_bin st gd iGas van withIon np0 imax False
                                           (cf ! iE, cuts ! iE, par ! iE)
                      in (emax * rLog, cf[iE := r1], cuts[iE := r2], par[iE := r3]))
                [0..<nEnergyStepsLog]
                (m_eHigh st * rLog, m_cfLog st, m_scatCutLog st, m_scatParLog st)
        in st\<lparr>m_lnStep := ln rLog, m_cfLog := cf, m_scatCutLog := cuts, m_scatParLog := par\<rparr>)"

subsection \<open>The loop over the gases (lines 1512-1803)\<close>

text \<open>One gas. \<open>None\<close> is the \<^verbatim>\<open>return false\<close> of line 1561, under the comment
  ``Make sure there is still sufficient space'': the test counts \<open>nIn + nIon + 1\<close>
  terms for the gas. The levels entered for a gas with at most one ionisation term are
  the elastic one, one ionisation when the threshold is within the range, one
  attachment and the \<open>nIn\<close> inelastic ones, so a gas with \<^verbatim>\<open>nIon = 0\<close> passes the test
  with up to 513 terms in all. The source then writes the entry 512 of vectors and
  arrays of 512 entries (\<^verbatim>\<open>m_cf[iE][512]\<close>, \<^verbatim>\<open>m_csType[512]\<close> and the others), which
  C++ leaves undefined; an update of a list beyond its end leaves the list as it is. The
  statements about the tables are made for \<^verbatim>\<open>m_nTerms\<close> up to \<open>nMaxLevels\<close>.\<close>

definition Mixer_gas ::
  "environment \<Rightarrow> real \<Rightarrow> int list \<Rightarrow> nat \<Rightarrow> session \<Rightarrow> session option" where
  "Mixer_gas env prefactor gasNumber iGas st =
     (let ngs = gasNumber ! iGas;
          gd = gasmix env (m_useAnisotropic st) ngs (m_eStep st) (min (m_eFinal st) (m_eHigh st));
          np0 = m_nTerms st
      in if np0 + g_nIn gd + g_nIon gd + 1 \<ge> nMaxLevels then None
         else
           let van = m_fraction st ! iGas * prefactor;
               (withIon, st1) = gas_levels gd iGas np0 st;
               st2 = gas_linear st1 gd iGas van withIon np0
           in Some (gas_log env st2 ngs iGas van withIon np0))"

fun Mixer_gases ::
  "environment \<Rightarrow> real \<Rightarrow> int list \<Rightarrow> nat list \<Rightarrow> session \<Rightarrow> bool \<times> session" where
  "Mixer_gases env prefactor gasNumber [] st = (True, st)"
| "Mixer_gases env prefactor gasNumber (iGas # rest) st =
     (case Mixer_gas env prefactor gasNumber iGas st of
        None \<Rightarrow> (False, st)
      | Some st' \<Rightarrow> Mixer_gases env prefactor gasNumber rest st')"

subsection \<open>Totals, cumulative probabilities, null-collision rate (lines 1806-1881)\<close>

text \<open>\<^verbatim>\<open>std::min_element\<close> over the first \<^verbatim>\<open>m_nComponents\<close> ionisation potentials;
  on an empty range it returns the iterator to the first element.\<close>

definition min_ionPot :: "session \<Rightarrow> real" where
  "min_ionPot st =
     (case take (m_nComponents st) (m_ionPot st) of
        [] \<Rightarrow> m_ionPot st ! 0
      | x # xs \<Rightarrow> fold min xs x)"

definition Mixer_rates :: "constants \<Rightarrow> session \<Rightarrow> session" where
  "Mixer_rates c st0 =
     (let st1 = st0\<lparr>m_minIonPot := min_ionPot st0\<rparr>;
          (cf, cfTot) =
            fold (\<lambda>iE (cf, cfTot).
                    let (row, tot) = Mixer_linear_bin c (m_eStep st1) (m_nTerms st1) iE
                                       (cf ! iE, cfTot ! iE)
                    in (cf[iE := row], cfTot[iE := tot]))
              (rev [0..<nEnergySteps]) (m_cf st1, m_cfTot st1);
          st2 = st1\<lparr>m_cf := cf, m_cfTot := cfTot\<rparr>;
          st3 =
            (if m_eFinal st2 > m_eHigh st2 then
               (let rLog = (m_eFinal st2 / m_eHigh st2) powr (1 / real nEnergyStepsLog);
                    (cfLog, cfTotLog) =
                      fold (\<lambda>iE (cf, cfTot).
                              let (row, tot) = Mixer_log_bin c (m_eHigh st2) rLog (m_nTerms st2) iE
                                                 (cf ! iE, cfTot ! iE)
                              in (cf[iE := row], cfTot[iE := tot]))
                        (rev [0..<nEnergyStepsLog]) (m_cfLog st2, m_cfTotLog st2)
                in st2\<lparr>m_cfLog := cfLog, m_cfTotLog := cfTotLog\<rparr>)
             else st2);
          null1 = fold (\<lambda>j n. if m_cfTot st3 ! j > n then m_cfTot st3 ! j else n)
                    [0..<nEnergySteps] 0;
          null2 = (if m_eFinal st3 > m_eHigh st3
                   then fold (\<lambda>j n. let r = exp (m_cfTotLog st3 ! j) in if r > n then r else n)
                          [0..<nEnergyStepsLog] null1
                   else null1)
      in st3\<lparr>m_cfNull := null2,
             m_nCollisionsDetailed := replicate (m_nTerms st3) 0,
             m_nCollisions := replicate (length (m_nCollisions st3)) 0\<rparr>)"

subsection \<open>De-excitation, photons, Penning parameters (lines 1896-1933)\<close>

text \<open>Lines 1896-1908: the channel lists of every entry must have one length, or
  de-excitation is switched off.\<close>

definition Mixer_deexcitation :: "environment \<Rightarrow> constants \<Rightarrow> session \<Rightarrow> session" where
  "Mixer_deexcitation env c st =
     (if m_useDeexcitation st then
        (let st1 = ComputeDeexcitationTable env c st
         in if list_all (\<lambda>dxc. length (dxc_p dxc) = length (dxc_final dxc)
                               \<and> length (dxc_p dxc) = length (dxc_type dxc))
                 (m_deexcitations st1)
            then st1 else st1\<lparr>m_useDeexcitation := False\<rparr>)
      else st)"

text \<open>\<^verbatim>\<open>ComputePhotonCollisionTable\<close> (lines 3252-3405). The photon rate tables
  themselves are not part of the modelled session (no modelled function reads them);
  what is kept is the result of the call and the line parameters it writes into the
  de-excitation entries with an oscillator strength (lines 3342-3369).\<close>

definition line_parameters :: "environment \<Rightarrow> constants \<Rightarrow> session \<Rightarrow> Deexcitation \<Rightarrow> Deexcitation" where
  "line_parameters env c st dxc =
     (if dxc_osc dxc < Small c then dxc
      else
        let dens = GetNumberDensity env;
            f2cs = FineStructureConstant c * 2 * (pi * pi) * HbarC c * HbarC c / ElectronMass c;
            prefactor = dens * SpeedOfLight c * m_fraction st ! dxc_gas dxc;
            mgas = ElectronMass c / (m_rgas st ! dxc_gas dxc - 1);
            wDoppler = sqrt (BoltzmannConstant c * m_temperature st / mgas);
            sDoppler = wDoppler * dxc_energy dxc;
            kResBroad = 1.92 * pi * sqrt (1 / 3);
            gPressure = kResBroad * FineStructureConstant c * HbarC c ^ 3 * dxc_osc dxc * dens
                        * m_fraction st ! dxc_gas dxc / (ElectronMass c * dxc_energy dxc);
            fwhmGauss = sDoppler * sqrt (2 * ln 2);
            fwhmLorentz = gPressure;
            fwhmVoigt = 0.5 * (1.0692 * fwhmLorentz
                               + sqrt (0.86639 * fwhmLorentz * fwhmLorentz
                                       + 4 * fwhmGauss * fwhmGauss))
        in dxc\<lparr>dxc_cf := prefactor * f2cs * dxc_osc dxc, dxc_sDoppler := sDoppler,
                dxc_gPressure := gPressure, dxc_width := 1000 * fwhmVoigt\<rparr>)"

definition ComputePhotonCollisionTable ::
  "environment \<Rightarrow> constants \<Rightarrow> session \<Rightarrow> bool \<times> session" where
  "ComputePhotonCollisionTable env c st =
     (if list_ex (\<lambda>g. \<not> optical_IsAvailable env (if g = ''iC4H10'' then ''nC4H10'' else g))
           (take (m_nComponents st) (m_gas st))
      then (False, st)
      else if \<not> m_useDeexcitation st then (True, st)
      else (True, st\<lparr>m_deexcitations := map (line_parameters env c st) (m_deexcitations st)\<rparr>))"

text \<open>Lines 1920-1928.\<close>

definition reset_Penning :: "constants \<Rightarrow> session \<Rightarrow> session" where
  "reset_Penning c st =
     fold (\<lambda>i s.
             let s1 = s\<lparr>m_rPenning := (m_rPenning s)[i := m_rPenningGlobal s]\<rparr>;
                 iGas = m_csType s1 ! i div nCsTypes
             in if m_rPenningGas s1 ! iGas > Small c
                then s1\<lparr>m_rPenning := (m_rPenning s1)[i := m_rPenningGas s1 ! iGas],
                        m_lambdaPenning := (m_lambdaPenning s1)[i := m_lambdaPenningGas s1 ! iGas]\<rparr>
                else s1)
       [0..<m_nTerms st] st"

text \<open>\<^verbatim>\<open>SetupGreenSawada\<close> (lines 1936-1980): the fit parameters by gas name.\<close>

definition GreenSawada_table :: "(string \<times> real \<times> real \<times> real) list" where
  "GreenSawada_table = [
     (''He'', 15.5, 24.5, - 2.25), (''He-3'', 15.5, 24.5, - 2.25),
     (''Ne'', 24.3, 21.6, - 6.49), (''Ar'', 6.92, 7.85, 6.87),
     (''Kr'', 7.95, 13.5, 3.90), (''Xe'', 7.93, 11.5, 3.81),
     (''H2'', 7.07, 7.7, 1.87), (''D2'', 7.07, 7.7, 1.87),
     (''N2'', 13.8, 15.6, 4.71), (''O2'', 18.5, 12.1, 1.86),
     (''CH4'', 7.06, 12.5, 3.45), (''H2O'', 12.8, 12.6, 1.28),
     (''CO'', 13.3, 14.0, 2.03), (''C2H2'', 9.28, 5.8, 1.37),
     (''NO'', 10.4, 9.5, - 4.30), (''CO2'', 12.3, 13.8, - 2.46)]"

definition SetupGreenSawada :: "session \<Rightarrow> session" where
  "SetupGreenSawada st =
     fold (\<lambda>i s.
             let ta = 1000;
                 tb = m_parGreenSawada s ! i ! 4
             in case map_of GreenSawada_table (m_gas s ! i) of
                  Some (gs, gb, ts) \<Rightarrow>
                    s\<lparr>m_hasGreenSawada := (m_hasGreenSawada s)[i := True],
                      m_parGreenSawada := (m_parGreenSawada s)[i := [gs, gb, ts, ta, tb]]\<rparr>
                | None \<Rightarrow>
                    s\<lparr>m_hasGreenSawada := (m_hasGreenSawada s)[i := False],
                      m_parGreenSawada :=
                        (m_parGreenSawada s)[i := (m_parGreenSawada s ! i)[3 := 0]]\<rparr>)
       [0..<m_nComponents st] st"

definition Mixer_finish :: "environment \<Rightarrow> constants \<Rightarrow> session \<Rightarrow> session" where
  "Mixer_finish env c st =
     (let st1 = Mixer_deexcitation env c st;
          (ok, st2) = ComputePhotonCollisionTable env c st1;
          st3 = (if \<not> ok \<and> m_useDeexcitation st2 then st2\<lparr>m_useDeexcitation := False\<rparr> else st2)
      in SetupGreenSawada (reset_Penning c st3))"

subsection \<open>The function\<close>

text \<open>The result is the returned flag and the session as the call leaves it. Every
  \<^verbatim>\<open>return false\<close> comes after the tables have been reset.\<close>

definition Mixer :: "environment \<Rightarrow> constants \<Rightarrow> session \<Rightarrow> bool \<times> session" where
  "Mixer env c st0 =
     (let prefactor = GetNumberDensity env * SpeedOfLight c * sqrt (2 / ElectronMass c);
          st1 = Mixer_reset st0;
          numbers = map GetGasNumberMagboltz (take (m_nComponents st1) (m_gas st1))
      in if list_ex (\<lambda>n. n = None) numbers then (False, st1)
         else
           case Mixer_gases env prefactor (map the numbers) [0..<m_nComponents st1]
                  (st1\<lparr>m_nTerms := 0\<rparr>) of
             (False, st2) \<Rightarrow> (False, st2)
           | (True, st2) \<Rightarrow> (True, Mixer_finish env c (Mixer_rates c st2)))"

section \<open>Sampling\<close>

subsection \<open>The random source\<close>

text \<open>
  \<^verbatim>\<open>RndmUniform\<close>, \<^verbatim>\<open>RndmUniformPos\<close> and \<^verbatim>\<open>RndmVoigt\<close> belong to Random.hh,
  outside the sources. A run is modelled with the sequence \<open>rnd\<close> of the values that
  the successive calls to the random source return, whatever the function called:
  \<open>rnd k\<close> is what call number \<open>k\<close> returns. The position \<open>k\<close> of the next call is
  threaded through the functions. What a theorem needs of the values (a uniform draw
  lies in \<open>[0, 1)\<close>) is a hypothesis of that theorem.
\<close>

type_synonym rsource = "nat \<Rightarrow> real"

subsection \<open>ComputeDeexcitationInternal (lines 3161-3250)\<close>

text \<open>Lines 3181-3187: the first channel whose cumulative probability is at least \<open>r\<close>;
  without one \<^verbatim>\<open>fLevel\<close> stays -1 and the type stays radiative.\<close>

fun select_channel :: "Deexcitation \<Rightarrow> real \<Rightarrow> nat list \<Rightarrow> int \<times> int" where
  "select_channel dxc r [] = (- 1, DxcTypeRad)"
| "select_channel dxc r (j # js) =
     (if r \<le> dxc_p dxc ! j then (dxc_final dxc ! j, dxc_type dxc ! j)
      else select_channel dxc r js)"

text \<open>Lines 3204-3207: the offset of the photon energy is drawn again until it is
  accepted. The loop has no bound in the source; here it has fuel, and \<open>None\<close> says that
  the fuel did not suffice.\<close>

fun voigt_delta ::
  "nat \<Rightarrow> constants \<Rightarrow> rsource \<Rightarrow> nat \<Rightarrow> real \<Rightarrow> real \<Rightarrow> (real \<times> nat) option" where
  "voigt_delta 0 c rnd k energy width = None"
| "voigt_delta (Suc n) c rnd k energy width =
     (let delta = rnd k
      in if energy + delta < Small c \<or> \<bar>delta\<bar> \<ge> width
         then voigt_delta n c rnd (k + 1) energy width
         else Some (delta, k + 1))"

definition floor_Small :: "constants \<Rightarrow> real \<Rightarrow> real" where
  "floor_Small c x = (if x < Small c then Small c else x)"

definition add_product :: "dxcProd \<Rightarrow> session \<Rightarrow> session" where
  "add_product p st = st\<lparr>m_dxcProducts := m_dxcProducts st @ [p]\<rparr>"

text \<open>The \<^verbatim>\<open>while\<close> loop of lines 3167-3249. The fuel \<open>n\<close> counts the passes that
  the loop may still make; \<open>vfuel\<close> is the fuel of each resampling loop. The state is
  the current level, the time, \<^verbatim>\<open>fLevel\<close>, the session and the position in the
  random source; the result is \<^verbatim>\<open>fLevel\<close>, the session and the position, or \<open>None\<close>
  when the fuel runs out before the loop ends.\<close>

fun dxc_loop ::
  "nat \<Rightarrow> nat \<Rightarrow> constants \<Rightarrow> rsource \<Rightarrow> int \<Rightarrow> real \<Rightarrow> int \<Rightarrow> session \<times> nat
   \<Rightarrow> (int \<times> session \<times> nat) option" where
  "dxc_loop 0 vfuel c rnd iLevel t fLevel (st, k) =
     (if iLevel \<ge> 0 \<and> iLevel < int (length (m_deexcitations st)) then None
      else Some (fLevel, st, k))"
| "dxc_loop (Suc n) vfuel c rnd iLevel t fLevel (st, k) =
     (if \<not> (iLevel \<ge> 0 \<and> iLevel < int (length (m_deexcitations st))) then Some (fLevel, st, k)
      else
        let dxc = m_deexcitations st ! nat iLevel;
            nChannels = length (dxc_p dxc)
        in if dxc_rate dxc \<le> 0 \<or> nChannels \<le> 0 then Some (iLevel, st, k)
           else
             let t' = t + (- ln (rnd k)) / dxc_rate dxc;
                 r = rnd (k + 1);
                 (fLevel', type) = select_channel dxc r [0..<nChannels]
             in if type = DxcTypeRad then
                  (if fLevel' \<ge> 0 then
                     dxc_loop n vfuel c rnd fLevel' t' fLevel'
                       (add_product
                          \<lparr>prod_s = 0, prod_t = t', prod_type = DxcProdTypePhoton,
                           prod_energy = floor_Small c
                              (dxc_energy dxc - dxc_energy (m_deexcitations st ! nat fLevel'))\<rparr>
                          st, k + 2)
                   else
                     (case voigt_delta vfuel c rnd (k + 2) (dxc_energy dxc) (dxc_width dxc) of
                        None \<Rightarrow> None
                      | Some (delta, k') \<Rightarrow>
                          Some (iLevel,
                                add_product
                                  \<lparr>prod_s = 0, prod_t = t', prod_type = DxcProdTypePhoton,
                                   prod_energy = dxc_energy dxc + delta\<rparr> st,
                                k')))
                else if type = DxcTypeCollIon then
                  (if fLevel' \<ge> 0 then
                     dxc_loop n vfuel c rnd fLevel' t' fLevel'
                       ((add_product
                           \<lparr>prod_s = 0, prod_t = t', prod_type = DxcProdTypeElectron,
                            prod_energy = floor_Small c
                               (dxc_energy dxc - dxc_energy (m_deexcitations st ! nat fLevel'))\<rparr>
                           st)\<lparr>m_nPenning := m_nPenning st + 1\<rparr>, k + 2)
                   else
                     Some (iLevel,
                           (add_product
                              \<lparr>prod_s = 0, prod_t = t', prod_type = DxcProdTypeElectron,
                               prod_energy = floor_Small c (dxc_energy dxc - m_minIonPot st)\<rparr>
                              st)\<lparr>m_nPenning := m_nPenning st + 1\<rparr>,
                           k + 2))
                else if type = DxcTypeCollNonIon then
                  dxc_loop n vfuel c rnd fLevel' t' fLevel' (st, k + 2)
                else Some (iLevel, st, k + 2))"

definition ComputeDeexcitationInternal ::
  "nat \<Rightarrow> nat \<Rightarrow> constants \<Rightarrow> rsource \<Rightarrow> int \<Rightarrow> session \<times> nat \<Rightarrow> (int \<times> session \<times> nat) option" where
  "ComputeDeexcitationInternal fuel vfuel c rnd iLevel = (\<lambda>(st, k).
     dxc_loop fuel vfuel c rnd iLevel 0 iLevel (st\<lparr>m_dxcProducts := []\<rparr>, k))"

subsection \<open>Energy range and collision rate (lines 84-108, 513-560)\<close>

definition SetMaxElectronEnergy :: "constants \<Rightarrow> real \<Rightarrow> session \<Rightarrow> bool \<times> session" where
  "SetMaxElectronEnergy c e st =
     (if e \<le> Small c then (False, st)
      else (True, st\<lparr>m_eFinal := e,
                      m_eStep := (if e \<le> m_eHigh st then e / real nEnergySteps
                                  else m_eHigh st / real nEnergySteps),
                      m_isChanged := True\<rparr>))"

text \<open>\<^verbatim>\<open>std::min(std::max(int(x), 0), n - 1)\<close>: the conversion truncates, and every
  negative \<open>x\<close> ends at 0 as the floor does.\<close>

definition bin_index :: "real \<Rightarrow> nat \<Rightarrow> nat" where
  "bin_index x n = min (nat \<lfloor>x\<rfloor>) (n - 1)"

text \<open>The function returns a \<^verbatim>\<open>double\<close> in every case: the model returns that
  number and the session.\<close>

definition GetElectronCollisionRate ::
  "environment \<Rightarrow> constants \<Rightarrow> session \<Rightarrow> real \<Rightarrow> real \<times> session" where
  "GetElectronCollisionRate env c st0 e =
     (if e \<le> 0 then (m_cfTot st0 ! 0, st0)
      else
        let st1 = (if e > m_eFinal st0 \<and> m_useAutoAdjust st0
                   then snd (SetMaxElectronEnergy c (1.05 * e) st0) else st0);
            (ok, st2) = (if m_isChanged st1
                         then (case Mixer env c st1 of
                                 (False, s) \<Rightarrow> (False, s)
                               | (True, s) \<Rightarrow> (True, s\<lparr>m_isChanged := False\<rparr>))
                         else (True, st1))
        in if \<not> ok then (0, st2)
           else if e \<le> m_eHigh st2
           then (m_cfTot st2 ! bin_index (e / m_eStep st2) nEnergySteps, st2)
           else
             let eLog = ln e;
                 iE = nat \<lfloor>(eLog - m_eHighLog st2) / m_lnStep st2\<rfloor>;
                 fmax = m_cfTotLog st2 ! iE;
                 fmin = (if iE = 0 then ln (m_cfTot st2 ! (nEnergySteps - 1))
                         else m_cfTotLog st2 ! (iE - 1));
                 emin = m_eHighLog st2 + real iE * m_lnStep st2;
                 f = fmin + (eLog - emin) * (fmax - fmin) / m_lnStep st2
             in (exp f, st2))"

subsection \<open>GetElectronCollision (lines 605-827)\<close>

text \<open>What the call hands back through its reference parameters.\<close>

record collision =
  col_type :: nat
  col_level :: nat
  col_e1 :: real
  col_dx :: real
  col_dy :: real
  col_dz :: real
  col_secondaries :: "(ionProdType \<times> real) list"
  col_ndxc :: nat

text \<open>Lines 611-631: the check of the energy and the update of the tables. \<open>None\<close> is
  \<^verbatim>\<open>return false\<close>, paired with the session as it is left.\<close>

definition prepare_tables ::
  "environment \<Rightarrow> constants \<Rightarrow> session \<Rightarrow> real \<Rightarrow> bool \<times> session" where
  "prepare_tables env c st0 e =
     (if e > m_eFinal st0 \<and> m_useAutoAdjust st0 then
        (let st1 = snd (SetMaxElectronEnergy c (1.05 * e) st0)
         in if m_isChanged st1
            then (case Mixer env c st1 of
                    (False, s) \<Rightarrow> (False, s)
                  | (True, s) \<Rightarrow> (True, s\<lparr>m_isChanged := False\<rparr>))
            else (True, st1))
      else if e \<le> 0 then (False, st0)
      else if m_isChanged st0
      then (case Mixer env c st0 of
              (False, s) \<Rightarrow> (False, s)
            | (True, s) \<Rightarrow> (True, s\<lparr>m_isChanged := False\<rparr>))
      else (True, st0))"

text \<open>Lines 641-677: the bin, the level and the angular parameters of the level. The
  result is \<open>(level, angCut, angPar)\<close>; one value of the random source is used.\<close>

definition choose_level :: "session \<Rightarrow> real \<Rightarrow> real \<Rightarrow> nat \<times> real \<times> real" where
  "choose_level st e r =
     (if e \<le> m_eHigh st then
        (let iE = bin_index (e / m_eStep st) nEnergySteps;
             level = sample_level (m_cf st ! iE) (m_nTerms st) r
         in (level, m_scatCut st ! iE ! level, m_scatPar st ! iE ! level))
      else
        (let iE = bin_index (ln (e / m_eHigh st) / m_lnStep st) nEnergyStepsLog;
             level = sample_level (m_cfLog st ! iE) (m_nTerms st) r
         in (level, m_scatCutLog st ! iE ! level, m_scatParLog st ! iE ! level)))"

text \<open>Lines 683-684.\<close>

definition count_collision :: "nat \<Rightarrow> nat \<Rightarrow> session \<Rightarrow> session" where
  "count_collision type level st = st
     \<lparr>m_nCollisions := (m_nCollisions st)[type := m_nCollisions st ! type + 1],
      m_nCollisionsDetailed :=
        (m_nCollisionsDetailed st)[level := m_nCollisionsDetailed st ! level + 1]\<rparr>"

text \<open>Lines 690-719: the energy of the secondary electron of an ionisation; the result is
  the energy and the position in the random source.\<close>

definition ionisation_esec ::
  "constants \<Rightarrow> rsource \<Rightarrow> session \<Rightarrow> real \<Rightarrow> nat \<Rightarrow> nat \<Rightarrow> real \<Rightarrow> nat \<Rightarrow> real \<times> nat" where
  "ionisation_esec c rnd st e level igas loss k =
     (let esec =
            (if m_useOpalBeaty st then
               (let w = m_wOpalBeaty st ! level
                in w * tan (rnd k * arctan (0.5 * (e - loss) / w)))
             else if m_useGreenSawada st then
               (let gs = m_parGreenSawada st ! igas ! 0;
                    gb = m_parGreenSawada st ! igas ! 1;
                    w = gs * e / (e + gb);
                    ts = m_parGreenSawada st ! igas ! 2;
                    ta = m_parGreenSawada st ! igas ! 3;
                    tb = m_parGreenSawada st ! igas ! 4;
                    esec0 = ts - ta / (e + tb);
                    r = rnd k
                in esec0 + w * tan ((r - 1) * arctan (esec0 / w)
                                    + r * arctan ((0.5 * (e - loss) - esec0) / w)))
             else rnd k * (e - loss))
      in (if esec \<le> 0 then Small c else esec, k + 1))"

text \<open>Lines 735-761: the simplified treatment of Penning transfer. The random source
  is consulted only when the threshold of the level exceeds the smallest ionisation
  potential (the \<^verbatim>\<open>&&\<close> of line 741), and once more for the radius when the level
  has a transfer distance. The result is the number of products, the session and the
  position.\<close>

definition penning_transfer ::
  "constants \<Rightarrow> rsource \<Rightarrow> nat \<Rightarrow> nat \<Rightarrow> session \<times> nat \<Rightarrow> nat \<times> session \<times> nat" where
  "penning_transfer c rnd level igas = (\<lambda>(st0, k).
     let st = st0\<lparr>m_dxcProducts := []\<rparr>
     in if m_energyLoss st ! level * m_rgas st ! igas > m_minIonPot st then
          (if rnd k < m_rPenning st ! level then
             (let esec0 = m_energyLoss st ! level * m_rgas st ! igas - m_minIonPot st;
                  esec = (if esec0 \<le> 0 then Small c else esec0);
                  (s, k') = (if m_lambdaPenning st ! level > Small c
                             then (m_lambdaPenning st ! level * rnd (k + 1) powr (1 / 3), k + 2)
                             else (0, k + 1))
              in (1,
                  (add_product \<lparr>prod_s = s, prod_t = 0, prod_type = DxcProdTypeElectron,
                                prod_energy = esec\<rparr> st)\<lparr>m_nPenning := m_nPenning st + 1\<rparr>,
                  k'))
           else (0, st, k + 1))
        else (0, st, k))"

text \<open>Lines 686-762: energy loss, secondaries and de-excitation products of the
  collision. The result is \<open>(loss, secondaries, ndxc, session, position)\<close>, or \<open>None\<close>
  when the cascade did not end within the fuel.\<close>

definition collision_products ::
  "nat \<Rightarrow> nat \<Rightarrow> constants \<Rightarrow> rsource \<Rightarrow> real \<Rightarrow> nat \<Rightarrow> nat \<Rightarrow> nat
   \<Rightarrow> (ionProdType \<times> real) list \<Rightarrow> session \<times> nat
   \<Rightarrow> (real \<times> (ionProdType \<times> real) list \<times> nat \<times> session \<times> nat) option" where
  "collision_products fuel vfuel c rnd e type level igas secondaries = (\<lambda>(st, k).
     let loss = m_energyLoss st ! level
     in if type = ElectronCollisionTypeIonisation then
          (let (esec, k') = ionisation_esec c rnd st e level igas loss k
           in Some (loss + esec,
                    secondaries @ [(IonProdTypeElectron, esec), (IonProdTypeIon, 0)],
                    0, st, k'))
        else if type = ElectronCollisionTypeExcitation then
          (if m_useDeexcitation st \<and> m_iDeexcitation st ! level \<ge> 0 then
             (case ComputeDeexcitationInternal fuel vfuel c rnd (m_iDeexcitation st ! level) (st, k) of
                None \<Rightarrow> None
              | Some (fLevel, st', k') \<Rightarrow>
                  Some (loss, secondaries, length (m_dxcProducts st'), st', k'))
           else if m_usePenning st then
             (let (ndxc, st', k') = penning_transfer c rnd level igas (st, k)
              in Some (loss, secondaries, ndxc, st', k'))
           else Some (loss, secondaries, 0, st, k))
        else Some (loss, secondaries, 0, st, k))"

text \<open>Line 765.\<close>

definition clamp_loss :: "real \<Rightarrow> real \<Rightarrow> real" where
  "clamp_loss e loss = (if e < loss then e - 0.0001 else loss)"

text \<open>Lines 767-786: the cosine of the scattering angle before the kinematics.\<close>

definition scattering_angle ::
  "rsource \<Rightarrow> session \<Rightarrow> nat \<Rightarrow> real \<Rightarrow> real \<Rightarrow> nat \<Rightarrow> real \<times> nat" where
  "scattering_angle rnd st level angCut angPar k =
     (let ctheta0 = 1 - 2 * rnd k
      in if m_useAnisotropic st then
           (if m_scatModel st ! level = 0 then (ctheta0, k + 1)
            else if m_scatModel st ! level = 1 then
              (let c1 = 1 - rnd (k + 1) * angCut
               in (if rnd (k + 2) > angPar then - c1 else c1, k + 3))
            else if m_scatModel st ! level = 2 then
              ((ctheta0 + angPar) / (1 + angPar * ctheta0), k + 1)
            else (ctheta0, k + 1))
         else (ctheta0, k + 1))"

text \<open>Lines 788-795: the energy after the collision, for the energy loss \<open>loss\<close> as line
  765 leaves it, the mass parameter \<open>s1 = m_rgas[igas]\<close> and the cosine \<open>ctheta0\<close>.\<close>

definition kinematic_arg :: "constants \<Rightarrow> real \<Rightarrow> real \<Rightarrow> real \<Rightarrow> real" where
  "kinematic_arg c e loss s1 = max (1 - s1 * loss / e) (Small c)"

definition post_collision_energy :: "constants \<Rightarrow> real \<Rightarrow> real \<Rightarrow> real \<Rightarrow> real \<Rightarrow> real" where
  "post_collision_energy c e loss s1 ctheta0 =
     (let s2 = (s1 * s1) / (s1 - 1);
          arg = kinematic_arg c e loss s1;
          d = 1 - ctheta0 * sqrt arg
      in max (e * (1 - loss / (s1 * e) - 2 * d / s2)) (Small c))"

text \<open>Lines 796-803: cosine and sine of the polar angle after the collision.\<close>

definition polar_angle :: "constants \<Rightarrow> real \<Rightarrow> real \<Rightarrow> real \<Rightarrow> real \<Rightarrow> real \<Rightarrow> real \<times> real" where
  "polar_angle c e loss s1 ctheta0 e1 =
     (let theta0 = arccos ctheta0;
          arg = kinematic_arg c e loss s1;
          q = min (sqrt ((e / e1) * arg) / s1) 1;
          theta = arcsin (q * sin theta0);
          ctheta = cos theta;
          ctheta' = (if ctheta0 < 0
                     then (let u = (s1 - 1) * (s1 - 1) / arg
                           in if ctheta0 * ctheta0 > u then - ctheta else ctheta)
                     else ctheta)
      in (ctheta', sin theta))"

text \<open>Lines 804-824: the direction after the collision, with the azimuth \<open>phi\<close>.\<close>

definition new_direction ::
  "real \<times> real \<times> real \<Rightarrow> real \<Rightarrow> real \<Rightarrow> real \<Rightarrow> real \<times> real \<times> real" where
  "new_direction d ctheta stheta phi = (case d of (dx, dy, dz0) \<Rightarrow>
     let dz = min dz0 1;
         argZ = sqrt (dx * dx + dy * dy);
         cphi = cos phi;
         sphi = sin phi
     in if argZ = 0 then (cphi * stheta, sphi * stheta, ctheta)
        else
          let a = stheta / argZ;
              dz1 = dz * ctheta + argZ * stheta * sphi;
              dy1 = dy * ctheta + a * (dx * cphi - dy * dz * sphi);
              dx1 = dx * ctheta - a * (dy * cphi + dx * dz * sphi)
          in (dx1, dy1, dz1))"

text \<open>Lines 641-826: the sampling proper, on a session whose tables are up to date.\<close>

definition collide ::
  "nat \<Rightarrow> nat \<Rightarrow> constants \<Rightarrow> rsource \<Rightarrow> real \<Rightarrow> real \<times> real \<times> real
   \<Rightarrow> (ionProdType \<times> real) list \<Rightarrow> session \<times> nat \<Rightarrow> (collision \<times> session \<times> nat) option" where
  "collide fuel vfuel c rnd e d secondaries = (\<lambda>(st0, k0).
     let (level, angCut, angPar) = choose_level st0 e (rnd k0);
         type = m_csType st0 ! level mod nCsTypes;
         igas = m_csType st0 ! level div nCsTypes;
         st1 = count_collision type level st0
     in case collision_products fuel vfuel c rnd e type level igas secondaries (st1, k0 + 1) of
          None \<Rightarrow> None
        | Some (loss0, secondaries', ndxc, st2, k2) \<Rightarrow>
            let loss = clamp_loss e loss0;
                (ctheta0, k3) = scattering_angle rnd st2 level angCut angPar k2;
                s1 = m_rgas st2 ! igas;
                e1 = post_collision_energy c e loss s1 ctheta0;
                (ctheta, stheta) = polar_angle c e loss s1 ctheta0 e1;
                (dx, dy, dz) = new_direction d ctheta stheta (2 * pi * rnd k3)
            in Some (\<lparr>col_type = type, col_level = level, col_e1 = e1,
                       col_dx = dx, col_dy = dy, col_dz = dz,
                       col_secondaries = secondaries', col_ndxc = ndxc\<rparr>,
                     st2, k3 + 1))"

text \<open>The function. The outer \<open>None\<close> is a cascade that did not end within the fuel;
  otherwise the result is what the call returns (\<open>None\<close> for \<^verbatim>\<open>false\<close>, with the
  reference parameters untouched), the session and the position in the random
  source.\<close>

definition GetElectronCollision ::
  "nat \<Rightarrow> nat \<Rightarrow> environment \<Rightarrow> constants \<Rightarrow> rsource \<Rightarrow> real \<Rightarrow> real \<times> real \<times> real
   \<Rightarrow> (ionProdType \<times> real) list \<Rightarrow> session \<times> nat
   \<Rightarrow> (collision option \<times> session \<times> nat) option" where
  "GetElectronCollision fuel vfuel env c rnd e d secondaries = (\<lambda>(st, k).
     case prepare_tables env c st e of
       (False, st') \<Rightarrow> Some (None, st', k)
     | (True, st') \<Rightarrow>
         (case collide fuel vfuel c rnd e d secondaries (st', k) of
            None \<Rightarrow> None
          | Some (col, st'', k') \<Rightarrow> Some (Some col, st'', k')))"

subsection \<open>Collision counters (lines 979-1005, 1094-1103)\<close>

definition ResetCollisionCounters :: "session \<Rightarrow> session" where
  "ResetCollisionCounters st = st
     \<lparr>m_nCollisions := replicate (length (m_nCollisions st)) 0,
      m_nCollisionsDetailed := replicate (m_nTerms st) 0,
      m_nPenning := 0,
      m_nPhotonCollisions := replicate (length (m_nPhotonCollisions st)) 0\<rparr>"

text \<open>\<^verbatim>\<open>std::accumulate\<close> over the array; the result is returned as an
  \<^verbatim>\<open>unsigned int\<close>.\<close>

definition GetNumberOfElectronCollisions :: "session \<Rightarrow> 32 word" where
  "GetNumberOfElectronCollisions st = fold (\<lambda>x s. s + x) (m_nCollisions st) 0"

text \<open>The overload with six reference parameters: the six counters and their sum.\<close>

definition GetNumberOfElectronCollisions_by_type :: "session \<Rightarrow> 32 word \<times> 32 word list" where
  "GetNumberOfElectronCollisions_by_type st =
     (let nElastic = m_nCollisions st ! ElectronCollisionTypeElastic;
          nIonisation = m_nCollisions st ! ElectronCollisionTypeIonisation;
          nAttachment = m_nCollisions st ! ElectronCollisionTypeAttachment;
          nInelastic = m_nCollisions st ! ElectronCollisionTypeInelastic;
          nExcitation = m_nCollisions st ! ElectronCollisionTypeExcitation;
          nSuperelastic = m_nCollisions st ! ElectronCollisionTypeSuperelastic
      in (nElastic + nIonisation + nAttachment + nInelastic + nExcitation + nSuperelastic,
          [nElastic, nIonisation, nAttachment, nInelastic, nExcitation, nSuperelastic]))"

text \<open>The overload for one level; a level that does not exist gives 0.\<close>

definition GetNumberOfElectronCollisions_level :: "session \<Rightarrow> nat \<Rightarrow> 32 word" where
  "GetNumberOfElectronCollisions_level st level =
     (if level \<ge> m_nTerms st then 0 else m_nCollisionsDetailed st ! level)"

subsection \<open>Switching de-excitation on (lines 159-174)\<close>


section \<open>Concrete inputs used by the witnesses\<close>

definition c0 :: constants where
  "c0 = \<lparr>Small = 1 / 10 ^ 20, ElectronMass = 510998.91, SpeedOfLight = 29.9792458,
          FineStructureConstant = 1 / 137, HbarC = 197.327 / 10 ^ 7,
          BoltzmannConstant = 8.617 / 10 ^ 5\<rparr>"

text \<open>A session as the constructor leaves it, with the members of \<^verbatim>\<open>MediumGas\<close> set
  for pure argon; the arrays that the constructor does not initialise hold zeros.\<close>

definition session0 :: session where
  "session0 =
     \<lparr>m_temperature = 293.15, m_nComponents = 1,
      m_gas = [''Ar'', '''', '''', '''', '''', ''''],
      m_fraction = [1, 0, 0, 0, 0, 0],
      m_rPenningGlobal = 0, m_lambdaPenningGlobal = 0,
      m_rPenningGas = replicate 6 0, m_lambdaPenningGas = replicate 6 0,
      m_usePenning = False, m_isChanged = True,
      m_eFinal = 40, m_eStep = 40 / real nEnergySteps, m_eHigh = 10000,
      m_eHighLog = ln 10000, m_lnStep = 1, m_useAutoAdjust = True,
      m_nTerms = 0, m_rgas = replicate 6 0, m_wOpalBeaty = replicate nMaxLevels 0,
      m_parGreenSawada = replicate 6 (replicate 5 0), m_hasGreenSawada = replicate 6 False,
      m_energyLoss = replicate nMaxLevels 0, m_csType = replicate nMaxLevels 0,
      m_useAnisotropic = True,
      m_scatPar = [], m_scatCut = [], m_scatParLog = [], m_scatCutLog = [],
      m_scatModel = replicate nMaxLevels 0,
      m_description = replicate nMaxLevels (replicate 50 (CHR '' '')),
      m_cfTot = replicate nEnergySteps 0, m_cfTotLog = replicate nEnergyStepsLog 0,
      m_cfNull = 0,
      m_cf = replicate nEnergySteps (replicate nMaxLevels 0),
      m_cfLog = replicate nEnergyStepsLog (replicate nMaxLevels 0),
      m_nCollisions = replicate nCsTypes 0, m_nCollisionsDetailed = [],
      m_rPenning = replicate nMaxLevels 0, m_lambdaPenning = replicate nMaxLevels 0,
      m_nPenning = 0, m_useDeexcitation = False, m_deexcitations = [],
      m_iDeexcitation = replicate nMaxLevels (- 1), m_dxcProducts = [],
      m_ionPot = replicate 6 0, m_minIonPot = - 1, m_scaleExc = replicate 6 1,
      m_useOpalBeaty = True, m_useGreenSawada = False,
      m_nPhotonCollisions = replicate 4 0\<rparr>"

text \<open>A session with a table of two levels, an elastic one and an excitation at 13 eV,
  written by hand: in every bin of the linear grid the cumulative probabilities are
  1/4 and 1 and the total rate is 5.\<close>

definition session_built :: session where
  "session_built = session0
     \<lparr>m_isChanged := False, m_nTerms := 2,
      m_rgas := [1 + 1 / 10 ^ 5, 0, 0, 0, 0, 0],
      m_energyLoss := [0, 13] @ replicate (nMaxLevels - 2) 0,
      m_csType := [0, 4] @ replicate (nMaxLevels - 2) 0,
      m_scatPar := replicate nEnergySteps (replicate nMaxLevels 0.5),
      m_scatCut := replicate nEnergySteps (replicate nMaxLevels 1),
      m_cfTot := replicate nEnergySteps 5,
      m_cfNull := 5,
      m_cf := replicate nEnergySteps ([1 / 4, 1] @ replicate (nMaxLevels - 2) 0),
      m_nCollisionsDetailed := [0, 0],
      m_minIonPot := 11\<rparr>"

text \<open>The same with Penning transfer switched on and the transfer probability 1 for the
  excitation level.\<close>

definition session_penning :: session where
  "session_penning = session_built
     \<lparr>m_usePenning := True, m_rPenning := [0, 1] @ replicate (nMaxLevels - 2) 0\<rparr>"

text \<open>A cross-section provider without inelastic and ionisation terms.\<close>

definition env0 :: environment where
  "env0 = \<lparr>gasmix = (\<lambda>aniso ngs estep efinal.
              \<lparr>g_nIn = 0, g_nIon = 0, g_e = replicate 6 0, g_eIn = [], g_eIon = [],
               g_kIn = [], g_kEl = replicate 6 0, g_eoby = [], g_scrpt = [],
               g_q = [], g_qIn = [], g_qIon = [], g_pEqEl = [], g_pEqIn = [], g_pEqIon = []\<rparr>),
            GetNumberDensity = 1, quenching = (\<lambda>st dxcs. dxcs),
            optical_IsAvailable = (\<lambda>g. False)\<rparr>"

text \<open>A random source whose every value is 1/2.\<close>

definition rnd_half :: rsource where
  "rnd_half k = 1 / 2"

text \<open>A random source whose every value is 0.\<close>

definition rnd_zero :: rsource where
  "rnd_zero k = 0"

text \<open>The built session after seven elastic collisions and a change of the settings
  (every setter raises \<^verbatim>\<open>m_isChanged\<close>).\<close>

definition session_counted :: session where
  "session_counted = session_built
     \<lparr>m_isChanged := True, m_nCollisions := [7, 0, 0, 0, 0, 0], m_nCollisionsDetailed := [7, 0]\<rparr>"

text \<open>Output of the cross-section provider in the sizes that \<^verbatim>\<open>Mixer\<close> declares
  (six general cross-sections, \<open>nMaxInelasticTerms = 250\<close>, \<open>nMaxIonisationTerms = 30\<close>,
  260 descriptions of 50 characters): \<open>nIn\<close> inelastic terms with a threshold of
  11.5 eV, no ionisation term of its own (\<^verbatim>\<open>nIon = 0\<close>: the ionisation cross-section is
  the general one, with the threshold \<^verbatim>\<open>e[2]\<close> of 15.7 eV), and cross-sections that
  do not depend on the energy.\<close>

definition blank_line :: string where
  "blank_line = replicate 50 (CHR '' '')"

definition argon_like :: "nat \<Rightarrow> gasdata" where
  "argon_like nIn =
     \<lparr>g_nIn = nIn, g_nIon = 0,
      g_e = [0, 1 / 36000, 157 / 10, 0, 0, 0],
      g_eIn = replicate 250 (23 / 2),
      g_eIon = replicate 30 0,
      g_kIn = replicate 250 0,
      g_kEl = replicate 6 0,
      g_eoby = replicate nEnergySteps 10,
      g_scrpt = replicate 260 blank_line,
      g_q = replicate nEnergySteps [0, 1 / 10 ^ 16, 1 / 10 ^ 16, 0, 0, 0],
      g_qIn = replicate nEnergySteps (replicate 250 (1 / 10 ^ 17)),
      g_qIon = replicate nEnergySteps (replicate 30 0),
      g_pEqEl = replicate nEnergySteps (replicate 6 0),
      g_pEqIn = replicate nEnergySteps (replicate 250 0),
      g_pEqIon = replicate nEnergySteps (replicate 30 0)\<rparr>"

text \<open>A provider that returns two inelastic terms for every gas.\<close>

definition env_argon :: environment where
  "env_argon =
     \<lparr>gasmix = (\<lambda>aniso ngs estep efinal. argon_like 2),
      GetNumberDensity = 25 * 10 ^ 18,
      quenching = (\<lambda>st dxcs. dxcs),
      optical_IsAvailable = (\<lambda>g. True)\<rparr>"

text \<open>A provider that returns 250 inelastic terms for every gas but methane (gas
  number 8), for which it returns \<open>nLast\<close>.\<close>

definition env_mixture :: "nat \<Rightarrow> environment" where
  "env_mixture nLast =
     \<lparr>gasmix = (\<lambda>aniso ngs estep efinal. argon_like (if ngs = 8 then nLast else 250)),
      GetNumberDensity = 25 * 10 ^ 18,
      quenching = (\<lambda>st dxcs. dxcs),
      optical_IsAvailable = (\<lambda>g. True)\<rparr>"

text \<open>The constructor's session after \<^verbatim>\<open>SetComposition\<close> with argon, carbon dioxide
  and methane.\<close>

definition session_mixture :: session where
  "session_mixture = session0
     \<lparr>m_nComponents := 3, m_gas := [''Ar'', ''CO2'', ''CH4'', '''', '''', ''''],
      m_fraction := [8 / 10, 1 / 10, 1 / 10, 0, 0, 0]\<rparr>"

text \<open>The built session after the composition has been changed to that mixture.\<close>

definition session_rebuilt :: session where
  "session_rebuilt = session_built
     \<lparr>m_isChanged := True, m_nComponents := 3,
      m_gas := [''Ar'', ''CO2'', ''CH4'', '''', '''', ''''],
      m_fraction := [8 / 10, 1 / 10, 1 / 10, 0, 0, 0]\<rparr>"


text \<open>A provider whose cross-sections are zero at every energy, with no inelastic
  term, and the environment that uses it.\<close>

definition dark_gas :: gasdata where
  "dark_gas = (argon_like 0)\<lparr>g_q := replicate nEnergySteps (replicate 6 0)\<rparr>"

definition env_dark :: environment where
  "env_dark = env_argon\<lparr>gasmix := (\<lambda>aniso ngs estep efinal. dark_gas)\<rparr>"





section \<open>Parts of the session\<close>

text \<open>The session without the de-excitation products and the Penning counter, the two
  members that the treatment of an excitation writes.\<close>

definition without_products :: "session \<Rightarrow> session" where
  "without_products st = st\<lparr>m_dxcProducts := [], m_nPenning := 0\<rparr>"

text \<open>The members that the loop over the gases in \<^verbatim>\<open>Mixer\<close> never assigns.\<close>

definition kept_by_gas_loop ::
  "session \<Rightarrow> real list \<times> real list \<times> real \<times> 32 word list \<times> 32 word list \<times> Deexcitation list \<times> bool" where
  "kept_by_gas_loop st =
     (m_cfTot st, m_cfTotLog st, m_cfNull st, m_nCollisions st, m_nCollisionsDetailed st,
      m_deexcitations st, m_isChanged st)"

text \<open>The two rate tables have one row of \<open>nMaxLevels\<close> entries for every bin
  (\<^verbatim>\<open>m_cf.assign(nEnergySteps, std::vector<double>(nMaxLevels, 0.))\<close>, line 1436, and
  the same for \<^verbatim>\<open>m_cfLog\<close>).\<close>

definition rows_shape :: "nat \<Rightarrow> real list list \<Rightarrow> bool" where
  "rows_shape n rows \<longleftrightarrow> length rows = n \<and> list_all (\<lambda>row. length row = nMaxLevels) rows"

text \<open>The shape of the rate tables and of the two vectors of totals.\<close>

definition table_shape :: "session \<Rightarrow> bool" where
  "table_shape st \<longleftrightarrow>
     rows_shape nEnergySteps (m_cf st) \<and> rows_shape nEnergyStepsLog (m_cfLog st)
     \<and> length (m_cfTot st) = nEnergySteps \<and> length (m_cfTotLog st) = nEnergyStepsLog"

text \<open>The settings that \<^verbatim>\<open>Mixer\<close> reads and never assigns: the energy grid, the
  composition and the switches.\<close>

definition grid_of :: "session \<Rightarrow> bool \<times> real \<times> real \<times> real \<times> nat \<times> string list \<times> real list \<times> bool \<times> bool" where
  "grid_of st = (m_useAnisotropic st, m_eStep st, m_eFinal st, m_eHigh st, m_nComponents st,
                 m_gas st, m_fraction st, m_useDeexcitation st, m_usePenning st)"

text \<open>The members that the part of the loop over the gases which enters the levels
  (lines 1571-1659) never assigns.\<close>

definition kept_by_levels :: "session \<Rightarrow> real list list \<times> real list list \<times> real list \<times> real list
     \<times> real list list \<times> real list list
     \<times> (bool \<times> real \<times> real \<times> real \<times> nat \<times> string list \<times> real list \<times> bool \<times> bool)" where
  "kept_by_levels st = (m_cf st, m_cfLog st, m_cfTot st, m_cfTotLog st, m_scatCut st, m_scatPar st,
                        grid_of st)"

text \<open>The members that \<^verbatim>\<open>Mixer\<close> no longer assigns after the totals and the
  cumulative probabilities have been computed (lines 1883-1933).\<close>

definition kept_by_Mixer_finish ::
  "session \<Rightarrow> nat \<times> 32 word list \<times> 32 word list \<times> real list \<times> real list \<times> real
              \<times> real list list \<times> real list list \<times> bool \<times> real \<times> real \<times> real" where
  "kept_by_Mixer_finish st =
     (m_nTerms st, m_nCollisions st, m_nCollisionsDetailed st, m_cfTot st, m_cfTotLog st,
      m_cfNull st, m_cf st, m_cfLog st, m_isChanged st, m_eFinal st, m_eHigh st, m_eStep st)"


section \<open>Auxiliary facts about the loops\<close>

subsection \<open>Loops that update a row entry by entry\<close>

lemma fold_pointwise_length:
  "length (fold (\<lambda>k xs. xs[k := f k xs]) ks xs) = length xs"
  by (induction ks arbitrary: xs) auto

lemma fold_pointwise_nth:
  "distinct ks \<Longrightarrow> i < length xs \<Longrightarrow>
   fold (\<lambda>k xs. xs[k := g (xs ! k)]) ks xs ! i = (if i \<in> set ks then g (xs ! i) else xs ! i)"
proof (induction ks arbitrary: xs)
  case Nil
  then show ?case by simp
next
  case (Cons k ks)
  have "fold (\<lambda>k xs. xs[k := g (xs ! k)]) (k # ks) xs ! i
        = fold (\<lambda>k xs. xs[k := g (xs ! k)]) ks (xs[k := g (xs ! k)]) ! i"
    by simp
  also have "\<dots> = (if i \<in> set ks then g ((xs[k := g (xs ! k)]) ! i) else (xs[k := g (xs ! k)]) ! i)"
    using Cons.prems by (intro Cons.IH) auto
  also have "\<dots> = (if i \<in> set (k # ks) then g (xs ! i) else xs ! i)"
    using Cons.prems by (cases "i = k") (auto simp: nth_list_update)
  finally show ?case .
qed

lemma normalise_fold:
  "normalise tot = (\<lambda>k xs. xs[k := (\<lambda>x. x / tot) (xs ! k)])"
  by (simp add: normalise_def fun_eq_iff)

lemma clamp_fold_fst:
  "fst (fold clamp_and_sum ks (row, t)) = fold (\<lambda>k xs. xs[k := max 0 (xs ! k)]) ks row"
proof (induction ks arbitrary: row t)
  case Nil
  then show ?case by simp
next
  case (Cons k ks)
  have eq: "(if row ! k < 0 then row[k := 0] else row) = row[k := max 0 (row ! k)]"
    by (auto simp: max_def)
  have "fold clamp_and_sum (k # ks) (row, t) = fold clamp_and_sum ks (row[k := max 0 (row ! k)], t + row[k := max 0 (row ! k)] ! k)"
    by (simp add: clamp_and_sum_def Let_def eq)
  then show ?case by (simp add: Cons.IH)
qed

lemma clamp_fold_snd:
  "distinct ks \<Longrightarrow> \<forall>k\<in>set ks. k < length row \<Longrightarrow>
   snd (fold clamp_and_sum ks (row, t)) = t + (\<Sum>k\<leftarrow>ks. max 0 (row ! k))"
proof (induction ks arbitrary: row t)
  case Nil
  then show ?case by simp
next
  case (Cons k ks)
  let ?row' = "row[k := max 0 (row ! k)]"
  have eq: "(if row ! k < 0 then row[k := 0] else row) = ?row'"
    by (auto simp: max_def)
  have step: "fold clamp_and_sum (k # ks) (row, t) = fold clamp_and_sum ks (?row', t + ?row' ! k)"
    by (simp add: clamp_and_sum_def Let_def eq)
  have k: "k < length row" "k \<notin> set ks" using Cons.prems by auto
  have "snd (fold clamp_and_sum ks (?row', t + ?row' ! k)) = (t + ?row' ! k) + (\<Sum>j\<leftarrow>ks. max 0 (?row' ! j))"
    using Cons.prems by (intro Cons.IH) auto
  moreover have "(\<Sum>j\<leftarrow>ks. max 0 (?row' ! j)) = (\<Sum>j\<leftarrow>ks. max 0 (row ! j))"
    using k by (intro arg_cong[where f=sum_list] map_cong) (auto simp: nth_list_update)
  moreover have "?row' ! k = max 0 (row ! k)" using k by simp
  ultimately show ?case unfolding step by simp
qed

lemma accumulate_length: "length (fold accumulate ks row) = length row"
  by (induction ks arbitrary: row) (auto simp: accumulate_def)

lemma accumulate_fold_nth:
  "n \<le> length row \<Longrightarrow> k < length row \<Longrightarrow>
   fold accumulate [1..<n] row ! k = (if k < n then (\<Sum>j\<le>k. row ! j) else row ! k)"
proof (induction n arbitrary: k)
  case 0
  then show ?case by simp
next
  case (Suc n)
  show ?case
  proof (cases "n = 0")
    case True
    then show ?thesis by auto
  next
    case False
    let ?R = "fold accumulate [1..<n] row"
    have n: "n < length row" "n \<le> length row" using Suc.prems by auto
    have len: "length ?R = length row" by (rule accumulate_length)
    have upt: "[1..<Suc n] = [1..<n] @ [n]" using False by simp
    have res: "fold accumulate [1..<Suc n] row = ?R[n := ?R ! n + ?R ! (n - 1)]"
      unfolding upt by (simp add: accumulate_def)
    have Rn: "?R ! n = row ! n" using Suc.IH[OF n(2) n(1)] by simp
    have Rp: "?R ! (n - 1) = (\<Sum>j\<le>n - 1. row ! j)"
      using Suc.IH[of "n - 1"] n False by simp
    have atMost: "{..n} = insert n {..n - 1}" using False by auto
    have sum: "(\<Sum>j\<le>n. row ! j) = row ! n + (\<Sum>j\<le>n - 1. row ! j)"
      unfolding atMost using False by (subst sum.insert) auto
    show ?thesis
    proof (cases "k = n")
      case True
      then show ?thesis using res len n Rn Rp sum by simp
    next
      case neq: False
      then have "fold accumulate [1..<Suc n] row ! k = ?R ! k"
        using res by simp
      then show ?thesis using Suc.IH[OF n(2) Suc.prems(2)] neq by auto
    qed
  qed
qed

text \<open>What the three loops of a bin compute, for either order of the normalising loop.\<close>

lemma cumulative_row:
  assumes n: "n \<le> length row"
    and ks: "set ks = {..<n}" "distinct ks"
    and pos: "0 < bin_frequency_sum n row 0"
    and r1: "(row1, tot1) = fold clamp_and_sum [0..<n] (row, 0)"
    and r3: "row3 = fold accumulate [1..<n] (fold (normalise tot1) ks row1)"
  shows "sorted (take n row3) \<and> row3 ! (n - 1) = 1"
proof -
  have row1: "row1 = fold (\<lambda>k xs. xs[k := max 0 (xs ! k)]) [0..<n] row"
    using clamp_fold_fst[of "[0..<n]" row 0] r1[symmetric] by simp
  have tot1: "tot1 = (\<Sum>k<n. max 0 (row ! k))"
  proof -
    have "tot1 = snd (fold clamp_and_sum [0..<n] (row, 0))" using r1[symmetric] by simp
    also have "\<dots> = 0 + (\<Sum>k\<leftarrow>[0..<n]. max 0 (row ! k))"
      using n by (intro clamp_fold_snd) auto
    also have "\<dots> = (\<Sum>k<n. max 0 (row ! k))"
      by (simp add: interv_sum_list_conv_sum_set_nat atLeast0LessThan)
    finally show ?thesis .
  qed
  have tpos: "0 < tot1" using pos r1[symmetric] by (simp add: bin_frequency_sum_def)
  have len1: "length row1 = length row" unfolding row1 by (rule fold_pointwise_length)
  have row1_nth: "row1 ! k = max 0 (row ! k)" if "k < n" for k
    unfolding row1 using that n by (subst fold_pointwise_nth) auto
  let ?row2 = "fold (normalise tot1) ks row1"
  have len2: "length ?row2 = length row"
    unfolding normalise_fold using len1 by (simp add: fold_pointwise_length)
  have row2_nth: "?row2 ! k = max 0 (row ! k) / tot1" if "k < n" for k
    unfolding normalise_fold using that n ks len1 row1_nth
    by (subst fold_pointwise_nth) auto
  have row3_nth: "row3 ! k = (\<Sum>j\<le>k. max 0 (row ! j) / tot1)" if "k < n" for k
  proof -
    have "row3 ! k = (\<Sum>j\<le>k. ?row2 ! j)"
      unfolding r3 using that n len2 by (subst accumulate_fold_nth) auto
    also have "\<dots> = (\<Sum>j\<le>k. max 0 (row ! j) / tot1)"
      using that by (intro sum.cong) (auto simp: row2_nth)
    finally show ?thesis .
  qed
  have len3: "length row3 = length row" unfolding r3 using len2 by (simp add: accumulate_length)
  have npos: "0 < n"
  proof (rule ccontr)
    assume "\<not> 0 < n"
    then have "tot1 = 0" using tot1 by simp
    then show False using tpos by simp
  qed
  have "sorted (take n row3)"
    unfolding sorted_iff_nth_mono
  proof (intro allI impI)
    fix i j assume ij: "i \<le> j" "j < length (take n row3)"
    then have jn: "j < n" "i < n" by auto
    have "(\<Sum>l\<le>i. max 0 (row ! l) / tot1) \<le> (\<Sum>l\<le>j. max 0 (row ! l) / tot1)"
      using ij tpos by (intro sum_mono2) auto
    then show "take n row3 ! i \<le> take n row3 ! j"
      using jn by (simp add: row3_nth)
  qed
  moreover have "row3 ! (n - 1) = 1"
  proof -
    have "{..n - 1} = {..<n}" using npos by auto
    then have "row3 ! (n - 1) = (\<Sum>j<n. max 0 (row ! j) / tot1)"
      using row3_nth[of "n - 1"] npos by simp
    also have "\<dots> = (\<Sum>j<n. max 0 (row ! j)) / tot1"
      by (simp add: sum_divide_distrib)
    also have "\<dots> = 1" using tot1 tpos by simp
    finally show ?thesis .
  qed
  ultimately show ?thesis by simp
qed

lemma linear_total_positive:
  assumes "n \<le> length row" "0 < snd (Mixer_linear_bin c eStep n iE (row, 0))"
  shows "0 < bin_frequency_sum n row 0"
proof -
  have s: "bin_frequency_sum n row 0 = (\<Sum>k\<leftarrow>[0..<n]. max 0 (row ! k))"
    unfolding bin_frequency_sum_def using assms(1) by (subst clamp_fold_snd) auto
  have nonneg: "0 \<le> bin_frequency_sum n row 0"
    unfolding s by (rule sum_list_nonneg) auto
  have "bin_frequency_sum n row 0 \<noteq> 0"
  proof
    assume "bin_frequency_sum n row 0 = 0"
    then have "snd (Mixer_linear_bin c eStep n iE (row, 0)) = 0"
      by (auto simp add: Mixer_linear_bin_def bin_frequency_sum_def Let_def split: prod.splits)
    then show False using assms(2) by simp
  qed
  then show ?thesis using nonneg by simp
qed

lemma lower_bound_spec:
  assumes "\<forall>i j. first \<le> i \<and> i \<le> j \<and> j < first + len \<longrightarrow> xs ! i \<le> xs ! j"
  shows "first \<le> lower_bound xs first len val \<and> lower_bound xs first len val \<le> first + len
       \<and> (\<forall>i. first \<le> i \<and> i < lower_bound xs first len val \<longrightarrow> xs ! i < val)
       \<and> (\<forall>i. lower_bound xs first len val \<le> i \<and> i < first + len \<longrightarrow> val \<le> xs ! i)"
  using assms
proof (induction xs first len val rule: lower_bound.induct)
  case (1 xs first len val)
  show ?case
  proof (cases "len = 0")
    case True
    then show ?thesis by (simp add: lower_bound.simps)
  next
    case False
    define half where "half = len div 2"
    define middle where "middle = first + half"
    have hl: "half < len" using False by (simp add: half_def)
    show ?thesis
    proof (cases "xs ! middle < val")
      case True
      have eq: "lower_bound xs first len val = lower_bound xs (middle + 1) (len - half - 1) val"
        using False True by (subst lower_bound.simps) (simp add: Let_def half_def middle_def)
      have sorted': "\<forall>i j. middle + 1 \<le> i \<and> i \<le> j \<and> j < middle + 1 + (len - half - 1) \<longrightarrow> xs ! i \<le> xs ! j"
        using "1.prems" hl by (auto simp: middle_def)
      have IH: "middle + 1 \<le> lower_bound xs (middle + 1) (len - half - 1) val \<and>
            lower_bound xs (middle + 1) (len - half - 1) val \<le> middle + 1 + (len - half - 1) \<and>
            (\<forall>i. middle + 1 \<le> i \<and> i < lower_bound xs (middle + 1) (len - half - 1) val \<longrightarrow> xs ! i < val) \<and>
            (\<forall>i. lower_bound xs (middle + 1) (len - half - 1) val \<le> i \<and> i < middle + 1 + (len - half - 1) \<longrightarrow> val \<le> xs ! i)"
        using "1.IH"(1)[OF False half_def middle_def True sorted'] .
      have below: "xs ! i < val" if "first \<le> i" "i \<le> middle" for i
      proof -
        have "xs ! i \<le> xs ! middle" using "1.prems" that hl by (auto simp: middle_def)
        then show ?thesis using True by simp
      qed
      have end_eq: "middle + 1 + (len - half - 1) = first + len" using hl by (simp add: middle_def)
      show ?thesis unfolding eq using IH below end_eq
        by (auto simp: middle_def) (metis Suc_leI le_neq_implies_less not_less_eq_eq nat_le_linear)
    next
      case nlt: False
      have eq: "lower_bound xs first len val = lower_bound xs first half val"
        using False nlt by (subst lower_bound.simps) (simp add: Let_def half_def middle_def)
      have sorted': "\<forall>i j. first \<le> i \<and> i \<le> j \<and> j < first + half \<longrightarrow> xs ! i \<le> xs ! j"
        using "1.prems" hl by auto
      have IH: "first \<le> lower_bound xs first half val \<and>
            lower_bound xs first half val \<le> first + half \<and>
            (\<forall>i. first \<le> i \<and> i < lower_bound xs first half val \<longrightarrow> xs ! i < val) \<and>
            (\<forall>i. lower_bound xs first half val \<le> i \<and> i < first + half \<longrightarrow> val \<le> xs ! i)"
        using "1.IH"(2)[OF False half_def middle_def nlt sorted'] .
      have above: "val \<le> xs ! i" if "middle \<le> i" "i < first + len" for i
      proof -
        have "xs ! middle \<le> xs ! i" using "1.prems" that by (auto simp: middle_def)
        then show ?thesis using nlt by simp
      qed
      show ?thesis unfolding eq using IH above hl
        by (auto simp: middle_def) (meson not_le_imp_less)
    qed
  qed
qed

text \<open>A bin of total frequency zero keeps a row of zeros.\<close>

lemma zero_row:
  assumes n: "n \<le> length row" and z: "bin_frequency_sum n row 0 = 0"
    and r1: "(row1, tot1) = fold clamp_and_sum [0..<n] (row, 0)"
    and k: "k < n"
  shows "fold accumulate [1..<n] row1 ! k = 0"
proof -
  have row1: "row1 = fold (\<lambda>k xs. xs[k := max 0 (xs ! k)]) [0..<n] row"
    using clamp_fold_fst[of "[0..<n]" row 0] r1[symmetric] by simp
  have len1: "length row1 = length row" unfolding row1 by (rule fold_pointwise_length)
  have row1_nth: "row1 ! j = max 0 (row ! j)" if "j < n" for j
    unfolding row1 using that n by (subst fold_pointwise_nth) auto
  have s: "(\<Sum>j<n. max 0 (row ! j)) = 0"
  proof -
    have "bin_frequency_sum n row 0 = 0 + (\<Sum>k\<leftarrow>[0..<n]. max 0 (row ! k))"
      unfolding bin_frequency_sum_def using n by (intro clamp_fold_snd) auto
    then show ?thesis using z
      by (simp add: interv_sum_list_conv_sum_set_nat atLeast0LessThan)
  qed
  have each: "max 0 (row ! j) = 0" if "j < n" for j
  proof -
    have "\<forall>j\<in>{..<n}. max 0 (row ! j) = 0"
      using s by (subst (asm) sum_nonneg_eq_0_iff) auto
    then show ?thesis using that by simp
  qed
  have "fold accumulate [1..<n] row1 ! k = (\<Sum>j\<le>k. row1 ! j)"
    using n k len1 by (subst accumulate_fold_nth) auto
  also have "\<dots> = (\<Sum>j\<le>k. 0)"
    using k by (intro sum.cong) (auto simp: row1_nth each)
  finally show ?thesis by simp
qed

lemma sample_level_cumulative:
  assumes n: "0 < n"
    and srt: "sorted (take n cf)" and len: "n \<le> length cf"
    and last: "r < cf ! (n - 1) \<or> (\<forall>k<n. cf ! k = cf ! 0)"
  shows "(r \<le> cf ! 0 \<longrightarrow> sample_level cf n r = 0)
       \<and> (cf ! 0 < r \<and> cf ! (n - 1) \<le> r \<longrightarrow> sample_level cf n r = n - 1)
       \<and> ((\<exists>k<n. r \<le> cf ! k) \<longrightarrow>
            sample_level cf n r < n \<and> r \<le> cf ! sample_level cf n r
            \<and> (\<forall>j. j < sample_level cf n r \<longrightarrow> cf ! j < r))"
proof -
  have mono: "cf ! i \<le> cf ! j" if "i \<le> j" "j < n" for i j
  proof -
    have "take n cf ! i \<le> take n cf ! j"
      using srt that len by (intro sorted_nth_mono) auto
    then show ?thesis using that by simp
  qed
  have A: "r \<le> cf ! 0 \<longrightarrow> sample_level cf n r = 0" by (simp add: sample_level_def)
  have B: "cf ! 0 < r \<and> cf ! (n - 1) \<le> r \<longrightarrow> sample_level cf n r = n - 1"
    by (simp add: sample_level_def)
  have C: "sample_level cf n r < n \<and> r \<le> cf ! sample_level cf n r
            \<and> (\<forall>j. j < sample_level cf n r \<longrightarrow> cf ! j < r)" if ex: "\<exists>k<n. r \<le> cf ! k"
  proof (cases "r \<le> cf ! 0")
    case True
    then show ?thesis using n by (simp add: sample_level_def)
  next
    case False
    from ex obtain k where k: "k < n" "r \<le> cf ! k" by blast
    have "\<not> (\<forall>k<n. cf ! k = cf ! 0)" using k False by auto
    then have lt: "r < cf ! (n - 1)" using last by blast
    then have eq: "sample_level cf n r = lower_bound cf 0 n r"
      using False by (simp add: sample_level_def)
    have srt': "\<forall>i j. 0 \<le> i \<and> i \<le> j \<and> j < 0 + n \<longrightarrow> cf ! i \<le> cf ! j"
      using mono by auto
    note lb = lower_bound_spec[OF srt', of r]
    have "lower_bound cf 0 n r \<noteq> n"
    proof
      assume "lower_bound cf 0 n r = n"
      then have "cf ! (n - 1) < r" using lb n by auto
      then show False using lt by simp
    qed
    then have "lower_bound cf 0 n r < n" using lb by auto
    then show ?thesis unfolding eq using lb by auto
  qed
  show ?thesis using A B C by blast
qed

subsection \<open>The shape of a row built by Mixer\<close>

lemma bin_frequency_sum_nonneg:
  assumes "n \<le> length row"
  shows "0 \<le> bin_frequency_sum n row 0"
proof -
  have "bin_frequency_sum n row 0 = 0 + (\<Sum>k\<leftarrow>[0..<n]. max 0 (row ! k))"
    unfolding bin_frequency_sum_def using assms by (intro clamp_fold_snd) auto
  moreover have "0 \<le> (\<Sum>k\<leftarrow>[0..<n]. max 0 (row ! k))"
    by (rule sum_list_nonneg) auto
  ultimately show ?thesis by simp
qed

text \<open>A row built by either loop of Mixer is a cumulative row: non-decreasing, and
  either ending in 1 or constant (the bin without any collision frequency).\<close>

lemma Mixer_row_shape:
  assumes n: "n \<le> length row"
    and cf: "cf = fst (Mixer_linear_bin c eStep n iE (row, 0))
           \<or> cf = fst (Mixer_log_bin c eHigh rLog n iE (row, 0))"
  shows "n \<le> length cf \<and> sorted (take n cf) \<and> (cf ! (n - 1) = 1 \<or> (\<forall>k<n. cf ! k = 0))"
proof -
  obtain row1 tot1 where r1: "(row1, tot1) = fold clamp_and_sum [0..<n] (row, 0)"
    by (metis surj_pair)
  have tot1: "tot1 = bin_frequency_sum n row 0"
    using r1[symmetric] by (simp add: bin_frequency_sum_def)
  have len1: "length row1 = length row"
    using clamp_fold_fst[of "[0..<n]" row 0] r1[symmetric] by (simp add: fold_pointwise_length)
  show ?thesis
  proof (cases "0 < tot1")
    case True
    have lin: "fst (Mixer_linear_bin c eStep n iE (row, 0))
             = fold accumulate [1..<n] (fold (normalise tot1) [0..<n] row1)"
      using r1[symmetric] True by (simp add: Mixer_linear_bin_def Let_def)
    have lg: "fst (Mixer_log_bin c eHigh rLog n iE (row, 0))
             = fold accumulate [1..<n] (fold (normalise tot1) (rev [0..<n]) row1)"
      using r1[symmetric] True by (simp add: Mixer_log_bin_def Let_def)
    have pos: "0 < bin_frequency_sum n row 0" using True tot1 by simp
    have both: "n \<le> length (fold accumulate [1..<n] (fold (normalise tot1) ks row1))
          \<and> sorted (take n (fold accumulate [1..<n] (fold (normalise tot1) ks row1)))
          \<and> (fold accumulate [1..<n] (fold (normalise tot1) ks row1) ! (n - 1) = 1
             \<or> (\<forall>k<n. fold accumulate [1..<n] (fold (normalise tot1) ks row1) ! k = 0))"
      if ks: "set ks = {..<n}" "distinct ks" for ks
    proof -
      have "length (fold (normalise tot1) ks row1) = length row1"
        unfolding normalise_fold by (rule fold_pointwise_length)
      then have "length (fold accumulate [1..<n] (fold (normalise tot1) ks row1)) = length row"
        using len1 by (simp only: accumulate_length)
      then have "n \<le> length (fold accumulate [1..<n] (fold (normalise tot1) ks row1))"
        using n by (simp only:)
      then show ?thesis
        using cumulative_row[OF n ks pos r1 refl] by blast
    qed
    have s1: "set [0..<n] = {..<n}" "distinct [0..<n]" by auto
    have s2: "set (rev [0..<n]) = {..<n}" "distinct (rev [0..<n])" by auto
    from cf show ?thesis
    proof
      assume a: "cf = fst (Mixer_linear_bin c eStep n iE (row, 0))"
      show ?thesis unfolding a lin by (rule both[OF s1])
    next
      assume a: "cf = fst (Mixer_log_bin c eHigh rLog n iE (row, 0))"
      show ?thesis unfolding a lg by (rule both[OF s2])
    qed
  next
    case False
    have z: "bin_frequency_sum n row 0 = 0"
      using False tot1 bin_frequency_sum_nonneg[OF n] by simp
    have e1: "fst (Mixer_linear_bin c eStep n iE (row, 0)) = fold accumulate [1..<n] row1"
      using r1[symmetric] False by (simp add: Mixer_linear_bin_def Let_def)
    have e2: "fst (Mixer_log_bin c eHigh rLog n iE (row, 0)) = fold accumulate [1..<n] row1"
      using r1[symmetric] False by (simp add: Mixer_log_bin_def Let_def)
    have eq: "cf = fold accumulate [1..<n] row1"
      using cf e1 e2 by metis
    have zero: "cf ! k = 0" if "k < n" for k
      unfolding eq using zero_row[OF n z r1 that] .
    have len: "length cf = length row" unfolding eq using len1 by (simp add: accumulate_length)
    have "sorted (take n cf)"
      unfolding sorted_iff_nth_mono using zero by auto
    moreover have "\<forall>k<n. cf ! k = 0" using zero by blast
    ultimately show ?thesis using len n by simp
  qed
qed

subsection \<open>Total rate of a bin\<close>

lemma Mixer_linear_bin_total:
  "snd (Mixer_linear_bin c eStep n iE (row, 0))
   = bin_frequency_sum n row 0 * sqrt (eStep * (real iE + 0.5))
     * (if eStep * (real iE + 0.5) > 1000
        then sqrt (1 + 0.5 * (eStep * (real iE + 0.5) / ElectronMass c))
             / (1 + eStep * (real iE + 0.5) / ElectronMass c)
        else 1)"
  by (simp add: Mixer_linear_bin_def bin_frequency_sum_def Let_def split: prod.splits)

lemma Mixer_log_bin_total:
  "snd (Mixer_log_bin c eHigh rLog n iE (row, 0))
   = ln (bin_frequency_sum n row 0
         * (sqrt (eHigh * rLog ^ (iE + 1))
            * sqrt (1 + eHigh * rLog ^ (iE + 1) / ElectronMass c)
            / (1 + eHigh * rLog ^ (iE + 1) / ElectronMass c)))"
  by (simp add: Mixer_log_bin_def bin_frequency_sum_def Let_def split: prod.splits)

lemma log_correction_differs:
  assumes "0 < re"
  shows "sqrt (1 + re) / (1 + re) \<noteq> sqrt (1 + 0.5 * re) / (1 + re)"
proof
  assume "sqrt (1 + re) / (1 + re) = sqrt (1 + 0.5 * re) / (1 + re)"
  then have "sqrt (1 + re) = sqrt (1 + 0.5 * re)" using assms by simp
  then have "1 + re = 1 + 0.5 * re" by (simp only: real_sqrt_eq_iff)
  then show False using assms by simp
qed

lemma log_bin_at_20keV:
  "exp (snd (Mixer_log_bin c0 10000 2 1 0 ([1], 0)))
     = sqrt 20000 * sqrt (1 + 20000 / ElectronMass c0) / (1 + 20000 / ElectronMass c0)
   \<and> exp (snd (Mixer_log_bin c0 10000 2 1 0 ([1], 0)))
     \<noteq> sqrt 20000 * (sqrt (1 + 0.5 * (20000 / ElectronMass c0)) / (1 + 20000 / ElectronMass c0))"
proof -
  have s: "bin_frequency_sum 1 [1] 0 = 1"
    by (simp add: bin_frequency_sum_def clamp_and_sum_def)
  have em: "ElectronMass c0 = 510998.91" by (simp add: c0_def)
  let ?re = "20000 / ElectronMass c0"
  have re: "0 < ?re" by (simp add: em)
  let ?v = "sqrt 20000 * sqrt (1 + ?re) / (1 + ?re)"
  have vpos: "0 < ?v" using re by (intro divide_pos_pos mult_pos_pos) (simp_all add: em)
  have "snd (Mixer_log_bin c0 10000 2 1 0 ([1], 0)) = ln (1 * ?v)"
    unfolding Mixer_log_bin_total s by simp
  then have e: "exp (snd (Mixer_log_bin c0 10000 2 1 0 ([1], 0))) = ?v"
    using vpos by simp
  have "sqrt (1 + ?re) / (1 + ?re) \<noteq> sqrt (1 + 0.5 * ?re) / (1 + ?re)"
    using re by (rule log_correction_differs)
  then have "?v \<noteq> sqrt 20000 * (sqrt (1 + 0.5 * ?re) / (1 + ?re))"
    by simp
  then show ?thesis using e by simp
qed

subsection \<open>Kinematics\<close>

lemma post_collision_energy_floor:
  "Small c \<le> post_collision_energy c e loss s1 ctheta0"
  by (simp add: post_collision_energy_def Let_def)

lemma clamp_loss_nonneg:
  assumes "0 \<le> loss0" and "loss0 \<le> e \<or> 1 / 10000 \<le> e"
  shows "0 \<le> clamp_loss e loss0"
  using assms by (auto simp add: clamp_loss_def)

lemma post_collision_energy_upper:
  assumes e: "0 < e" and s1: "1 < s1" and ct: "- 1 \<le> ctheta0" "ctheta0 \<le> 1"
    and sm: "0 < Small c" "Small c \<le> 1"
    and l0: "0 \<le> loss"
  shows "post_collision_energy c e loss s1 ctheta0 \<le> max e (Small c)"
proof -
  define s2 where "s2 = (s1 * s1) / (s1 - 1)"
  define arg where "arg = kinematic_arg c e loss s1"
  define d where "d = 1 - ctheta0 * sqrt arg"
  have s2pos: "0 < s2" using s1 by (simp add: s2_def)
  have q: "0 \<le> s1 * loss / e" using l0 s1 e by simp
  have arg1: "arg \<le> 1" unfolding arg_def kinematic_arg_def using q sm
    by (intro max.boundedI) linarith+
  have arg0: "0 \<le> arg" unfolding arg_def kinematic_arg_def using sm by (simp add: max_def)
  have sq1: "sqrt arg \<le> 1" using arg1 by simp
  have sq0: "0 \<le> sqrt arg" using arg0 by simp
  have "ctheta0 * sqrt arg \<le> 1"
  proof (cases "0 \<le> ctheta0")
    case True
    then show ?thesis using ct sq0 sq1 by (intro mult_le_one) auto
  next
    case False
    then have "ctheta0 * sqrt arg \<le> 0" using sq0 by (intro mult_nonpos_nonneg) auto
    then show ?thesis by simp
  qed
  then have d0: "0 \<le> d" by (simp add: d_def)
  have "e * (1 - loss / (s1 * e) - 2 * d / s2) \<le> e"
  proof -
    have "0 \<le> loss / (s1 * e)" using l0 s1 e by simp
    moreover have "0 \<le> 2 * d / s2" using d0 s2pos by simp
    ultimately have "1 - loss / (s1 * e) - 2 * d / s2 \<le> 1" by linarith
    then have "e * (1 - loss / (s1 * e) - 2 * d / s2) \<le> e * 1"
      using e by (intro mult_left_mono) auto
    then show ?thesis by simp
  qed
  then show ?thesis
    unfolding post_collision_energy_def Let_def s2_def[symmetric]
      arg_def[symmetric] d_def[symmetric]
    by (simp add: max_def)
qed

subsection \<open>Sampling a collision\<close>

lemma prepare_tables_nonpositive:
  assumes "e \<le> 0" and "0 \<le> m_eFinal st"
  shows "prepare_tables env c st e = (False, st)"
  using assms by (simp add: prepare_tables_def)

lemma lower_bound_range:
  "first \<le> lower_bound xs first len val \<and> lower_bound xs first len val \<le> first + len
   \<and> (lower_bound xs first len val = first + len \<and> 0 < len \<longrightarrow> xs ! (first + len - 1) < val)"
proof (induction xs first len val rule: lower_bound.induct)
  case (1 xs first len val)
  show ?case
  proof (cases "len = 0")
    case True
    then show ?thesis by (simp add: lower_bound.simps)
  next
    case False
    define half where "half = len div 2"
    define middle where "middle = first + half"
    have hl: "half < len" using False by (simp add: half_def)
    show ?thesis
    proof (cases "xs ! middle < val")
      case True
      have eq: "lower_bound xs first len val = lower_bound xs (middle + 1) (len - half - 1) val"
        using False True by (subst lower_bound.simps) (simp add: Let_def half_def middle_def)
      note IH = "1.IH"(1)[OF False half_def middle_def True]
      have end_eq: "middle + 1 + (len - half - 1) = first + len" using hl by (simp add: middle_def)
      show ?thesis
      proof (cases "len - half - 1 = 0")
        case z: True
        have "lower_bound xs (middle + 1) (len - half - 1) val = middle + 1"
          using z by (simp add: lower_bound.simps)
        moreover have "middle = first + len - 1" using z hl by (simp add: middle_def)
        ultimately show ?thesis unfolding eq using True hl by (simp add: middle_def)
      next
        case nz: False
        have "first + len - 1 = middle + 1 + (len - half - 1) - 1" using end_eq by simp
        then show ?thesis unfolding eq using IH nz end_eq by (auto simp: middle_def)
      qed
    next
      case nlt: False
      have eq: "lower_bound xs first len val = lower_bound xs first half val"
        using False nlt by (subst lower_bound.simps) (simp add: Let_def half_def middle_def)
      note IH = "1.IH"(2)[OF False half_def middle_def nlt]
      show ?thesis unfolding eq using IH hl by auto
    qed
  qed
qed

lemma sample_level_bound:
  assumes "0 < n"
  shows "sample_level cf n r < n"
proof (cases "r \<le> cf ! 0 \<or> r \<ge> cf ! (n - 1)")
  case True
  then show ?thesis using assms by (auto simp add: sample_level_def)
next
  case False
  then have eq: "sample_level cf n r = lower_bound cf 0 n r" by (simp add: sample_level_def)
  have r: "0 \<le> lower_bound cf 0 n r \<and> lower_bound cf 0 n r \<le> 0 + n
   \<and> (lower_bound cf 0 n r = 0 + n \<and> 0 < n \<longrightarrow> cf ! (0 + n - 1) < r)"
    by (rule lower_bound_range)
  have "lower_bound cf 0 n r \<noteq> n" using r False assms by auto
  then show ?thesis using r eq by simp
qed

lemma fold_add_sum_list:
  "fold (\<lambda>x s. s + x) xs (a :: 32 word) = a + sum_list xs"
  by (induction xs arbitrary: a) (simp_all add: add.assoc)

lemma sum_list_increment:
  assumes "i < length xs"
  shows "sum_list (xs[i := xs ! i + 1]) = sum_list xs + (1 :: 32 word)"
  using assms
proof (induction xs arbitrary: i)
  case Nil
  then show ?case by simp
next
  case (Cons x xs)
  then show ?case by (cases i) (simp_all add: add.assoc)
qed

lemma dxc_loop_frame:
  "dxc_loop n vf c rnd i t f (st, k) = Some (f', st', k')
   \<Longrightarrow> without_products st' = without_products st"
proof (induction n arbitrary: i t f st k)
  case 0
  then show ?case by (simp split: if_splits)
next
  case (Suc n)
  have ap: "without_products (add_product p s) = without_products s" for p s
    by (simp add: add_product_def without_products_def)
  have ap2: "without_products ((add_product p s)\<lparr>m_nPenning := x\<rparr>) = without_products s" for p s x
    by (simp add: add_product_def without_products_def)
  from Suc.prems show ?case
    by (auto simp add: Let_def ap ap2 split: if_splits prod.splits option.splits
        dest!: Suc.IH)
qed

lemma ComputeDeexcitationInternal_frame:
  "ComputeDeexcitationInternal fuel vf c rnd i (st, k) = Some (f', st', k')
   \<Longrightarrow> without_products st' = without_products st"
  by (auto simp add: ComputeDeexcitationInternal_def without_products_def dest!: dxc_loop_frame)

lemma penning_transfer_frame:
  "penning_transfer c rnd level igas (st, k) = (ndxc, st', k')
   \<Longrightarrow> without_products st' = without_products st"
  by (auto simp add: penning_transfer_def without_products_def add_product_def Let_def
      split: if_splits prod.splits)

lemma collision_products_frame:
  assumes "collision_products fuel vf c rnd e type level igas secs (st, k)
           = Some (loss, secs', ndxc, st', k')"
  shows "without_products st' = without_products st"
proof (cases "type = ElectronCollisionTypeExcitation")
  case False
  then show ?thesis using assms
    by (auto simp add: collision_products_def Let_def split: if_splits prod.splits)
next
  case True
  show ?thesis
  proof (cases "m_useDeexcitation st \<and> m_iDeexcitation st ! level \<ge> 0")
    case d: True
    then show ?thesis using assms True
      by (auto simp add: collision_products_def Let_def ElectronCollisionTypeExcitation_def
            ElectronCollisionTypeIonisation_def
          split: option.splits dest!: ComputeDeexcitationInternal_frame)
  next
    case nd: False
    show ?thesis
    proof (cases "m_usePenning st")
      case p: True
      obtain n s q where pt: "penning_transfer c rnd level igas (st, k) = (n, s, q)"
        by (metis surj_pair)
      have "st' = s" using assms True nd p pt
        by (auto simp add: collision_products_def Let_def ElectronCollisionTypeExcitation_def
            ElectronCollisionTypeIonisation_def)
      then show ?thesis using pt by (auto dest: penning_transfer_frame)
    next
      case np: False
      then show ?thesis using assms True nd
        by (auto simp add: collision_products_def Let_def ElectronCollisionTypeExcitation_def
            ElectronCollisionTypeIonisation_def)
    qed
  qed
qed

lemma collide_result:
  assumes "collide fuel vf c rnd e d secs (st0, k0) = Some (col, st', k')"
  shows "col_level col = fst (choose_level st0 e (rnd k0))
       \<and> col_type col = m_csType st0 ! col_level col mod nCsTypes
       \<and> (\<exists>loss0 secs' k2.
             collision_products fuel vf c rnd e (col_type col) (col_level col)
               (m_csType st0 ! col_level col div nCsTypes) secs
               (count_collision (col_type col) (col_level col) st0, k0 + 1)
             = Some (loss0, secs', col_ndxc col, st', k2))"
  using assms
  by (auto simp add: collide_def Let_def split: prod.splits option.splits)

lemma collide_defined:
  assumes "collision_products fuel vf c rnd e
             (m_csType st0 ! fst (choose_level st0 e (rnd k0)) mod nCsTypes)
             (fst (choose_level st0 e (rnd k0)))
             (m_csType st0 ! fst (choose_level st0 e (rnd k0)) div nCsTypes) secs
             (count_collision (m_csType st0 ! fst (choose_level st0 e (rnd k0)) mod nCsTypes)
                (fst (choose_level st0 e (rnd k0))) st0, k0 + 1) \<noteq> None"
  shows "\<exists>col st' k'. collide fuel vf c rnd e d secs (st0, k0) = Some (col, st', k')"
  using assms
  by (auto simp add: collide_def Let_def split: prod.splits option.splits)

lemma choose_level_bound:
  assumes "0 < m_nTerms st"
  shows "fst (choose_level st e r) < m_nTerms st"
  using assms by (simp add: choose_level_def Let_def sample_level_bound)

lemma GetElectronCollision_success:
  assumes "GetElectronCollision fuel vf env c rnd e d secs (st, k) = Some (Some col, st', k')"
  shows "\<exists>st1. prepare_tables env c st e = (True, st1)
             \<and> collide fuel vf c rnd e d secs (st1, k) = Some (col, st', k')"
  using assms
  by (auto simp add: GetElectronCollision_def split: prod.splits bool.splits option.splits)

lemma six_counters:
  assumes "length xs = nCsTypes"
  shows "sum_list xs = xs ! 0 + xs ! 1 + xs ! 2 + xs ! 3 + xs ! 4 + xs ! 5 + (0 :: 32 word)"
proof -
  have "map ((!) xs) [0..<6] = xs" using map_nth[of xs] assms by (simp add: nCsTypes_def)
  then have "sum_list xs = sum_list (map ((!) xs) [0..<6])" by simp
  also have "\<dots> = xs ! 0 + xs ! 1 + xs ! 2 + xs ! 3 + xs ! 4 + xs ! 5 + 0"
    by (simp add: upt_rec add.assoc eval_nat_numeral)
  finally show ?thesis .
qed

lemma by_type_total:
  assumes "length (m_nCollisions st) = nCsTypes"
  shows "GetNumberOfElectronCollisions st = fst (GetNumberOfElectronCollisions_by_type st)
       \<and> fst (GetNumberOfElectronCollisions_by_type st)
         = sum_list (snd (GetNumberOfElectronCollisions_by_type st))"
  using six_counters[OF assms]
  by (simp add: GetNumberOfElectronCollisions_def GetNumberOfElectronCollisions_by_type_def
      fold_add_sum_list Let_def add.assoc
      ElectronCollisionTypeElastic_def ElectronCollisionTypeIonisation_def
      ElectronCollisionTypeAttachment_def ElectronCollisionTypeInelastic_def
      ElectronCollisionTypeExcitation_def ElectronCollisionTypeSuperelastic_def)

lemma counters_without_products:
  "m_nCollisions st = m_nCollisions (without_products st)
   \<and> m_nCollisionsDetailed st = m_nCollisionsDetailed (without_products st)
   \<and> m_nTerms st = m_nTerms (without_products st)"
  by (simp add: without_products_def)

lemma collide_counters:
  assumes "collide fuel vf c rnd e d secs (st1, k) = Some (col, st', k')"
  shows "m_nCollisions st' = (m_nCollisions st1)[col_type col := m_nCollisions st1 ! col_type col + 1]
       \<and> m_nCollisionsDetailed st'
         = (m_nCollisionsDetailed st1)[col_level col := m_nCollisionsDetailed st1 ! col_level col + 1]
       \<and> m_nTerms st' = m_nTerms st1"
proof -
  from collide_result[OF assms] obtain loss0 secs' k2 where
    cp: "collision_products fuel vf c rnd e (col_type col) (col_level col)
               (m_csType st1 ! col_level col div nCsTypes) secs
               (count_collision (col_type col) (col_level col) st1, k + 1)
             = Some (loss0, secs', col_ndxc col, st', k2)" by blast
  have "without_products st' = without_products (count_collision (col_type col) (col_level col) st1)"
    using cp by (rule collision_products_frame)
  then have "m_nCollisions st' = m_nCollisions (count_collision (col_type col) (col_level col) st1)
     \<and> m_nCollisionsDetailed st' = m_nCollisionsDetailed (count_collision (col_type col) (col_level col) st1)
     \<and> m_nTerms st' = m_nTerms (count_collision (col_type col) (col_level col) st1)"
    using counters_without_products[of st']
      counters_without_products[of "count_collision (col_type col) (col_level col) st1"]
    by simp
  then show ?thesis by (simp add: count_collision_def)
qed

lemma sum_list_zeros: "sum_list (replicate n (0 :: 32 word)) = 0"
  by (induction n) simp_all

lemma ResetCollisionCounters_zero:
  "m_nCollisions (ResetCollisionCounters s) = replicate (length (m_nCollisions s)) 0
   \<and> m_nCollisionsDetailed (ResetCollisionCounters s) = replicate (m_nTerms s) 0
   \<and> m_nPenning (ResetCollisionCounters s) = 0
   \<and> GetNumberOfElectronCollisions (ResetCollisionCounters s) = 0
   \<and> sum_list (m_nCollisionsDetailed (ResetCollisionCounters s)) = 0"
  by (simp add: ResetCollisionCounters_def GetNumberOfElectronCollisions_def fold_add_sum_list
      sum_list_zeros del: fold_replicate)

lemma count_collision_tables:
  "m_useDeexcitation (count_collision t l s) = m_useDeexcitation s
   \<and> m_usePenning (count_collision t l s) = m_usePenning s
   \<and> m_rPenning (count_collision t l s) = m_rPenning s
   \<and> m_lambdaPenning (count_collision t l s) = m_lambdaPenning s
   \<and> m_energyLoss (count_collision t l s) = m_energyLoss s
   \<and> m_rgas (count_collision t l s) = m_rgas s
   \<and> m_minIonPot (count_collision t l s) = m_minIonPot s
   \<and> m_iDeexcitation (count_collision t l s) = m_iDeexcitation s
   \<and> m_dxcProducts (count_collision t l s) = m_dxcProducts s
   \<and> m_nPenning (count_collision t l s) = m_nPenning s"
  by (simp add: count_collision_def)

lemma penning_transfer_certain:
  assumes "m_energyLoss st ! level * m_rgas st ! igas > m_minIonPot st"
    and "rnd k < m_rPenning st ! level"
  shows "\<exists>s st' k'. penning_transfer c rnd level igas (st, k) = (1, st', k')
       \<and> m_dxcProducts st' = [\<lparr>prod_s = s, prod_t = 0, prod_type = DxcProdTypeElectron,
                                prod_energy = m_energyLoss st ! level * m_rgas st ! igas - m_minIonPot st\<rparr>]
       \<and> m_nPenning st' = m_nPenning st + 1"
  using assms
  by (auto simp add: penning_transfer_def Let_def add_product_def split: prod.splits)

lemma built_level:
  "choose_level (session_built\<lparr>m_usePenning := p, m_rPenning := q\<rparr>) 10 (rnd_half 0)
   = (1, 1, 1 / 2)"
  by (simp add: choose_level_def session_built_def session0_def bin_index_def rnd_half_def
      nEnergySteps_def nMaxLevels_def Let_def sample_level_def lower_bound.simps)

lemma built_level0:
  "choose_level session_built 10 (rnd_half 0) = (1, 1, 1 / 2)"
  by (simp add: choose_level_def session_built_def session0_def bin_index_def rnd_half_def
      nEnergySteps_def nMaxLevels_def Let_def sample_level_def lower_bound.simps)

lemma built_collision:
  "\<exists>col st' k'. GetElectronCollision 0 0 env0 c0 rnd_half 10 (0, 0, 1) [] (session_built, 0)
      = Some (Some col, st', k')"
proof -
  have p: "prepare_tables env0 c0 session_built 10 = (True, session_built)"
    by (simp add: prepare_tables_def session_built_def session0_def)
  have t: "m_csType session_built ! Suc 0 = 4" "m_useDeexcitation (count_collision 4 (Suc 0) session_built) = False"
    "m_usePenning (count_collision 4 (Suc 0) session_built) = False"
    by (simp_all add: session_built_def session0_def count_collision_def)
  have "collision_products 0 0 c0 rnd_half 10 4 (Suc 0) 0 [] (count_collision 4 (Suc 0) session_built, Suc 0) \<noteq> None"
    by (simp add: collision_products_def t ElectronCollisionTypeExcitation_def
        ElectronCollisionTypeIonisation_def Let_def)
  then obtain col st' k' where
    "collide 0 0 c0 rnd_half 10 (0, 0, 1) [] (session_built, 0) = Some (col, st', k')"
    using collide_defined[of 0 0 c0 rnd_half 10 session_built 0 "[]" "(0, 0, 1)"]
    by (auto simp add: built_level0 t nCsTypes_def)
  then show ?thesis by (simp add: GetElectronCollision_def p)
qed

lemma penning_collision:
  "\<exists>col st' k'. GetElectronCollision 0 0 env0 c0 rnd_half 10 (0, 0, 1) [] (session_penning, 0)
      = Some (Some col, st', k') \<and> col_type col = 4 \<and> col_level col = 1"
proof -
  have p: "prepare_tables env0 c0 session_penning 10 = (True, session_penning)"
    by (simp add: prepare_tables_def session_penning_def session_built_def session0_def)
  have lv: "choose_level session_penning 10 (rnd_half 0) = (1, 1, 1 / 2)"
    unfolding session_penning_def by (rule built_level)
  have t: "m_csType session_penning ! Suc 0 = 4" "m_useDeexcitation (count_collision 4 (Suc 0) session_penning) = False"
    "m_usePenning (count_collision 4 (Suc 0) session_penning) = True"
    by (simp_all add: session_penning_def session_built_def session0_def count_collision_def)
  have "collision_products 0 0 c0 rnd_half 10 4 (Suc 0) 0 [] (count_collision 4 (Suc 0) session_penning, Suc 0) \<noteq> None"
    by (simp add: collision_products_def t ElectronCollisionTypeExcitation_def
        ElectronCollisionTypeIonisation_def Let_def split_beta)
  then obtain col st' k' where
    c: "collide 0 0 c0 rnd_half 10 (0, 0, 1) [] (session_penning, 0) = Some (col, st', k')"
    using collide_defined[of 0 0 c0 rnd_half 10 session_penning 0 "[]" "(0, 0, 1)"]
    by (auto simp add: lv t nCsTypes_def)
  from collide_result[OF c] have "col_level col = 1 \<and> col_type col = 4"
    by (simp add: lv t nCsTypes_def)
  then show ?thesis using c by (simp add: GetElectronCollision_def p)
qed

subsection \<open>What a failed rebuild leaves\<close>

lemma set_level_kept [simp]:
  "kept_by_gas_loop (set_level np model loss descr type st) = kept_by_gas_loop st"
  by (simp add: set_level_def kept_by_gas_loop_def)

lemma ion_levels_kept:
  "kept_by_gas_loop (snd (snd (fold (ion_level gd iGas r) js s))) = kept_by_gas_loop (snd (snd s))"
proof (induction js arbitrary: s)
  case Nil
  show ?case by simp
next
  case (Cons j js)
  have "kept_by_gas_loop (snd (snd (ion_level gd iGas r j s))) = kept_by_gas_loop (snd (snd s))"
    by (cases s) (simp add: ion_level_def, simp add: kept_by_gas_loop_def)
  then show ?case using Cons.IH[of "ion_level gd iGas r j s"] by simp
qed

lemma inelastic_levels_kept:
  "kept_by_gas_loop (snd (fold (inelastic_level gd iGas r) js s)) = kept_by_gas_loop (snd s)"
proof (induction js arbitrary: s)
  case Nil
  show ?case by simp
next
  case (Cons j js)
  have "kept_by_gas_loop (snd (inelastic_level gd iGas r j s)) = kept_by_gas_loop (snd s)"
    by (cases s) (simp add: inelastic_level_def Let_def)
  then show ?case using Cons.IH[of "inelastic_level gd iGas r j s"] by simp
qed

lemma kept_upd [simp]:
  "kept_by_gas_loop (s\<lparr>m_nTerms := a\<rparr>) = kept_by_gas_loop s"
  "kept_by_gas_loop (s\<lparr>m_rgas := b\<rparr>) = kept_by_gas_loop s"
  "kept_by_gas_loop (s\<lparr>m_wOpalBeaty := w\<rparr>) = kept_by_gas_loop s"
  "kept_by_gas_loop (s\<lparr>m_ionPot := i\<rparr>) = kept_by_gas_loop s"
  "kept_by_gas_loop (set_GreenSawada_0_4 g v0 v4 s) = kept_by_gas_loop s"
  by (simp_all add: kept_by_gas_loop_def set_GreenSawada_0_4_def)

lemma gas_levels_kept:
  "kept_by_gas_loop (snd (gas_levels gd iGas np0 st)) = kept_by_gas_loop st"
proof -
  define r where "r = 1 + 0.5 * g_e gd ! 1"
  define st1 where "st1 = set_level np0 (g_kEl gd ! 1) 0 (g_scrpt gd ! 1)
                  (nCsTypes * iGas + ElectronCollisionTypeElastic)
                  (st\<lparr>m_nTerms := m_nTerms st + 1, m_rgas := (m_rgas st)[iGas := r]\<rparr>)"
  have k1: "kept_by_gas_loop st1 = kept_by_gas_loop st" by (simp add: st1_def)
  define ions where "ions = fold (ion_level gd iGas r) [0..<g_nIon gd] (np0, False, st1)"
  have ki: "kept_by_gas_loop (snd (snd ions)) = kept_by_gas_loop st"
    using ion_levels_kept[of gd iGas r "[0..<g_nIon gd]" "(np0, False, st1)"] k1
    by (simp add: ions_def)
  show ?thesis
    unfolding gas_levels_def Let_def r_def[symmetric] st1_def[symmetric] ions_def[symmetric]
    using k1 ki
    by (simp add: split_beta inelastic_levels_kept)
qed

lemma gas_linear_kept:
  "kept_by_gas_loop (gas_linear st gd iGas van withIon np0) = kept_by_gas_loop st"
  by (simp add: gas_linear_def kept_by_gas_loop_def split_beta Let_def)

lemma gas_log_kept:
  "kept_by_gas_loop (gas_log env st ngs iGas van withIon np0) = kept_by_gas_loop st"
  by (simp add: gas_log_def kept_by_gas_loop_def split_beta Let_def)

lemma Mixer_gas_kept:
  "Mixer_gas env prefactor gasNumber iGas st = Some st' \<Longrightarrow> kept_by_gas_loop st' = kept_by_gas_loop st"
  by (auto simp add: Mixer_gas_def Let_def split_beta gas_log_kept gas_linear_kept gas_levels_kept
      split: if_splits)

lemma Mixer_gases_kept:
  "kept_by_gas_loop (snd (Mixer_gases env prefactor gasNumber is st)) = kept_by_gas_loop st"
proof (induction "is" arbitrary: st)
  case Nil
  show ?case by simp
next
  case (Cons i "is")
  show ?case
  proof (cases "Mixer_gas env prefactor gasNumber i st")
    case None
    then show ?thesis by simp
  next
    case (Some st')
    then show ?thesis using Cons.IH[of st'] Mixer_gas_kept[OF Some] by simp
  qed
qed

lemma Mixer_reset_totals:
  "m_cfTot (Mixer_reset st) = replicate nEnergySteps 0
   \<and> m_cfTotLog (Mixer_reset st) = replicate nEnergyStepsLog 0
   \<and> m_cf (Mixer_reset st) = replicate nEnergySteps (replicate nMaxLevels 0)
   \<and> m_cfLog (Mixer_reset st) = replicate nEnergyStepsLog (replicate nMaxLevels 0)
   \<and> m_deexcitations (Mixer_reset st) = []
   \<and> m_cfNull (Mixer_reset st) = m_cfNull st
   \<and> m_nCollisions (Mixer_reset st) = m_nCollisions st
   \<and> m_nCollisionsDetailed (Mixer_reset st) = m_nCollisionsDetailed st
   \<and> m_isChanged (Mixer_reset st) = m_isChanged st"
  by (simp add: Mixer_reset_def)

lemma Mixer_failure:
  assumes "Mixer env c st = (False, st')"
  shows "m_cfTot st' = replicate nEnergySteps 0
       \<and> m_cfTotLog st' = replicate nEnergyStepsLog 0
       \<and> m_deexcitations st' = []
       \<and> m_cfNull st' = m_cfNull st
       \<and> m_nCollisions st' = m_nCollisions st
       \<and> m_nCollisionsDetailed st' = m_nCollisionsDetailed st
       \<and> m_isChanged st' = m_isChanged st"
proof -
  have k0: "kept_by_gas_loop ((Mixer_reset st)\<lparr>m_nTerms := 0\<rparr>)
            = (replicate nEnergySteps 0, replicate nEnergyStepsLog 0, m_cfNull st,
               m_nCollisions st, m_nCollisionsDetailed st, [], m_isChanged st)"
    using Mixer_reset_totals[of st] by (simp add: kept_by_gas_loop_def)
  have "kept_by_gas_loop st' = kept_by_gas_loop ((Mixer_reset st)\<lparr>m_nTerms := 0\<rparr>)"
  proof (cases "list_ex (\<lambda>n. n = None)
                  (map GetGasNumberMagboltz (take (m_nComponents (Mixer_reset st)) (m_gas (Mixer_reset st))))")
    case True
    then have "st' = Mixer_reset st" using assms by (simp add: Mixer_def Let_def)
    then show ?thesis by simp
  next
    case False
    define R where "R = Mixer_gases env (GetNumberDensity env * SpeedOfLight c * sqrt (2 / ElectronMass c))
           (map the (map GetGasNumberMagboltz (take (m_nComponents (Mixer_reset st)) (m_gas (Mixer_reset st)))))
           [0..<m_nComponents (Mixer_reset st)] ((Mixer_reset st)\<lparr>m_nTerms := 0\<rparr>)"
    have "st' = snd R" using assms False
      unfolding Mixer_def Let_def R_def[symmetric]
      by (cases R) (auto split: bool.splits)
    then show ?thesis unfolding R_def by (simp add: Mixer_gases_kept)
  qed
  then show ?thesis using k0 by (simp add: kept_by_gas_loop_def)
qed

section \<open>The tables that Mixer builds\<close>

subsection \<open>Loops over the bins\<close>

lemma fold_bins:
  assumes "distinct is" and "length xs = length ys"
  shows "length (fst (fold (\<lambda>i (xs, ys). let (r, t) = f i (xs ! i, ys ! i)
                                          in (xs[i := r], ys[i := t])) is (xs, ys))) = length xs
       \<and> length (snd (fold (\<lambda>i (xs, ys). let (r, t) = f i (xs ! i, ys ! i)
                                          in (xs[i := r], ys[i := t])) is (xs, ys))) = length ys
       \<and> (\<forall>j < length xs.
            fst (fold (\<lambda>i (xs, ys). let (r, t) = f i (xs ! i, ys ! i)
                                      in (xs[i := r], ys[i := t])) is (xs, ys)) ! j
            = (if j \<in> set is then fst (f j (xs ! j, ys ! j)) else xs ! j)
          \<and> snd (fold (\<lambda>i (xs, ys). let (r, t) = f i (xs ! i, ys ! i)
                                      in (xs[i := r], ys[i := t])) is (xs, ys)) ! j
            = (if j \<in> set is then snd (f j (xs ! j, ys ! j)) else ys ! j))"
  using assms
proof (induction "is" arbitrary: xs ys)
  case Nil
  then show ?case by simp
next
  case (Cons i "is")
  let ?F = "\<lambda>i (xs, ys). let (r, t) = f i (xs ! i, ys ! i) in (xs[i := r], ys[i := t])"
  obtain r t where rt: "f i (xs ! i, ys ! i) = (r, t)" by (metis surj_pair)
  have step: "fold ?F (i # is) (xs, ys) = fold ?F is (xs[i := r], ys[i := t])"
    by (simp add: rt)
  have d: "distinct is" and ni: "i \<notin> set is" using Cons.prems(1) by simp_all
  have l: "length (xs[i := r]) = length (ys[i := t])" using Cons.prems(2) by simp
  note IH = Cons.IH[OF d l]
  show ?case unfolding step
  proof (intro conjI allI impI)
    show "length (fst (fold ?F is (xs[i := r], ys[i := t]))) = length xs" using IH by simp
    show "length (snd (fold ?F is (xs[i := r], ys[i := t]))) = length ys" using IH by simp
  next
    fix j assume j: "j < length xs"
    then have j': "j < length (xs[i := r])" by simp
    have jy: "j < length ys" using j Cons.prems(2) by simp
    from IH j' have
      a: "fst (fold ?F is (xs[i := r], ys[i := t])) ! j
          = (if j \<in> set is then fst (f j (xs[i := r] ! j, ys[i := t] ! j)) else xs[i := r] ! j)"
      and b: "snd (fold ?F is (xs[i := r], ys[i := t])) ! j
          = (if j \<in> set is then snd (f j (xs[i := r] ! j, ys[i := t] ! j)) else ys[i := t] ! j)"
      by simp_all
    show "fst (fold ?F is (xs[i := r], ys[i := t])) ! j
          = (if j \<in> set (i # is) then fst (f j (xs ! j, ys ! j)) else xs ! j)"
    proof (cases "j = i")
      case True
      then show ?thesis using a ni j rt by simp
    next
      case False
      then show ?thesis using a by simp
    qed
    show "snd (fold ?F is (xs[i := r], ys[i := t])) ! j
          = (if j \<in> set (i # is) then snd (f j (xs ! j, ys ! j)) else ys ! j)"
    proof (cases "j = i")
      case True
      then show ?thesis using b ni jy rt by simp
    next
      case False
      then show ?thesis using b by simp
    qed
  qed
qed

lemma fold_bins3:
  assumes "distinct is" and "length ys = length xs" and "length zs = length xs"
  shows "length (fst (fold (\<lambda>i (xs, ys, zs). let (r, s, t) = f i (xs ! i, ys ! i, zs ! i)
                                          in (xs[i := r], ys[i := s], zs[i := t])) is (xs, ys, zs))) = length xs
       \<and> (\<forall>j < length xs.
            fst (fold (\<lambda>i (xs, ys, zs). let (r, s, t) = f i (xs ! i, ys ! i, zs ! i)
                                          in (xs[i := r], ys[i := s], zs[i := t])) is (xs, ys, zs)) ! j
            = (if j \<in> set is then fst (f j (xs ! j, ys ! j, zs ! j)) else xs ! j))"
  using assms
proof (induction "is" arbitrary: xs ys zs)
  case Nil
  then show ?case by simp
next
  case (Cons i "is")
  let ?F = "\<lambda>i (xs, ys, zs). let (r, s, t) = f i (xs ! i, ys ! i, zs ! i)
                            in (xs[i := r], ys[i := s], zs[i := t])"
  obtain r s t where rt: "f i (xs ! i, ys ! i, zs ! i) = (r, s, t)" by (metis surj_pair)
  have step: "fold ?F (i # is) (xs, ys, zs) = fold ?F is (xs[i := r], ys[i := s], zs[i := t])"
    by (simp add: rt)
  have d: "distinct is" and ni: "i \<notin> set is" using Cons.prems(1) by simp_all
  have l: "length (ys[i := s]) = length (xs[i := r])" "length (zs[i := t]) = length (xs[i := r])"
    using Cons.prems(2,3) by simp_all
  note IH = Cons.IH[OF d l]
  show ?case unfolding step
  proof (intro conjI allI impI)
    show "length (fst (fold ?F is (xs[i := r], ys[i := s], zs[i := t]))) = length xs" using IH by simp
  next
    fix j assume j: "j < length xs"
    then have j': "j < length (xs[i := r])" by simp
    from IH j' have
      a: "fst (fold ?F is (xs[i := r], ys[i := s], zs[i := t])) ! j
          = (if j \<in> set is then fst (f j (xs[i := r] ! j, ys[i := s] ! j, zs[i := t] ! j))
             else xs[i := r] ! j)"
      by simp
    show "fst (fold ?F is (xs[i := r], ys[i := s], zs[i := t])) ! j
          = (if j \<in> set (i # is) then fst (f j (xs ! j, ys ! j, zs ! j)) else xs ! j)"
    proof (cases "j = i")
      case True
      then show ?thesis using a ni j rt by simp
    next
      case False
      then show ?thesis using a by simp
    qed
  qed
qed

subsection \<open>Totals and cumulative probabilities, bin by bin\<close>

lemma Mixer_rates_linear_fold:
  "m_cf (Mixer_rates c st)
   = fst (fold (\<lambda>iE (cf, cfTot).
                  let (row, tot) = Mixer_linear_bin c (m_eStep st) (m_nTerms st) iE (cf ! iE, cfTot ! iE)
                  in (cf[iE := row], cfTot[iE := tot]))
            (rev [0..<nEnergySteps]) (m_cf st, m_cfTot st))
   \<and> m_cfTot (Mixer_rates c st)
   = snd (fold (\<lambda>iE (cf, cfTot).
                  let (row, tot) = Mixer_linear_bin c (m_eStep st) (m_nTerms st) iE (cf ! iE, cfTot ! iE)
                  in (cf[iE := row], cfTot[iE := tot]))
            (rev [0..<nEnergySteps]) (m_cf st, m_cfTot st))"
  by (simp add: Mixer_rates_def Let_def split_beta)


lemma Mixer_rates_kept:
  "m_nTerms (Mixer_rates c st) = m_nTerms st
   \<and> grid_of (Mixer_rates c st) = grid_of st
   \<and> m_isChanged (Mixer_rates c st) = m_isChanged st
   \<and> m_nCollisions (Mixer_rates c st) = replicate (length (m_nCollisions st)) 0
   \<and> m_nCollisionsDetailed (Mixer_rates c st) = replicate (m_nTerms st) 0"
  by (simp add: Mixer_rates_def Let_def split_beta grid_of_def)

lemma Mixer_rates_linear_bin:
  assumes "length (m_cf st) = nEnergySteps" and "length (m_cfTot st) = nEnergySteps"
    and "iE < nEnergySteps"
  shows "m_cf (Mixer_rates c st) ! iE
         = fst (Mixer_linear_bin c (m_eStep st) (m_nTerms st) iE (m_cf st ! iE, m_cfTot st ! iE))
       \<and> m_cfTot (Mixer_rates c st) ! iE
         = snd (Mixer_linear_bin c (m_eStep st) (m_nTerms st) iE (m_cf st ! iE, m_cfTot st ! iE))"
proof -
  have d: "distinct (rev [0..<nEnergySteps])" by simp
  have l: "length (m_cf st) = length (m_cfTot st)" using assms by simp
  have j: "iE < length (m_cf st)" using assms by simp
  have m: "iE \<in> set (rev [0..<nEnergySteps])" using assms(3) by simp
  from fold_bins[OF d l, of "\<lambda>iE. Mixer_linear_bin c (m_eStep st) (m_nTerms st) iE"] j m
  show ?thesis unfolding Mixer_rates_linear_fold[THEN conjunct1] Mixer_rates_linear_fold[THEN conjunct2]
    by simp
qed


subsection \<open>The loop over the gases keeps the shape of the tables\<close>

lemma rows_shape_update:
  assumes "rows_shape n xs" and "i < length xs \<Longrightarrow> length r = length (xs ! i)"
  shows "rows_shape n (xs[i := r])"
proof (cases "i < length xs")
  case True
  have "length (xs ! i) = nMaxLevels" using assms(1) True by (simp add: rows_shape_def list_all_length)
  then have "length r = nMaxLevels" using assms(2) True by simp
  then show ?thesis using assms(1) True
    by (auto simp add: rows_shape_def list_all_length nth_list_update)
next
  case False
  then show ?thesis using assms(1) by (simp add: list_update_beyond)
qed

lemma put_term_length:
  "length (fst (put_term np v model parIn rs)) = length (fst rs)"
  by (cases rs) (simp add: put_term_def split_beta)

lemma ion_terms_length:
  "length (fst (snd (fold (ion_term st gd van k) js s))) = length (fst (snd s))"
proof (induction js arbitrary: s)
  case Nil
  show ?case by simp
next
  case (Cons j js)
  have "length (fst (snd (ion_term st gd van k j s))) = length (fst (snd s))"
    by (cases s) (simp add: ion_term_def put_term_length)
  then show ?case using Cons.IH[of "ion_term st gd van k j s"] by simp
qed

lemma inelastic_terms_length:
  "length (fst (snd (fold (inelastic_term st gd iGas van k) js s))) = length (fst (snd s))"
proof (induction js arbitrary: s)
  case Nil
  show ?case by simp
next
  case (Cons j js)
  have "length (fst (snd (inelastic_term st gd iGas van k j s))) = length (fst (snd s))"
    by (cases s) (simp add: inelastic_term_def put_term_length Let_def)
  then show ?case using Cons.IH[of "inelastic_term st gd iGas van k j s"] by simp
qed

lemma fill_bin_length:
  "length (fst (fill_bin st gd iGas van withIon np0 k lin rs)) = length (fst rs)"
proof -
  define rs1 where "rs1 = put_term np0 (g_q gd ! k ! 1 * van) (m_scatModel st ! np0) (g_pEqEl gd ! k ! 1) rs"
  have l1: "length (fst rs1) = length (fst rs)" by (simp add: rs1_def put_term_length)
  define p2 where "p2 = (if withIon then
               (if g_nIon gd > 1 then fold (ion_term st gd van k) [0..<g_nIon gd] (np0, rs1)
                else (np0 + 1,
                      put_term (np0 + 1) (g_q gd ! k ! 2 * van) (m_scatModel st ! (np0 + 1))
                        (g_pEqEl gd ! k ! 2) rs1))
             else (np0, rs1))"
  have l2: "length (fst (snd p2)) = length (fst rs)"
    using l1 ion_terms_length[of st gd van k "[0..<g_nIon gd]" "(np0, rs1)"]
    by (simp add: p2_def put_term_length)
  define rs3 where "rs3 = (case snd p2 of (cf, cuts, par) \<Rightarrow>
                   (cf[fst p2 + 1 := g_q gd ! k ! 3 * van], cuts,
                    if lin then par[fst p2 + 1 := 0.5] else par))"
  have l3: "length (fst rs3) = length (fst rs)" using l2 by (simp add: rs3_def split_beta)
  have "fill_bin st gd iGas van withIon np0 k lin rs
        = snd (fold (inelastic_term st gd iGas van k) [0..<g_nIn gd] (fst p2 + 1, rs3))"
    unfolding fill_bin_def Let_def rs1_def[symmetric] p2_def[symmetric] rs3_def
    by (simp add: split_beta)
  then show ?thesis
    using inelastic_terms_length[of st gd iGas van k "[0..<g_nIn gd]" "(fst p2 + 1, rs3)"] l3
    by simp
qed

lemma linear_fold_shape:
  "rows_shape n cf \<Longrightarrow>
   rows_shape n (fst (fold (\<lambda>iE (cf, cuts, par).
                    let (r1, r2, r3) = fill_bin st gd iGas van withIon np0 iE True
                                         (cf ! iE, cuts ! iE, par ! iE)
                    in (cf[iE := r1], cuts[iE := r2], par[iE := r3])) is (cf, cuts, par)))"
proof (induction "is" arbitrary: cf cuts par)
  case Nil
  then show ?case by simp
next
  case (Cons i "is")
  obtain r1 r2 r3 where f: "fill_bin st gd iGas van withIon np0 i True (cf ! i, cuts ! i, par ! i)
                           = (r1, r2, r3)" by (metis surj_pair)
  have "length r1 = length (cf ! i)" using fill_bin_length[of st gd iGas van withIon np0 i True
      "(cf ! i, cuts ! i, par ! i)"] f by simp
  then have "rows_shape n (cf[i := r1])" using Cons.prems by (intro rows_shape_update) simp_all
  then show ?case using Cons.IH[of "cf[i := r1]" "cuts[i := r2]" "par[i := r3]"] f by simp
qed

lemma log_fold_shape:
  "rows_shape n cf \<Longrightarrow>
   rows_shape n (fst (snd (fold (\<lambda>iE (emax, cf, cuts, par).
                      let (r1, r2, r3) = fill_bin st (gdf emax) iGas van withIon np0 imax False
                                           (cf ! iE, cuts ! iE, par ! iE)
                      in (emax * rLog, cf[iE := r1], cuts[iE := r2], par[iE := r3]))
                   is (emax, cf, cuts, par))))"
proof (induction "is" arbitrary: emax cf cuts par)
  case Nil
  then show ?case by simp
next
  case (Cons i "is")
  obtain r1 r2 r3 where f: "fill_bin st (gdf emax) iGas van withIon np0 imax False (cf ! i, cuts ! i, par ! i)
                           = (r1, r2, r3)" by (metis surj_pair)
  have "length r1 = length (cf ! i)" using fill_bin_length[of st "gdf emax" iGas van withIon np0 imax False
      "(cf ! i, cuts ! i, par ! i)"] f by simp
  then have "rows_shape n (cf[i := r1])" using Cons.prems by (intro rows_shape_update) simp_all
  then show ?case
    using Cons.IH[of "cf[i := r1]" "emax * rLog" "cuts[i := r2]" "par[i := r3]"] f
    by simp
qed

lemma gas_linear_shape:
  "table_shape st \<Longrightarrow> table_shape (gas_linear st gd iGas van withIon np0)"
  using linear_fold_shape[of nEnergySteps "m_cf st" st gd iGas van withIon np0 "[0..<nEnergySteps]"
      "m_scatCut st" "m_scatPar st"]
  by (simp add: gas_linear_def table_shape_def split_beta Let_def)

lemma gas_log_shape:
  assumes "table_shape st"
  shows "table_shape (gas_log env st ngs iGas van withIon np0)"
proof (cases "m_eFinal st \<le> m_eHigh st")
  case True
  then show ?thesis using assms by (simp add: gas_log_def)
next
  case False
  define gdf where "gdf = (\<lambda>emax. gasmix env (m_useAnisotropic st) ngs (emax / (real nEnergySteps - 0.5))
                (emax + 0.5 * (emax / (real nEnergySteps - 0.5))))"
  define rLog where "rLog = (m_eFinal st / m_eHigh st) powr (1 / real nEnergyStepsLog)"
  define F where "F = fold (\<lambda>iE (emax, cf, cuts, par).
                      let (r1, r2, r3) = fill_bin st (gdf emax) iGas van withIon np0 (nEnergySteps - 1) False
                                           (cf ! iE, cuts ! iE, par ! iE)
                      in (emax * rLog, cf[iE := r1], cuts[iE := r2], par[iE := r3]))
                   [0..<nEnergyStepsLog] (m_eHigh st * rLog, m_cfLog st, m_scatCutLog st, m_scatParLog st)"
  have sh: "rows_shape nEnergyStepsLog (fst (snd F))"
    unfolding F_def using assms by (intro log_fold_shape) (simp add: table_shape_def)
  have eq: "gas_log env st ngs iGas van withIon np0
            = st\<lparr>m_lnStep := ln rLog, m_cfLog := fst (snd F),
                 m_scatCutLog := fst (snd (snd F)), m_scatParLog := snd (snd (snd F))\<rparr>"
    unfolding gas_log_def Let_def F_def gdf_def rLog_def using False
    by (simp only: if_False split_beta)
  show ?thesis unfolding eq using assms sh by (simp add: table_shape_def)
qed

subsection \<open>The number of terms a gas adds\<close>

lemma set_level_levels [simp]:
  "kept_by_levels (set_level np model loss descr type st) = kept_by_levels st"
  "m_nTerms (set_level np model loss descr type st) = m_nTerms st"
  by (simp_all add: set_level_def kept_by_levels_def grid_of_def)

lemma levels_upd [simp]:
  "kept_by_levels (s\<lparr>m_nTerms := a\<rparr>) = kept_by_levels s"
  "kept_by_levels (s\<lparr>m_rgas := b\<rparr>) = kept_by_levels s"
  "kept_by_levels (s\<lparr>m_wOpalBeaty := w\<rparr>) = kept_by_levels s"
  "kept_by_levels (s\<lparr>m_ionPot := i\<rparr>) = kept_by_levels s"
  "kept_by_levels (set_GreenSawada_0_4 g v0 v4 s) = kept_by_levels s"
  "m_nTerms (set_GreenSawada_0_4 g v0 v4 s) = m_nTerms s"
  by (simp_all add: kept_by_levels_def set_GreenSawada_0_4_def grid_of_def)

lemma ion_levels_levels:
  "kept_by_levels (snd (snd (fold (ion_level gd iGas r) js s))) = kept_by_levels (snd (snd s))
   \<and> m_nTerms (snd (snd s)) \<le> m_nTerms (snd (snd (fold (ion_level gd iGas r) js s)))"
proof (induction js arbitrary: s)
  case Nil
  show ?case by simp
next
  case (Cons j js)
  have "kept_by_levels (snd (snd (ion_level gd iGas r j s))) = kept_by_levels (snd (snd s))
        \<and> m_nTerms (snd (snd s)) \<le> m_nTerms (snd (snd (ion_level gd iGas r j s)))"
    by (cases s) (simp add: ion_level_def)
  then show ?case using Cons.IH[of "ion_level gd iGas r j s"] by auto
qed

lemma inelastic_levels_levels:
  "kept_by_levels (snd (fold (inelastic_level gd iGas r) js s)) = kept_by_levels (snd s)
   \<and> m_nTerms (snd (fold (inelastic_level gd iGas r) js s)) = m_nTerms (snd s)"
proof (induction js arbitrary: s)
  case Nil
  show ?case by simp
next
  case (Cons j js)
  have "kept_by_levels (snd (inelastic_level gd iGas r j s)) = kept_by_levels (snd s)
        \<and> m_nTerms (snd (inelastic_level gd iGas r j s)) = m_nTerms (snd s)"
    by (cases s) (simp add: inelastic_level_def Let_def)
  then show ?case using Cons.IH[of "inelastic_level gd iGas r j s"] by simp
qed

lemma gas_levels_levels:
  "kept_by_levels (snd (gas_levels gd iGas np0 st)) = kept_by_levels st
   \<and> m_nTerms st + g_nIn gd + 2 \<le> m_nTerms (snd (gas_levels gd iGas np0 st))
   \<and> (g_nIon gd \<le> 1 \<longrightarrow>
        m_nTerms (snd (gas_levels gd iGas np0 st))
        = m_nTerms st + g_nIn gd + (if m_eFinal st \<ge> g_e gd ! 2 then 3 else 2))"
proof -
  define r where "r = 1 + 0.5 * g_e gd ! 1"
  define st1 where "st1 = set_level np0 (g_kEl gd ! 1) 0 (g_scrpt gd ! 1)
                  (nCsTypes * iGas + ElectronCollisionTypeElastic)
                  (st\<lparr>m_nTerms := m_nTerms st + 1, m_rgas := (m_rgas st)[iGas := r]\<rparr>)"
  have k1: "kept_by_levels st1 = kept_by_levels st" "m_nTerms st1 = m_nTerms st + 1"
    by (simp_all add: st1_def)
  have e1: "m_eFinal st1 = m_eFinal st" using k1(1) by (simp add: kept_by_levels_def grid_of_def)
  define ions where "ions = fold (ion_level gd iGas r) [0..<g_nIon gd] (np0, False, st1)"
  have ki: "kept_by_levels (snd (snd ions)) = kept_by_levels st"
    "m_nTerms st + 1 \<le> m_nTerms (snd (snd ions))"
    using ion_levels_levels[of gd iGas r "[0..<g_nIon gd]" "(np0, False, st1)"] k1
    by (simp_all add: ions_def)
  show ?thesis
    unfolding gas_levels_def Let_def r_def[symmetric] st1_def[symmetric] ions_def[symmetric]
    using k1 ki e1
    by (simp add: split_beta inelastic_levels_levels)
qed

lemma gas_linear_levels:
  "grid_of (gas_linear st gd iGas van withIon np0) = grid_of st
   \<and> m_nTerms (gas_linear st gd iGas van withIon np0) = m_nTerms st
   \<and> m_cfLog (gas_linear st gd iGas van withIon np0) = m_cfLog st"
  by (simp add: gas_linear_def grid_of_def split_beta Let_def)

lemma gas_log_levels:
  "grid_of (gas_log env st ngs iGas van withIon np0) = grid_of st
   \<and> m_nTerms (gas_log env st ngs iGas van withIon np0) = m_nTerms st
   \<and> m_cf (gas_log env st ngs iGas van withIon np0) = m_cf st"
  by (simp add: gas_log_def grid_of_def split_beta Let_def)

lemma table_shape_levels:
  "kept_by_levels s = kept_by_levels t \<Longrightarrow> table_shape s = table_shape t"
  by (simp add: kept_by_levels_def table_shape_def)

lemma Mixer_gas_result:
  assumes "Mixer_gas env prefactor gasNumber iGas st = Some st'"
  shows "grid_of st' = grid_of st
       \<and> (table_shape st \<longrightarrow> table_shape st')
       \<and> m_nTerms st + g_nIn (gasmix env (m_useAnisotropic st) (gasNumber ! iGas) (m_eStep st)
                                (min (m_eFinal st) (m_eHigh st))) + 2 \<le> m_nTerms st'
       \<and> (g_nIon (gasmix env (m_useAnisotropic st) (gasNumber ! iGas) (m_eStep st)
                                (min (m_eFinal st) (m_eHigh st))) \<le> 1 \<longrightarrow>
          m_nTerms st' = m_nTerms st
             + g_nIn (gasmix env (m_useAnisotropic st) (gasNumber ! iGas) (m_eStep st)
                                (min (m_eFinal st) (m_eHigh st)))
             + (if m_eFinal st \<ge> g_e (gasmix env (m_useAnisotropic st) (gasNumber ! iGas) (m_eStep st)
                                (min (m_eFinal st) (m_eHigh st))) ! 2 then 3 else 2))"
proof -
  define gd where "gd = gasmix env (m_useAnisotropic st) (gasNumber ! iGas) (m_eStep st)
                                (min (m_eFinal st) (m_eHigh st))"
  define L where "L = gas_levels gd iGas (m_nTerms st) st"
  define van where "van = m_fraction st ! iGas * prefactor"
  define s2 where "s2 = gas_linear (snd L) gd iGas van (fst L) (m_nTerms st)"
  have st': "st' = gas_log env s2 (gasNumber ! iGas) iGas van (fst L) (m_nTerms st)"
    using assms unfolding Mixer_gas_def Let_def gd_def[symmetric]
    by (simp add: split_beta L_def s2_def van_def split: if_splits)
  note gl = gas_levels_levels[of gd iGas "m_nTerms st" st, folded L_def]
  have g1: "grid_of (snd L) = grid_of st" using gl by (simp add: kept_by_levels_def)
  have sh1: "table_shape (snd L) = table_shape st" using gl by (intro table_shape_levels) simp
  have g2: "grid_of s2 = grid_of st" "m_nTerms s2 = m_nTerms (snd L)"
    using gas_linear_levels[of "snd L" gd iGas van "fst L" "m_nTerms st"] g1 by (simp_all add: s2_def)
  have sh2: "table_shape st \<Longrightarrow> table_shape s2"
    unfolding s2_def using sh1 by (intro gas_linear_shape) simp
  have g3: "grid_of st' = grid_of st" "m_nTerms st' = m_nTerms (snd L)"
    using gas_log_levels[of env s2 "gasNumber ! iGas" iGas van "fst L" "m_nTerms st"] g2
    by (simp_all add: st')
  have sh3: "table_shape st \<Longrightarrow> table_shape st'"
    unfolding st' using sh2 by (intro gas_log_shape) simp
  show ?thesis using g3 sh3 gl unfolding gd_def[symmetric] by simp
qed

lemma Mixer_gases_result:
  assumes "Mixer_gases env prefactor gasNumber is st = (True, st')"
  shows "grid_of st' = grid_of st \<and> (table_shape st \<longrightarrow> table_shape st')
       \<and> m_nTerms st + 2 * length is \<le> m_nTerms st'"
  using assms
proof (induction "is" arbitrary: st)
  case Nil
  then show ?case by simp
next
  case (Cons i "is")
  show ?case
  proof (cases "Mixer_gas env prefactor gasNumber i st")
    case None
    then show ?thesis using Cons.prems by simp
  next
    case (Some s)
    then have r: "Mixer_gases env prefactor gasNumber is s = (True, st')" using Cons.prems by simp
    from Cons.IH[OF r] Mixer_gas_result[OF Some] show ?thesis by auto
  qed
qed

subsection \<open>What the end of Mixer keeps\<close>

lemma fold_kept:
  assumes "\<And>x s. P (f x s) = P s"
  shows "P (fold f xs s) = P s"
  by (induction xs arbitrary: s) (simp_all add: assms)

lemma ComputeDeexcitationTable_kept:
  "kept_by_Mixer_finish (ComputeDeexcitationTable env c st) = kept_by_Mixer_finish st"
  by (simp add: ComputeDeexcitationTable_def kept_by_Mixer_finish_def Let_def split_beta)

lemma Mixer_deexcitation_kept:
  "kept_by_Mixer_finish (Mixer_deexcitation env c st) = kept_by_Mixer_finish st
   \<and> (\<not> m_useDeexcitation st \<longrightarrow> Mixer_deexcitation env c st = st)"
  using ComputeDeexcitationTable_kept[of env c st]
  by (simp add: Mixer_deexcitation_def Let_def kept_by_Mixer_finish_def)

lemma ComputePhotonCollisionTable_kept:
  "kept_by_Mixer_finish (snd (ComputePhotonCollisionTable env c st)) = kept_by_Mixer_finish st
   \<and> (\<not> m_useDeexcitation st \<longrightarrow> snd (ComputePhotonCollisionTable env c st) = st)"
  by (simp add: ComputePhotonCollisionTable_def kept_by_Mixer_finish_def)

lemma reset_Penning_kept:
  "kept_by_Mixer_finish (reset_Penning c st) = kept_by_Mixer_finish st
   \<and> m_useDeexcitation (reset_Penning c st) = m_useDeexcitation st"
proof -
  have "(kept_by_Mixer_finish (reset_Penning c st), m_useDeexcitation (reset_Penning c st))
        = (kept_by_Mixer_finish st, m_useDeexcitation st)"
    unfolding reset_Penning_def
    by (rule fold_kept[where P = "\<lambda>s. (kept_by_Mixer_finish s, m_useDeexcitation s)"])
       (simp add: kept_by_Mixer_finish_def Let_def)
  then show ?thesis by simp
qed

lemma SetupGreenSawada_kept:
  "kept_by_Mixer_finish (SetupGreenSawada st) = kept_by_Mixer_finish st
   \<and> m_useDeexcitation (SetupGreenSawada st) = m_useDeexcitation st"
proof -
  have "(kept_by_Mixer_finish (SetupGreenSawada st), m_useDeexcitation (SetupGreenSawada st))
        = (kept_by_Mixer_finish st, m_useDeexcitation st)"
    unfolding SetupGreenSawada_def
    by (rule fold_kept[where P = "\<lambda>s. (kept_by_Mixer_finish s, m_useDeexcitation s)"])
       (simp add: kept_by_Mixer_finish_def Let_def split: option.splits)
  then show ?thesis by simp
qed

lemma Mixer_finish_kept:
  "kept_by_Mixer_finish (Mixer_finish env c st) = kept_by_Mixer_finish st
   \<and> (\<not> m_useDeexcitation st \<longrightarrow> \<not> m_useDeexcitation (Mixer_finish env c st))"
proof -
  define st1 where "st1 = Mixer_deexcitation env c st"
  define P where "P = ComputePhotonCollisionTable env c st1"
  define st3 where "st3 = (if \<not> fst P \<and> m_useDeexcitation (snd P)
                           then (snd P)\<lparr>m_useDeexcitation := False\<rparr> else snd P)"
  have eq: "Mixer_finish env c st = SetupGreenSawada (reset_Penning c st3)"
    unfolding Mixer_finish_def Let_def st1_def[symmetric] P_def[symmetric] st3_def
    by (simp add: split_beta)
  have k1: "kept_by_Mixer_finish st1 = kept_by_Mixer_finish st"
    "\<not> m_useDeexcitation st \<Longrightarrow> st1 = st"
    using Mixer_deexcitation_kept[of env c st] by (simp_all add: st1_def)
  have k2: "kept_by_Mixer_finish (snd P) = kept_by_Mixer_finish st"
    "\<not> m_useDeexcitation st \<Longrightarrow> snd P = st"
    using ComputePhotonCollisionTable_kept[of env c st1] k1 by (auto simp add: P_def)
  have k3: "kept_by_Mixer_finish st3 = kept_by_Mixer_finish st"
    "\<not> m_useDeexcitation st \<Longrightarrow> \<not> m_useDeexcitation st3"
    using k2 by (auto simp add: st3_def kept_by_Mixer_finish_def)
  show ?thesis unfolding eq
    using SetupGreenSawada_kept[of "reset_Penning c st3"] reset_Penning_kept[of c st3] k3
    by auto
qed

lemma Mixer_success:
  assumes "Mixer env c st = (True, st')"
  shows "\<exists>st2. Mixer_gases env (GetNumberDensity env * SpeedOfLight c * sqrt (2 / ElectronMass c))
                  (map the (map GetGasNumberMagboltz (take (m_nComponents st) (m_gas st))))
                  [0..<m_nComponents st] ((Mixer_reset st)\<lparr>m_nTerms := 0\<rparr>) = (True, st2)
             \<and> st' = Mixer_finish env c (Mixer_rates c st2)"
proof -
  have f: "m_nComponents (Mixer_reset st) = m_nComponents st" "m_gas (Mixer_reset st) = m_gas st"
    by (simp_all add: Mixer_reset_def)
  define R where "R = Mixer_gases env (GetNumberDensity env * SpeedOfLight c * sqrt (2 / ElectronMass c))
           (map the (map GetGasNumberMagboltz (take (m_nComponents st) (m_gas st))))
           [0..<m_nComponents st] ((Mixer_reset st)\<lparr>m_nTerms := 0\<rparr>)"
  have "fst R \<and> st' = Mixer_finish env c (Mixer_rates c (snd R))"
    using assms unfolding Mixer_def Let_def f R_def[symmetric]
    by (cases R) (auto split: if_splits bool.splits)
  then show ?thesis unfolding R_def[symmetric] by (cases R) auto
qed

lemma Mixer_reset_shape:
  "table_shape ((Mixer_reset st)\<lparr>m_nTerms := 0\<rparr>)
   \<and> grid_of ((Mixer_reset st)\<lparr>m_nTerms := 0\<rparr>) = grid_of st
   \<and> m_nTerms ((Mixer_reset st)\<lparr>m_nTerms := 0\<rparr>) = 0
   \<and> m_cfLog ((Mixer_reset st)\<lparr>m_nTerms := 0\<rparr>) = replicate nEnergyStepsLog (replicate nMaxLevels 0)"
  by (simp add: Mixer_reset_def table_shape_def rows_shape_def grid_of_def list_all_length)

subsection \<open>The rows of a successful rebuild\<close>

lemma bin_cumulative:
  assumes "nTerms \<le> length row" and "0 < bin_frequency_sum nTerms row 0"
  shows "fst (Mixer_linear_bin c eStep nTerms iE (row, 0)) ! (nTerms - 1) = 1
       \<and> fst (Mixer_log_bin c eHigh rLog nTerms iE (row, 0)) ! (nTerms - 1) = 1"
proof -
  obtain row1 tot1 where r1: "(row1, tot1) = fold clamp_and_sum [0..<nTerms] (row, 0)"
    by (metis surj_pair)
  have tpos: "0 < tot1" using assms(2) r1[symmetric] by (simp add: bin_frequency_sum_def)
  have lin: "fst (Mixer_linear_bin c eStep nTerms iE (row, 0))
             = fold accumulate [1..<nTerms] (fold (normalise tot1) [0..<nTerms] row1)"
    using r1[symmetric] tpos by (simp add: Mixer_linear_bin_def Let_def)
  have lg: "fst (Mixer_log_bin c eHigh rLog nTerms iE (row, 0))
             = fold accumulate [1..<nTerms] (fold (normalise tot1) (rev [0..<nTerms]) row1)"
    using r1[symmetric] tpos by (simp add: Mixer_log_bin_def Let_def)
  have "sorted (take nTerms (fst (Mixer_linear_bin c eStep nTerms iE (row, 0))))
       \<and> fst (Mixer_linear_bin c eStep nTerms iE (row, 0)) ! (nTerms - 1) = 1"
    using assms r1 lin by (intro cumulative_row[where ks = "[0..<nTerms]"]) auto
  moreover have "sorted (take nTerms (fst (Mixer_log_bin c eHigh rLog nTerms iE (row, 0))))
       \<and> fst (Mixer_log_bin c eHigh rLog nTerms iE (row, 0)) ! (nTerms - 1) = 1"
    using assms r1 lg by (intro cumulative_row[where ks = "rev [0..<nTerms]"]) auto
  ultimately show ?thesis by simp
qed

lemma Mixer_built:
  assumes "Mixer env c st = (True, st')"
  shows "\<exists>st2. table_shape st2 \<and> m_nTerms st2 = m_nTerms st' \<and> grid_of st2 = grid_of st
           \<and> m_cfTot st2 = replicate nEnergySteps 0 \<and> m_cfTotLog st2 = replicate nEnergyStepsLog 0
           \<and> m_cf st' = m_cf (Mixer_rates c st2) \<and> m_cfLog st' = m_cfLog (Mixer_rates c st2)
           \<and> m_cfTot st' = m_cfTot (Mixer_rates c st2)
           \<and> m_eFinal st' = m_eFinal st \<and> m_eHigh st' = m_eHigh st \<and> m_eStep st' = m_eStep st
           \<and> m_nCollisions st' = replicate (length (m_nCollisions st)) 0
           \<and> m_nCollisionsDetailed st' = replicate (m_nTerms st') 0
           \<and> 2 * m_nComponents st \<le> m_nTerms st'
           \<and> (\<not> m_useDeexcitation st \<longrightarrow> \<not> m_useDeexcitation st')
           \<and> m_isChanged st' = m_isChanged st"
proof -
  from Mixer_success[OF assms] obtain st2 where
    g: "Mixer_gases env (GetNumberDensity env * SpeedOfLight c * sqrt (2 / ElectronMass c))
                  (map the (map GetGasNumberMagboltz (take (m_nComponents st) (m_gas st))))
                  [0..<m_nComponents st] ((Mixer_reset st)\<lparr>m_nTerms := 0\<rparr>) = (True, st2)"
    and st': "st' = Mixer_finish env c (Mixer_rates c st2)" by blast
  note rs = Mixer_reset_shape[of st]
  note gr = Mixer_gases_result[OF g]
  have sh: "table_shape st2" using gr rs by simp
  have gd: "grid_of st2 = grid_of st" using gr rs by simp
  have nt: "2 * m_nComponents st \<le> m_nTerms st2" using gr rs by simp
  have "kept_by_gas_loop (snd (Mixer_gases env (GetNumberDensity env * SpeedOfLight c * sqrt (2 / ElectronMass c))
                  (map the (map GetGasNumberMagboltz (take (m_nComponents st) (m_gas st))))
                  [0..<m_nComponents st] ((Mixer_reset st)\<lparr>m_nTerms := 0\<rparr>)))
        = kept_by_gas_loop ((Mixer_reset st)\<lparr>m_nTerms := 0\<rparr>)"
    by (rule Mixer_gases_kept)
  then have k: "kept_by_gas_loop st2 = kept_by_gas_loop ((Mixer_reset st)\<lparr>m_nTerms := 0\<rparr>)"
    unfolding g by simp
  have z: "m_cfTot st2 = replicate nEnergySteps 0" "m_cfTotLog st2 = replicate nEnergyStepsLog 0"
    "m_nCollisions st2 = m_nCollisions st" "m_isChanged st2 = m_isChanged st"
    using k Mixer_reset_totals[of st] by (simp_all add: kept_by_gas_loop_def)
  note mf = Mixer_finish_kept[of env c "Mixer_rates c st2", folded st']
  note mr = Mixer_rates_kept[of c st2]
  have ud: "m_useDeexcitation (Mixer_rates c st2) = m_useDeexcitation st"
    using mr gd by (simp add: grid_of_def)
  have fin: "m_eFinal (Mixer_rates c st2) = m_eFinal st" "m_eHigh (Mixer_rates c st2) = m_eHigh st"
    "m_eStep (Mixer_rates c st2) = m_eStep st"
    using mr gd by (simp_all add: grid_of_def)
  show ?thesis
    apply (rule exI[of _ st2])
    using sh gd z mf mr ud fin nt
    by (simp add: kept_by_Mixer_finish_def)
qed

lemma built_linear_row:
  assumes "Mixer env c st = (True, st')" and "m_nTerms st' \<le> nMaxLevels" and "iE < nEnergySteps"
  shows "m_nTerms st' \<le> length (m_cf st' ! iE)
       \<and> sorted (take (m_nTerms st') (m_cf st' ! iE))
       \<and> (m_cf st' ! iE ! (m_nTerms st' - 1) = 1 \<or> (\<forall>k<m_nTerms st'. m_cf st' ! iE ! k = 0))
       \<and> (0 < m_cfTot st' ! iE \<longrightarrow> m_cf st' ! iE ! (m_nTerms st' - 1) = 1)"
proof -
  from Mixer_built[OF assms(1)] obtain st2 where
    sh: "table_shape st2" and n: "m_nTerms st2 = m_nTerms st'"
    and z: "m_cfTot st2 = replicate nEnergySteps 0"
    and cf: "m_cf st' = m_cf (Mixer_rates c st2)" and tot: "m_cfTot st' = m_cfTot (Mixer_rates c st2)"
    by blast
  define row where "row = m_cf st2 ! iE"
  have l1: "length (m_cf st2) = nEnergySteps" "length (m_cfTot st2) = nEnergySteps"
    using sh by (simp_all add: table_shape_def rows_shape_def)
  have lr: "length row = nMaxLevels"
    using sh assms(3) by (simp add: table_shape_def rows_shape_def list_all_length row_def)
  have nl: "m_nTerms st' \<le> length row" using lr assms(2) by simp
  have z0: "m_cfTot st2 ! iE = 0" using z assms(3) by simp
  note b = Mixer_rates_linear_bin[OF l1 assms(3), of c, unfolded z0 n, folded row_def cf tot]
  have r: "m_cf st' ! iE = fst (Mixer_linear_bin c (m_eStep st2) (m_nTerms st') iE (row, 0))"
    and t: "m_cfTot st' ! iE = snd (Mixer_linear_bin c (m_eStep st2) (m_nTerms st') iE (row, 0))"
    using b by simp_all
  have shape: "m_nTerms st' \<le> length (m_cf st' ! iE) \<and> sorted (take (m_nTerms st') (m_cf st' ! iE))
     \<and> (m_cf st' ! iE ! (m_nTerms st' - 1) = 1 \<or> (\<forall>k<m_nTerms st'. m_cf st' ! iE ! k = 0))"
    using Mixer_row_shape[OF nl, where cf = "m_cf st' ! iE" and c = c and eStep = "m_eStep st2"
        and iE = iE] r by simp
  have "m_cf st' ! iE ! (m_nTerms st' - 1) = 1" if "0 < m_cfTot st' ! iE"
  proof -
    have "0 < bin_frequency_sum (m_nTerms st') row 0"
      using nl that unfolding t by (rule linear_total_positive)
    then show ?thesis unfolding r using bin_cumulative[OF nl] by simp
  qed
  then show ?thesis using shape by simp
qed


subsection \<open>The elastic term of a gas\<close>

lemma put_term_fst:
  "fst (put_term np v model parIn (cf, cuts, par)) = cf[np := v]"
  by (simp add: put_term_def split_beta)

lemma ion_terms_keep:
  assumes "n0 \<le> fst s"
  shows "n0 \<le> fst (fold (ion_term st gd van k) js s)
       \<and> fst (snd (fold (ion_term st gd van k) js s)) ! n0 = fst (snd s) ! n0"
  using assms
proof (induction js arbitrary: s)
  case Nil
  then show ?case by simp
next
  case (Cons j js)
  obtain np cf cuts par where s: "s = (np, cf, cuts, par)" by (metis surj_pair)
  have "n0 \<le> fst (ion_term st gd van k j s)
        \<and> fst (snd (ion_term st gd van k j s)) ! n0 = fst (snd s) ! n0"
    using Cons.prems by (simp add: s ion_term_def put_term_fst)
  then show ?case using Cons.IH[of "ion_term st gd van k j s"] by simp
qed

lemma inelastic_terms_keep:
  assumes "n0 \<le> fst s"
  shows "n0 \<le> fst (fold (inelastic_term st gd iGas van k) js s)
       \<and> fst (snd (fold (inelastic_term st gd iGas van k) js s)) ! n0 = fst (snd s) ! n0"
  using assms
proof (induction js arbitrary: s)
  case Nil
  then show ?case by simp
next
  case (Cons j js)
  obtain np cf cuts par where s: "s = (np, cf, cuts, par)" by (metis surj_pair)
  have "n0 \<le> fst (inelastic_term st gd iGas van k j s)
        \<and> fst (snd (inelastic_term st gd iGas van k j s)) ! n0 = fst (snd s) ! n0"
    using Cons.prems by (simp add: s inelastic_term_def put_term_fst Let_def)
  then show ?case using Cons.IH[of "inelastic_term st gd iGas van k j s"] by simp
qed

lemma fill_bin_elastic:
  assumes "np0 < length cf"
  shows "fst (fill_bin st gd iGas van withIon np0 k lin (cf, cuts, par)) ! np0 = g_q gd ! k ! 1 * van"
proof -
  define rs1 where "rs1 = put_term np0 (g_q gd ! k ! 1 * van) (m_scatModel st ! np0) (g_pEqEl gd ! k ! 1)
                            (cf, cuts, par)"
  have v1: "fst rs1 ! np0 = g_q gd ! k ! 1 * van" using assms by (simp add: rs1_def put_term_fst)
  define p2 where "p2 = (if withIon then
               (if g_nIon gd > 1 then fold (ion_term st gd van k) [0..<g_nIon gd] (np0, rs1)
                else (np0 + 1,
                      put_term (np0 + 1) (g_q gd ! k ! 2 * van) (m_scatModel st ! (np0 + 1))
                        (g_pEqEl gd ! k ! 2) rs1))
             else (np0, rs1))"
  have v2: "np0 \<le> fst p2 \<and> fst (snd p2) ! np0 = g_q gd ! k ! 1 * van"
    using v1 ion_terms_keep[of np0 "(np0, rs1)" st gd van k "[0..<g_nIon gd]"]
    by (cases rs1) (auto simp add: p2_def put_term_fst)
  define rs3 where "rs3 = (case snd p2 of (cf, cuts, par) \<Rightarrow>
                   (cf[fst p2 + 1 := g_q gd ! k ! 3 * van], cuts,
                    if lin then par[fst p2 + 1 := 0.5] else par))"
  have v3: "fst rs3 ! np0 = g_q gd ! k ! 1 * van" using v2 by (simp add: rs3_def split_beta)
  have "fill_bin st gd iGas van withIon np0 k lin (cf, cuts, par)
        = snd (fold (inelastic_term st gd iGas van k) [0..<g_nIn gd] (fst p2 + 1, rs3))"
    unfolding fill_bin_def Let_def rs1_def[symmetric] p2_def[symmetric] rs3_def
    by (simp add: split_beta)
  then show ?thesis
    using inelastic_terms_keep[of np0 "(fst p2 + 1, rs3)" st gd iGas van k "[0..<g_nIn gd]"] v2 v3
    by simp
qed

lemma gas_linear_bin:
  assumes "length (m_cf st) = nEnergySteps" and "length (m_scatCut st) = nEnergySteps"
    and "length (m_scatPar st) = nEnergySteps" and "iE < nEnergySteps"
  shows "m_cf (gas_linear st gd iGas van withIon np0) ! iE
         = fst (fill_bin st gd iGas van withIon np0 iE True
                  (m_cf st ! iE, m_scatCut st ! iE, m_scatPar st ! iE))"
proof -
  have d: "distinct [0..<nEnergySteps]" by simp
  have l: "length (m_scatCut st) = length (m_cf st)" "length (m_scatPar st) = length (m_cf st)"
    using assms by simp_all
  have j: "iE < length (m_cf st)" using assms by simp
  have m: "iE \<in> set [0..<nEnergySteps]" using assms(4) by simp
  have eq: "m_cf (gas_linear st gd iGas van withIon np0)
        = fst (fold (\<lambda>iE (cf, cuts, par).
                    let (r1, r2, r3) = fill_bin st gd iGas van withIon np0 iE True
                                         (cf ! iE, cuts ! iE, par ! iE)
                    in (cf[iE := r1], cuts[iE := r2], par[iE := r3]))
              [0..<nEnergySteps] (m_cf st, m_scatCut st, m_scatPar st))"
    by (simp add: gas_linear_def split_beta Let_def)
  from fold_bins3[OF d l, of "\<lambda>iE. fill_bin st gd iGas van withIon np0 iE True"] j m
  show ?thesis unfolding eq by simp
qed

subsection \<open>The capacity test\<close>

lemma Mixer_gas_None:
  "Mixer_gas env p nums iGas st = None
   \<longleftrightarrow> nMaxLevels \<le> m_nTerms st
        + g_nIn (gasmix env (m_useAnisotropic st) (nums ! iGas) (m_eStep st) (min (m_eFinal st) (m_eHigh st)))
        + g_nIon (gasmix env (m_useAnisotropic st) (nums ! iGas) (m_eStep st) (min (m_eFinal st) (m_eHigh st)))
        + 1"
  by (simp add: Mixer_gas_def Let_def split_beta)

lemma mixture_numbers:
  "map GetGasNumberMagboltz (take 3 [''Ar'', ''CO2'', ''CH4'', '''', '''', '''']) = [Some 2, Some 12, Some 8]"
  by (simp add: GetGasNumberMagboltz_def gas_numbers_def)

lemma mixture_gases:
  assumes "grid_of st = grid_of session_mixture" and "m_nTerms st = 0"
  shows "\<exists>s2. Mixer_gases (env_mixture nLast) p [2, 12, 8] [0..<3] st
              = (if nMaxLevels \<le> 506 + nLast + 1 then (False, s2)
                 else case Mixer_gas (env_mixture nLast) p [2, 12, 8] 2 s2 of
                        Some s3 \<Rightarrow> (True, s3) | None \<Rightarrow> (False, s2))
             \<and> m_nTerms s2 = 506 \<and> grid_of s2 = grid_of st
             \<and> (nMaxLevels > 506 + nLast + 1 \<longrightarrow>
                  (\<exists>s3. Mixer_gas (env_mixture nLast) p [2, 12, 8] 2 s2 = Some s3
                        \<and> m_nTerms s3 = 509 + nLast))"
proof -
  have g: "m_eFinal st = 40" "m_useAnisotropic st"
    using assms(1) by (simp_all add: grid_of_def session_mixture_def session0_def)
  have n0: "Mixer_gas (env_mixture nLast) p [2, 12, 8] 0 st \<noteq> None"
    unfolding Mixer_gas_None using assms(2)
    by (simp add: env_mixture_def argon_like_def nMaxLevels_def)
  then obtain s1 where s1: "Mixer_gas (env_mixture nLast) p [2, 12, 8] 0 st = Some s1" by blast
  note r1 = Mixer_gas_result[OF s1]
  have g1: "grid_of s1 = grid_of st" using r1 by simp
  have e1: "m_eFinal s1 = 40" using g1 g by (simp add: grid_of_def)
  have t1: "m_nTerms s1 = 253"
    using r1 g assms(2) by (simp add: env_mixture_def argon_like_def)
  have n1: "Mixer_gas (env_mixture nLast) p [2, 12, 8] 1 s1 \<noteq> None"
    unfolding Mixer_gas_None using t1
    by (simp add: env_mixture_def argon_like_def nMaxLevels_def)
  then obtain s2 where s2: "Mixer_gas (env_mixture nLast) p [2, 12, 8] 1 s1 = Some s2" by blast
  note r2 = Mixer_gas_result[OF s2]
  have g2: "grid_of s2 = grid_of st" using r2 g1 by simp
  have e2: "m_eFinal s2 = 40" using g2 g by (simp add: grid_of_def)
  have t2: "m_nTerms s2 = 506"
    using r2 e1 t1 by (simp add: env_mixture_def argon_like_def)
  have c3: "Mixer_gas (env_mixture nLast) p [2, 12, 8] 2 s2 = None \<longleftrightarrow> nMaxLevels \<le> 506 + nLast + 1"
    unfolding Mixer_gas_None using t2 by (simp add: env_mixture_def argon_like_def)
  have u: "[0..<3] = [0, 1, 2]" by (simp add: upt_rec)
  have run: "Mixer_gases (env_mixture nLast) p [2, 12, 8] [0..<3] st
              = (if nMaxLevels \<le> 506 + nLast + 1 then (False, s2)
                 else case Mixer_gas (env_mixture nLast) p [2, 12, 8] 2 s2 of
                        Some s3 \<Rightarrow> (True, s3) | None \<Rightarrow> (False, s2))"
    unfolding u using s1 s2 c3 by (auto split: option.splits)
  have last: "\<exists>s3. Mixer_gas (env_mixture nLast) p [2, 12, 8] 2 s2 = Some s3 \<and> m_nTerms s3 = 509 + nLast"
    if "nMaxLevels > 506 + nLast + 1"
  proof -
    have "Mixer_gas (env_mixture nLast) p [2, 12, 8] 2 s2 \<noteq> None" using c3 that by simp
    then obtain s3 where s3: "Mixer_gas (env_mixture nLast) p [2, 12, 8] 2 s2 = Some s3" by blast
    have "m_nTerms s3 = 509 + nLast"
      using Mixer_gas_result[OF s3] e2 t2 by (simp add: env_mixture_def argon_like_def)
    then show ?thesis using s3 by simp
  qed
  show ?thesis using run t2 g2 last by blast
qed

subsection \<open>Rebuilding before a collision\<close>

lemma prepare_steady:
  assumes "prepare_tables env c st e = (True, st1)" and "\<not> m_isChanged st"
    and "\<not> (e > m_eFinal st \<and> m_useAutoAdjust st \<and> Small c < 1.05 * e)"
  shows "st1 = st"
  using assms
  by (auto simp add: prepare_tables_def SetMaxElectronEnergy_def Let_def split: if_splits)

lemma prepare_rebuild:
  assumes "prepare_tables env c st e = (True, st1)"
    and "m_isChanged st \<or> (e > m_eFinal st \<and> m_useAutoAdjust st \<and> Small c < 1.05 * e)"
  shows "\<exists>sa s. Mixer env c sa = (True, s) \<and> st1 = s\<lparr>m_isChanged := False\<rparr>
              \<and> m_nComponents sa = m_nComponents st \<and> m_nCollisions sa = m_nCollisions st
              \<and> m_useDeexcitation sa = m_useDeexcitation st"
proof (cases "e > m_eFinal st \<and> m_useAutoAdjust st")
  case True
  define sa where "sa = snd (SetMaxElectronEnergy c (1.05 * e) st)"
  have ch: "m_isChanged sa" using assms(2) by (auto simp add: sa_def SetMaxElectronEnergy_def)
  have k: "m_nComponents sa = m_nComponents st" "m_nCollisions sa = m_nCollisions st"
    "m_useDeexcitation sa = m_useDeexcitation st"
    by (simp_all add: sa_def SetMaxElectronEnergy_def)
  have "prepare_tables env c st e
        = (case Mixer env c sa of (False, s) \<Rightarrow> (False, s)
                                | (True, s) \<Rightarrow> (True, s\<lparr>m_isChanged := False\<rparr>))"
    using True ch by (simp add: prepare_tables_def Let_def sa_def)
  then obtain s where "Mixer env c sa = (True, s)" "st1 = s\<lparr>m_isChanged := False\<rparr>"
    using assms(1) by (cases "Mixer env c sa") (auto split: bool.splits)
  then show ?thesis using k by blast
next
  case False
  then have ch: "m_isChanged st" using assms(2) by auto
  have "prepare_tables env c st e
        = (if e \<le> 0 then (False, st)
           else case Mixer env c st of (False, s) \<Rightarrow> (False, s)
                                     | (True, s) \<Rightarrow> (True, s\<lparr>m_isChanged := False\<rparr>))"
    using False ch by (auto simp add: prepare_tables_def)
  then obtain s where "Mixer env c st = (True, s)" "st1 = s\<lparr>m_isChanged := False\<rparr>"
    using assms(1) by (cases "Mixer env c st") (auto split: bool.splits if_splits)
  then show ?thesis by blast
qed

lemma collision_products_defined:
  assumes "\<not> m_useDeexcitation st"
  shows "collision_products fuel vf c rnd e type level igas secs (st, k) \<noteq> None"
  using assms
  by (cases "penning_transfer c rnd level igas (st, k)")
     (simp add: collision_products_def Let_def split_beta)

lemma collide_without_deexcitation:
  assumes "\<not> m_useDeexcitation st"
  shows "\<exists>col st' k'. collide fuel vf c rnd e d secs (st, k) = Some (col, st', k')"
proof (rule collide_defined)
  have "\<not> m_useDeexcitation (count_collision t l st)" for t l
    using assms by (simp add: count_collision_def)
  then show "collision_products fuel vf c rnd e
             (m_csType st ! fst (choose_level st e (rnd k)) mod nCsTypes)
             (fst (choose_level st e (rnd k)))
             (m_csType st ! fst (choose_level st e (rnd k)) div nCsTypes) secs
             (count_collision (m_csType st ! fst (choose_level st e (rnd k)) mod nCsTypes)
                (fst (choose_level st e (rnd k))) st, k + 1) \<noteq> None"
    by (rule collision_products_defined)
qed

lemma one_counter:
  assumes "i < n"
  shows "sum_list ((replicate n (0 :: 32 word))[i := replicate n 0 ! i + 1]) = 1"
  using sum_list_increment[of i "replicate n (0 :: 32 word)"] assms by (simp add: sum_list_zeros)

lemma collision_after_rebuild:
  assumes m: "Mixer env c sa = (True, s)"
    and col: "collide fuel vfuel c rnd e d secs (s\<lparr>m_isChanged := False\<rparr>, k) = Some (col, st', k')"
    and six: "length (m_nCollisions sa) = nCsTypes" and gas: "0 < m_nComponents sa"
  shows "m_nCollisions st' = (replicate nCsTypes 0)[col_type col := 1]
          \<and> m_nCollisionsDetailed st' = (replicate (m_nTerms st') 0)[col_level col := 1]
          \<and> GetNumberOfElectronCollisions st' = 1
          \<and> sum_list (m_nCollisionsDetailed st') = 1
          \<and> col_level col < m_nTerms st' \<and> length (m_nCollisions st') = nCsTypes"
proof -
  define st1 where "st1 = s\<lparr>m_isChanged := False\<rparr>"
  note r = collide_result[OF col, folded st1_def]
  note cnt = collide_counters[OF col, folded st1_def]
  have ty: "col_type col < nCsTypes" using r by (simp add: nCsTypes_def)
  from Mixer_built[OF m] have
    c1: "m_nCollisions s = replicate nCsTypes 0"
    and c2: "m_nCollisionsDetailed s = replicate (m_nTerms s) 0"
    and nt: "2 * m_nComponents sa \<le> m_nTerms s"
    using six by auto
  have z1: "m_nCollisions st1 = replicate nCsTypes 0"
    "m_nCollisionsDetailed st1 = replicate (m_nTerms st1) 0" "0 < m_nTerms st1"
    using c1 c2 nt gas by (simp_all add: st1_def)
  have lv: "col_level col < m_nTerms st1" using r z1(3) by (simp add: choose_level_bound)
  have t: "m_nTerms st' = m_nTerms st1" using cnt by simp
  have a: "m_nCollisions st' = (replicate nCsTypes 0)[col_type col := 1]"
    using cnt z1 ty by simp
  have b: "m_nCollisionsDetailed st' = (replicate (m_nTerms st') 0)[col_level col := 1]"
    using cnt z1 lv t by simp
  have a': "GetNumberOfElectronCollisions st' = 1"
    using cnt z1 ty one_counter[of "col_type col" nCsTypes]
    by (simp add: GetNumberOfElectronCollisions_def fold_add_sum_list)
  have b': "sum_list (m_nCollisionsDetailed st') = 1"
    using cnt z1 lv one_counter[of "col_level col" "m_nTerms st1"] by simp
  show ?thesis using a b a' b' lv t by simp
qed

lemma Mixer_run:
  assumes "\<not> list_ex (\<lambda>n. n = None) (map GetGasNumberMagboltz (take (m_nComponents st) (m_gas st)))"
  shows "Mixer env c st
         = (case Mixer_gases env (GetNumberDensity env * SpeedOfLight c * sqrt (2 / ElectronMass c))
                  (map the (map GetGasNumberMagboltz (take (m_nComponents st) (m_gas st))))
                  [0..<m_nComponents st] ((Mixer_reset st)\<lparr>m_nTerms := 0\<rparr>) of
              (False, s) \<Rightarrow> (False, s)
            | (True, s) \<Rightarrow> (True, Mixer_finish env c (Mixer_rates c s)))"
proof -
  have f: "m_nComponents (Mixer_reset st) = m_nComponents st" "m_gas (Mixer_reset st) = m_gas st"
    by (simp_all add: Mixer_reset_def)
  show ?thesis using assms unfolding Mixer_def Let_def f by (simp only: if_False)
qed

lemma argon_rebuild:
  assumes "m_nComponents st = 1" and "m_gas st ! 0 = ''Ar''" and "0 < length (m_gas st)"
  shows "\<exists>s. Mixer env_argon c st = (True, s)"
proof -
  have tk: "take (m_nComponents st) (m_gas st) = [''Ar'']"
    using assms by (cases "m_gas st") simp_all
  have nums: "map GetGasNumberMagboltz (take (m_nComponents st) (m_gas st)) = [Some 2]"
    unfolding tk by (simp add: GetGasNumberMagboltz_def gas_numbers_def)
  have known: "\<not> list_ex (\<lambda>n. n = None) (map GetGasNumberMagboltz (take (m_nComponents st) (m_gas st)))"
    unfolding nums by simp
  have n0: "Mixer_gas env_argon p [2] 0 ((Mixer_reset st)\<lparr>m_nTerms := 0\<rparr>) \<noteq> None" for p
    unfolding Mixer_gas_None by (simp add: env_argon_def argon_like_def nMaxLevels_def)
  then obtain s1 where s1: "Mixer_gas env_argon (GetNumberDensity env_argon * SpeedOfLight c * sqrt (2 / ElectronMass c))
                              [2] 0 ((Mixer_reset st)\<lparr>m_nTerms := 0\<rparr>) = Some s1" by blast
  have u: "[0..<m_nComponents st] = [0]" using assms(1) by simp
  show ?thesis unfolding Mixer_run[OF known] nums u using s1 by simp
qed

subsection \<open>A bin with an open elastic channel\<close>

lemma sum_list_member_le:
  assumes "\<And>y. y \<in> set xs \<Longrightarrow> 0 \<le> f y" and "x \<in> set xs"
  shows "f x \<le> sum_list (map f xs :: real list)"
  using assms
proof (induction xs)
  case Nil
  then show ?case by simp
next
  case (Cons a xs)
  have nn: "0 \<le> sum_list (map f xs)" using Cons.prems(1) by (intro sum_list_nonneg) auto
  show ?case
  proof (cases "x = a")
    case True
    then show ?thesis using nn by simp
  next
    case False
    then have "f x \<le> sum_list (map f xs)" using Cons by auto
    moreover have "0 \<le> f a" using Cons.prems(1) by simp
    ultimately show ?thesis by simp
  qed
qed

lemma bin_frequency_sum_pos:
  assumes "n \<le> length row" and "k < n" and "0 < row ! k"
  shows "0 < bin_frequency_sum n row 0"
proof -
  have s: "bin_frequency_sum n row 0 = (\<Sum>k\<leftarrow>[0..<n]. max 0 (row ! k))"
    unfolding bin_frequency_sum_def using assms(1) by (subst clamp_fold_snd) auto
  have "max 0 (row ! k) \<le> (\<Sum>k\<leftarrow>[0..<n]. max 0 (row ! k))"
    using assms(2) by (intro sum_list_member_le) auto
  then show ?thesis unfolding s using assms(3) by simp
qed

lemma Mixer_gas_elastic:
  assumes g: "Mixer_gas env p nums iGas st = Some st'"
    and l: "length (m_cf st) = nEnergySteps" "length (m_scatCut st) = nEnergySteps"
      "length (m_scatPar st) = nEnergySteps"
    and i: "iE < nEnergySteps" and n: "m_nTerms st < length (m_cf st ! iE)"
  shows "m_cf st' ! iE ! m_nTerms st
         = g_q (gasmix env (m_useAnisotropic st) (nums ! iGas) (m_eStep st)
                  (min (m_eFinal st) (m_eHigh st))) ! iE ! 1 * (m_fraction st ! iGas * p)"
proof -
  define gd where "gd = gasmix env (m_useAnisotropic st) (nums ! iGas) (m_eStep st)
                                (min (m_eFinal st) (m_eHigh st))"
  define L where "L = gas_levels gd iGas (m_nTerms st) st"
  define van where "van = m_fraction st ! iGas * p"
  define s2 where "s2 = gas_linear (snd L) gd iGas van (fst L) (m_nTerms st)"
  have st': "st' = gas_log env s2 (nums ! iGas) iGas van (fst L) (m_nTerms st)"
    using g unfolding Mixer_gas_def Let_def gd_def[symmetric]
    by (simp add: split_beta L_def s2_def van_def split: if_splits)
  note gl = gas_levels_levels[of gd iGas "m_nTerms st" st, folded L_def]
  have k: "m_cf (snd L) = m_cf st" "m_scatCut (snd L) = m_scatCut st" "m_scatPar (snd L) = m_scatPar st"
    using gl by (simp_all add: kept_by_levels_def)
  have "m_cf st' = m_cf s2" unfolding st' using gas_log_levels by simp
  also have "m_cf s2 ! iE = fst (fill_bin (snd L) gd iGas van (fst L) (m_nTerms st) iE True
                  (m_cf (snd L) ! iE, m_scatCut (snd L) ! iE, m_scatPar (snd L) ! iE))"
    unfolding s2_def using l i k by (intro gas_linear_bin) simp_all
  finally have "m_cf st' ! iE = fst (fill_bin (snd L) gd iGas van (fst L) (m_nTerms st) iE True
                  (m_cf st ! iE, m_scatCut st ! iE, m_scatPar st ! iE))"
    using k by simp
  then show ?thesis unfolding gd_def[symmetric] van_def[symmetric]
    using fill_bin_elastic[OF n] by simp
qed

lemma Mixer_reset_lengths:
  "length (m_cf ((Mixer_reset st)\<lparr>m_nTerms := 0\<rparr>)) = nEnergySteps
   \<and> length (m_scatCut ((Mixer_reset st)\<lparr>m_nTerms := 0\<rparr>)) = nEnergySteps
   \<and> length (m_scatPar ((Mixer_reset st)\<lparr>m_nTerms := 0\<rparr>)) = nEnergySteps
   \<and> (\<forall>iE<nEnergySteps. length (m_cf ((Mixer_reset st)\<lparr>m_nTerms := 0\<rparr>) ! iE) = nMaxLevels)"
  by (simp add: Mixer_reset_def)

lemma argon_bins:
  assumes one: "m_nComponents st = 1" and ar: "m_gas st ! 0 = ''Ar''" and gl: "0 < length (m_gas st)"
    and ef: "157 / 10 \<le> m_eFinal st" and fr: "0 < m_fraction st ! 0"
    and es: "0 < m_eStep st"
    and cs: "0 < ElectronMass c" "0 < SpeedOfLight c"
  shows "\<exists>S. Mixer env_argon c st = (True, S) \<and> m_nTerms S = 5
             \<and> (\<forall>iE<nEnergySteps. 0 < m_cfTot S ! iE)"
proof -
  from argon_rebuild[OF one ar gl] obtain S where M: "Mixer env_argon c st = (True, S)" by blast
  define p where "p = GetNumberDensity env_argon * SpeedOfLight c * sqrt (2 / ElectronMass c)"
  define S0 where "S0 = (Mixer_reset st)\<lparr>m_nTerms := 0\<rparr>"
  have tk: "take (m_nComponents st) (m_gas st) = [''Ar'']"
    using one ar gl by (cases "m_gas st") simp_all
  have nums: "map the (map GetGasNumberMagboltz (take (m_nComponents st) (m_gas st))) = [2]"
    unfolding tk by (simp add: GetGasNumberMagboltz_def gas_numbers_def)
  from Mixer_success[OF M] obtain st2 where
    g: "Mixer_gases env_argon p [2] [0..<m_nComponents st] S0 = (True, st2)"
    and S: "S = Mixer_finish env_argon c (Mixer_rates c st2)"
    unfolding nums p_def S0_def by blast
  have u: "[0..<m_nComponents st] = [0]" using one by simp
  have g1: "Mixer_gas env_argon p [2] 0 S0 = Some st2"
    using g unfolding u by (auto split: option.splits)
  note rs = Mixer_reset_shape[of st, folded S0_def]
  have e0: "m_eFinal S0 = m_eFinal st" "m_fraction S0 = m_fraction st" "m_eStep S0 = m_eStep st"
    using rs by (simp_all add: grid_of_def)
  note r = Mixer_gas_result[OF g1]
  have n2: "m_nTerms st2 = 5"
    using r rs ef e0 by (simp add: env_argon_def argon_like_def)
  have sh: "table_shape st2" using r rs by simp
  have gd: "grid_of st2 = grid_of st" using r rs by simp
  note fk = Mixer_finish_kept[of env_argon c "Mixer_rates c st2", folded S]
  note rk = Mixer_rates_kept[of c st2]
  have nS: "m_nTerms S = 5" using fk rk n2 by (simp add: kept_by_Mixer_finish_def)
  have tS: "m_cfTot S = m_cfTot (Mixer_rates c st2)" using fk by (simp add: kept_by_Mixer_finish_def)
  have l1: "length (m_cf st2) = nEnergySteps" "length (m_cfTot st2) = nEnergySteps"
    using sh by (simp_all add: table_shape_def rows_shape_def)
  have es2: "m_eStep st2 = m_eStep st" using gd by (simp add: grid_of_def)
  have pp: "0 < p" unfolding p_def using cs by (simp add: env_argon_def)
  have "0 < m_cfTot S ! iE" if i: "iE < nEnergySteps" for iE
  proof -
    have z: "m_cfTot st2 ! iE = 0"
    proof -
      have "kept_by_gas_loop st2 = kept_by_gas_loop S0"
        using Mixer_gas_kept[OF g1] .
      then have "m_cfTot st2 = replicate nEnergySteps 0"
        using Mixer_reset_totals[of st] by (simp add: kept_by_gas_loop_def S0_def)
      then show ?thesis using i by simp
    qed
    define row where "row = m_cf st2 ! iE"
    have lr: "length row = nMaxLevels"
      using sh i by (simp add: table_shape_def rows_shape_def list_all_length row_def)
    have tot: "m_cfTot S ! iE = snd (Mixer_linear_bin c (m_eStep st2) 5 iE (row, 0))"
      using Mixer_rates_linear_bin[OF l1 i, of c] z n2 unfolding tS row_def by simp
    note ml = Mixer_reset_lengths[of st, folded S0_def]
    have el: "row ! 0 = g_q (gasmix env_argon (m_useAnisotropic S0) ([2] ! 0) (m_eStep S0)
                    (min (m_eFinal S0) (m_eHigh S0))) ! iE ! 1 * (m_fraction S0 ! 0 * p)"
      unfolding row_def
      using Mixer_gas_elastic[OF g1, of iE] ml i rs by (simp add: nMaxLevels_def)
    have r0: "0 < row ! 0"
      unfolding el using i fr pp e0 by (simp add: env_argon_def argon_like_def)
    have fs: "0 < bin_frequency_sum 5 row 0"
      using lr r0 by (intro bin_frequency_sum_pos[of 5 row 0]) (simp_all add: nMaxLevels_def)
    have ek: "0 < m_eStep st * (real iE + 0.5)" using es by simp
    have f: "0 < sqrt (1 + 0.5 * (m_eStep st * (real iE + 0.5) / ElectronMass c))
                 / (1 + m_eStep st * (real iE + 0.5) / ElectronMass c)"
    proof -
      define x where "x = m_eStep st * (real iE + 0.5) / ElectronMass c"
      have x: "0 < x" unfolding x_def using ek cs by simp
      have a: "0 < 1 + 0.5 * x" using x by (intro add_pos_pos) simp_all
      have b: "0 < 1 + x" using x by (intro add_pos_pos) simp_all
      have "0 < sqrt (1 + 0.5 * x) / (1 + x)" using a b by (intro divide_pos_pos) simp_all
      then show ?thesis unfolding x_def .
    qed
    show ?thesis
      unfolding tot Mixer_linear_bin_total es2 using fs ek f
      by (auto intro!: mult_pos_pos)
  qed
  then show ?thesis using M nS by blast
qed

subsection \<open>A rebuild that fails\<close>

lemma Mixer_gases_grid:
  "grid_of (snd (Mixer_gases env p nums is st)) = grid_of st"
proof (induction "is" arbitrary: st)
  case Nil
  show ?case by simp
next
  case (Cons i "is")
  show ?case
  proof (cases "Mixer_gas env p nums i st")
    case None
    then show ?thesis by simp
  next
    case (Some s)
    then show ?thesis using Cons.IH[of s] Mixer_gas_result[OF Some] by simp
  qed
qed

lemma Mixer_failure_grid:
  assumes "Mixer env c st = (False, st')"
  shows "m_eFinal st' = m_eFinal st"
proof -
  have "grid_of st' = grid_of st"
  proof (cases "list_ex (\<lambda>n. n = None)
                  (map GetGasNumberMagboltz (take (m_nComponents (Mixer_reset st)) (m_gas (Mixer_reset st))))")
    case True
    then have "st' = Mixer_reset st" using assms by (simp add: Mixer_def Let_def)
    then show ?thesis using Mixer_reset_shape[of st] by (simp add: grid_of_def)
  next
    case False
    define R where "R = Mixer_gases env (GetNumberDensity env * SpeedOfLight c * sqrt (2 / ElectronMass c))
           (map the (map GetGasNumberMagboltz (take (m_nComponents (Mixer_reset st)) (m_gas (Mixer_reset st)))))
           [0..<m_nComponents (Mixer_reset st)] ((Mixer_reset st)\<lparr>m_nTerms := 0\<rparr>)"
    have "st' = snd R" using assms False
      unfolding Mixer_def Let_def R_def[symmetric]
      by (cases R) (auto split: bool.splits)
    then show ?thesis unfolding R_def using Mixer_gases_grid Mixer_reset_shape[of st] by simp
  qed
  then show ?thesis by (simp add: grid_of_def)
qed

lemma failed_rebuild:
  assumes "m_isChanged st" and "0 < e" and "e \<le> m_eFinal st" and "Mixer env c st = (False, st')"
  shows "GetElectronCollision fuel vfuel env c rnd e d secs (st, k) = Some (None, st', k)
       \<and> GetElectronCollisionRate env c st e = (0, st')
       \<and> m_isChanged st'
       \<and> prepare_tables env c st' e
         = (case Mixer env c st' of (False, s) \<Rightarrow> (False, s)
                                  | (True, s) \<Rightarrow> (True, s\<lparr>m_isChanged := False\<rparr>))"
proof -
  note f = Mixer_failure[OF assms(4)]
  have ch: "m_isChanged st'" using f assms(1) by simp
  have ef: "m_eFinal st' = m_eFinal st" using assms(4) by (rule Mixer_failure_grid)
  have p: "prepare_tables env c st e = (False, st')"
    using assms by (simp add: prepare_tables_def)
  have g: "GetElectronCollision fuel vfuel env c rnd e d secs (st, k) = Some (None, st', k)"
    using p by (simp add: GetElectronCollision_def)
  have r: "GetElectronCollisionRate env c st e = (0, st')"
    using assms by (simp add: GetElectronCollisionRate_def Let_def)
  have n: "prepare_tables env c st' e
         = (case Mixer env c st' of (False, s) \<Rightarrow> (False, s)
                                  | (True, s) \<Rightarrow> (True, s\<lparr>m_isChanged := False\<rparr>))"
    using ch ef assms(2,3) by (simp add: prepare_tables_def)
  show ?thesis using g r ch n by simp
qed

lemma mixture_abort:
  assumes "grid_of st = grid_of session_mixture"
  shows "\<exists>s2. Mixer (env_mixture 10) c st = (False, s2) \<and> m_nTerms s2 = 506"
proof -
  define p where "p = GetNumberDensity (env_mixture 10) * SpeedOfLight c * sqrt (2 / ElectronMass c)"
  define S0 where "S0 = (Mixer_reset st)\<lparr>m_nTerms := 0\<rparr>"
  have f: "m_nComponents st = 3"
    "take 3 (m_gas st) = take 3 [''Ar'', ''CO2'', ''CH4'', '''', '''', '''']"
    using assms by (simp_all add: session_mixture_def grid_of_def)
  have nums: "map GetGasNumberMagboltz (take (m_nComponents st) (m_gas st))
              = [Some 2, Some 12, Some 8]"
    unfolding f mixture_numbers by simp
  have known: "\<not> list_ex (\<lambda>n. n = None)
       (map GetGasNumberMagboltz (take (m_nComponents st) (m_gas st)))"
    unfolding nums by simp
  have nl: "map the (map GetGasNumberMagboltz (take (m_nComponents st) (m_gas st))) = [2, 12, 8]"
    unfolding nums by simp
  note rs = Mixer_reset_shape[of st, folded S0_def]
  have g0: "grid_of S0 = grid_of session_mixture" "m_nTerms S0 = 0" using rs assms by simp_all
  from mixture_gases[OF g0, of 10 p] obtain s2 where
    run: "Mixer_gases (env_mixture 10) p [2, 12, 8] [0..<3] S0 = (False, s2)"
    and n2: "m_nTerms s2 = 506"
    by (auto simp add: nMaxLevels_def)
  have "Mixer (env_mixture 10) c st = (False, s2)"
    using run[unfolded p_def S0_def]
    by (simp only: Mixer_run[OF known] nl) (simp add: f(1))
  then show ?thesis using n2 by blast
qed

lemma session_rebuilt_grid: "grid_of session_rebuilt = grid_of session_mixture"
  by (simp add: grid_of_def session_rebuilt_def session_mixture_def session_built_def session0_def)

subsection \<open>The level and the energy of a collision\<close>

lemma sample_level_sorted:
  assumes n: "0 < n" and srt: "sorted (take n cf)" and len: "n \<le> length cf"
  shows "(r \<le> cf ! 0 \<longrightarrow> sample_level cf n r = 0)
       \<and> (cf ! 0 < r \<and> cf ! (n - 1) \<le> r \<longrightarrow> sample_level cf n r = n - 1)
       \<and> (r \<le> cf ! 0 \<or> r < cf ! (n - 1) \<longrightarrow>
            sample_level cf n r < n \<and> r \<le> cf ! sample_level cf n r
            \<and> (\<forall>j. j < sample_level cf n r \<longrightarrow> cf ! j < r))"
proof -
  have A: "r \<le> cf ! 0 \<longrightarrow> sample_level cf n r = 0" by (simp add: sample_level_def)
  have B: "cf ! 0 < r \<and> cf ! (n - 1) \<le> r \<longrightarrow> sample_level cf n r = n - 1"
    by (simp add: sample_level_def)
  have C: "sample_level cf n r < n \<and> r \<le> cf ! sample_level cf n r
            \<and> (\<forall>j. j < sample_level cf n r \<longrightarrow> cf ! j < r)" if h: "r \<le> cf ! 0 \<or> r < cf ! (n - 1)"
  proof (cases "r \<le> cf ! 0")
    case True
    then show ?thesis using n by (simp add: sample_level_def)
  next
    case False
    then have lt: "r < cf ! (n - 1)" using h by simp
    have ex: "\<exists>k<n. r \<le> cf ! k" using lt n by (intro exI[of _ "n - 1"]) simp
    have "r < cf ! (n - 1) \<or> (\<forall>k<n. cf ! k = cf ! 0)" using lt by simp
    from sample_level_cumulative[OF n srt len this] ex show ?thesis by blast
  qed
  show ?thesis using A B C by blast
qed

lemma collide_level:
  assumes "collide fuel vf c rnd e d secs (st1, k) = Some (col, st', k')"
  shows "col_level col =
     sample_level
       (if e \<le> m_eHigh st1
        then m_cf st1 ! min (nat \<lfloor>e / m_eStep st1\<rfloor>) (nEnergySteps - 1)
        else m_cfLog st1 ! min (nat \<lfloor>ln (e / m_eHigh st1) / m_lnStep st1\<rfloor>) (nEnergyStepsLog - 1))
       (m_nTerms st1) (rnd k)"
  using collide_result[OF assms]
  by (simp add: choose_level_def Let_def bin_index_def)

lemma products_loss:
  assumes "collision_products fuel vf c rnd e type level igas secs (st, k)
           = Some (loss0, secs', ndxc, st', k')"
    and "0 < Small c"
  shows "m_energyLoss st ! level \<le> loss0"
proof (cases "type = ElectronCollisionTypeIonisation")
  case True
  obtain esec q where es: "ionisation_esec c rnd st e level igas (m_energyLoss st ! level) k = (esec, q)"
    by (metis surj_pair)
  have "0 < esec" using es assms(2) by (auto simp add: ionisation_esec_def Let_def split: if_splits)
  moreover have "loss0 = m_energyLoss st ! level + esec"
    using assms(1) True es by (auto simp add: collision_products_def Let_def)
  ultimately show ?thesis by simp
next
  case False
  then show ?thesis using assms(1)
    by (auto simp add: collision_products_def Let_def split: if_splits option.splits prod.splits)
qed

lemma tables_without_products:
  "m_energyLoss st = m_energyLoss (without_products st)
   \<and> m_rgas st = m_rgas (without_products st)
   \<and> m_csType st = m_csType (without_products st)
   \<and> m_useAnisotropic st = m_useAnisotropic (without_products st)
   \<and> m_scatModel st = m_scatModel (without_products st)"
  by (simp add: without_products_def)

lemma collide_energy:
  assumes "collide fuel vf c rnd e d secs (st1, k) = Some (col, st', k')"
  shows "\<exists>loss0 angCut angPar k2.
           col_e1 col = post_collision_energy c e (clamp_loss e loss0)
                          (m_rgas st' ! (m_csType st' ! col_level col div nCsTypes))
                          (fst (scattering_angle rnd st' (col_level col) angCut angPar k2))
         \<and> (0 < Small c \<longrightarrow> m_energyLoss st' ! col_level col \<le> loss0)"
proof -
  obtain level angCut angPar where ch: "choose_level st1 e (rnd k) = (level, angCut, angPar)"
    by (metis prod_cases3)
  define type where "type = m_csType st1 ! level mod nCsTypes"
  define igas where "igas = m_csType st1 ! level div nCsTypes"
  from assms obtain loss0 secs' ndxc k2 where
    cp: "collision_products fuel vf c rnd e type level igas secs
           (count_collision type level st1, k + 1) = Some (loss0, secs', ndxc, st', k2)"
    and e1: "col_e1 col = post_collision_energy c e (clamp_loss e loss0) (m_rgas st' ! igas)
                (fst (scattering_angle rnd st' level angCut angPar k2))"
    and lv: "col_level col = level"
    unfolding collide_def type_def igas_def
    by (auto simp add: ch Let_def split: option.splits prod.splits)
  have fr: "without_products st' = without_products (count_collision type level st1)"
    using cp by (rule collision_products_frame)
  have same: "m_energyLoss st' = m_energyLoss st1" "m_csType st' = m_csType st1"
    using tables_without_products[of st'] tables_without_products[of "count_collision type level st1"] fr
    by (simp_all add: count_collision_def)
  have "0 < Small c \<longrightarrow> m_energyLoss st' ! level \<le> loss0"
    using products_loss[OF cp] same by (simp add: count_collision_def)
  then show ?thesis using e1 lv same by (auto simp add: igas_def)
qed

lemma isotropic_cosine:
  assumes "m_useAnisotropic st \<longrightarrow> m_scatModel st ! level \<noteq> 1 \<and> m_scatModel st ! level \<noteq> 2"
    and "\<forall>i. 0 \<le> rnd i \<and> rnd i \<le> 1"
  shows "- 1 \<le> fst (scattering_angle rnd st level angCut angPar k)
       \<and> fst (scattering_angle rnd st level angCut angPar k) \<le> 1"
proof -
  have "fst (scattering_angle rnd st level angCut angPar k) = 1 - 2 * rnd k"
    using assms(1) by (auto simp add: scattering_angle_def Let_def)
  moreover have "0 \<le> rnd k \<and> rnd k \<le> 1" using assms(2) by simp
  ultimately show ?thesis by simp
qed

lemma counted_collision:
  "\<exists>s col st' k'.
     Mixer env_argon c0 session_counted = (True, s)
     \<and> collide 0 0 c0 rnd_half 10 (0, 0, 1) [] (s\<lparr>m_isChanged := False\<rparr>, 0) = Some (col, st', k')
     \<and> GetElectronCollision 0 0 env_argon c0 rnd_half 10 (0, 0, 1) [] (session_counted, 0)
       = Some (Some col, st', k')"
proof -
  have f: "m_nComponents session_counted = 1" "m_gas session_counted ! 0 = ''Ar''"
    "0 < length (m_gas session_counted)" "m_isChanged session_counted"
    "m_eFinal session_counted = 40" "\<not> m_useDeexcitation session_counted"
    by (simp_all add: session_counted_def session_built_def session0_def)
  from argon_rebuild[OF f(1,2,3)] obtain s where m: "Mixer env_argon c0 session_counted = (True, s)"
    by blast
  have p: "prepare_tables env_argon c0 session_counted 10 = (True, s\<lparr>m_isChanged := False\<rparr>)"
    using f m by (simp add: prepare_tables_def)
  have "\<not> m_useDeexcitation s" using Mixer_built[OF m] f(6) by blast
  then have "\<not> m_useDeexcitation (s\<lparr>m_isChanged := False\<rparr>)" by simp
  from collide_without_deexcitation[OF this] obtain col st' k' where
    col: "collide 0 0 c0 rnd_half 10 (0, 0, 1) [] (s\<lparr>m_isChanged := False\<rparr>, 0) = Some (col, st', k')"
    by blast
  have g: "GetElectronCollision 0 0 env_argon c0 rnd_half 10 (0, 0, 1) [] (session_counted, 0)
           = Some (Some col, st', k')"
    using p col by (simp add: GetElectronCollision_def)
  show ?thesis using m col g by blast
qed

subsection \<open>A table without collisions\<close>

lemma zeros_update [simp]: "(replicate n (0 :: real))[i := 0] = replicate n 0"
proof (cases "i < n")
  case True
  then show ?thesis by (auto simp add: list_eq_iff_nth_eq nth_list_update)
next
  case False
  then show ?thesis by (simp add: list_update_beyond)
qed

lemma dark_fill_bin:
  "fst (fill_bin st dark_gas iGas van withIon np0 k lin (replicate n 0, cuts, par)) = replicate n 0"
  if "k < nEnergySteps"
  using that
  by (simp add: fill_bin_def put_term_def dark_gas_def argon_like_def split_beta Let_def)

lemma Mixer_gas_bin:
  assumes g: "Mixer_gas env p nums iGas st = Some st'"
    and l: "length (m_cf st) = nEnergySteps" "length (m_scatCut st) = nEnergySteps"
      "length (m_scatPar st) = nEnergySteps"
    and i: "iE < nEnergySteps"
  shows "\<exists>stL withIon.
           m_cf st' ! iE
           = fst (fill_bin stL (gasmix env (m_useAnisotropic st) (nums ! iGas) (m_eStep st)
                                  (min (m_eFinal st) (m_eHigh st)))
                    iGas (m_fraction st ! iGas * p) withIon (m_nTerms st) iE True
                    (m_cf st ! iE, m_scatCut st ! iE, m_scatPar st ! iE))"
proof -
  define gd where "gd = gasmix env (m_useAnisotropic st) (nums ! iGas) (m_eStep st)
                                (min (m_eFinal st) (m_eHigh st))"
  define L where "L = gas_levels gd iGas (m_nTerms st) st"
  define van where "van = m_fraction st ! iGas * p"
  define s2 where "s2 = gas_linear (snd L) gd iGas van (fst L) (m_nTerms st)"
  have st': "st' = gas_log env s2 (nums ! iGas) iGas van (fst L) (m_nTerms st)"
    using g unfolding Mixer_gas_def Let_def gd_def[symmetric]
    by (simp add: split_beta L_def s2_def van_def split: if_splits)
  note gl = gas_levels_levels[of gd iGas "m_nTerms st" st, folded L_def]
  have k: "m_cf (snd L) = m_cf st" "m_scatCut (snd L) = m_scatCut st" "m_scatPar (snd L) = m_scatPar st"
    using gl by (simp_all add: kept_by_levels_def)
  have "m_cf st' = m_cf s2" unfolding st' using gas_log_levels by simp
  also have "m_cf s2 ! iE = fst (fill_bin (snd L) gd iGas van (fst L) (m_nTerms st) iE True
                  (m_cf (snd L) ! iE, m_scatCut (snd L) ! iE, m_scatPar (snd L) ! iE))"
    unfolding s2_def using l i k by (intro gas_linear_bin) simp_all
  finally have "m_cf st' ! iE = fst (fill_bin (snd L) gd iGas van (fst L) (m_nTerms st) iE True
                  (m_cf st ! iE, m_scatCut st ! iE, m_scatPar st ! iE))"
    using k by simp
  then show ?thesis unfolding gd_def van_def by blast
qed

lemma zero_bin:
  "fst (Mixer_linear_bin c eStep 3 iE (replicate nMaxLevels 0, 0)) = replicate nMaxLevels 0"
proof -
  have u: "[0..<3] = [0, 1, 2]" "[Suc 0..<3] = [Suc 0, 2]" by (simp_all add: upt_rec)
  show ?thesis
    by (simp add: Mixer_linear_bin_def Let_def u clamp_and_sum_def accumulate_def nMaxLevels_def
        split_beta)
qed

lemma dark_rebuild:
  assumes "m_nComponents st = 1" and "m_gas st ! 0 = ''Ar''" and "0 < length (m_gas st)"
  shows "\<exists>s. Mixer env_dark c st = (True, s)"
proof -
  have tk: "take (m_nComponents st) (m_gas st) = [''Ar'']"
    using assms by (cases "m_gas st") simp_all
  have nums: "map GetGasNumberMagboltz (take (m_nComponents st) (m_gas st)) = [Some 2]"
    unfolding tk by (simp add: GetGasNumberMagboltz_def gas_numbers_def)
  have known: "\<not> list_ex (\<lambda>n. n = None) (map GetGasNumberMagboltz (take (m_nComponents st) (m_gas st)))"
    unfolding nums by simp
  have n0: "Mixer_gas env_dark p [2] 0 ((Mixer_reset st)\<lparr>m_nTerms := 0\<rparr>) \<noteq> None" for p
    unfolding Mixer_gas_None
    by (simp add: env_dark_def env_argon_def dark_gas_def argon_like_def nMaxLevels_def)
  then obtain s1 where s1: "Mixer_gas env_dark (GetNumberDensity env_dark * SpeedOfLight c * sqrt (2 / ElectronMass c))
                              [2] 0 ((Mixer_reset st)\<lparr>m_nTerms := 0\<rparr>) = Some s1" by blast
  have u: "[0..<m_nComponents st] = [0]" using assms(1) by simp
  show ?thesis unfolding Mixer_run[OF known] nums u using s1 by simp
qed

lemma dark_table:
  assumes one: "m_nComponents st = 1" and ar: "m_gas st ! 0 = ''Ar''" and gl: "0 < length (m_gas st)"
    and ef: "157 / 10 \<le> m_eFinal st" and i: "iE < nEnergySteps"
  shows "\<exists>S. Mixer env_dark c st = (True, S) \<and> m_nTerms S = 3
             \<and> m_cf S ! iE = replicate nMaxLevels 0"
proof -
  from dark_rebuild[OF one ar gl] obtain S where M: "Mixer env_dark c st = (True, S)" by blast
  define p where "p = GetNumberDensity env_dark * SpeedOfLight c * sqrt (2 / ElectronMass c)"
  define S0 where "S0 = (Mixer_reset st)\<lparr>m_nTerms := 0\<rparr>"
  have tk: "take (m_nComponents st) (m_gas st) = [''Ar'']"
    using one ar gl by (cases "m_gas st") simp_all
  have nums: "map the (map GetGasNumberMagboltz (take (m_nComponents st) (m_gas st))) = [2]"
    unfolding tk by (simp add: GetGasNumberMagboltz_def gas_numbers_def)
  from Mixer_success[OF M] obtain st2 where
    g: "Mixer_gases env_dark p [2] [0..<m_nComponents st] S0 = (True, st2)"
    and S: "S = Mixer_finish env_dark c (Mixer_rates c st2)"
    unfolding nums p_def S0_def by blast
  have u: "[0..<m_nComponents st] = [0]" using one by simp
  have g1: "Mixer_gas env_dark p [2] 0 S0 = Some st2"
    using g unfolding u by (auto split: option.splits)
  note rs = Mixer_reset_shape[of st, folded S0_def]
  have e0: "m_eFinal S0 = m_eFinal st" using rs by (simp_all add: grid_of_def)
  note r = Mixer_gas_result[OF g1]
  have n2: "m_nTerms st2 = 3"
    using r rs ef e0 by (simp add: env_dark_def env_argon_def dark_gas_def argon_like_def)
  have sh: "table_shape st2" using r rs by simp
  note fk = Mixer_finish_kept[of env_dark c "Mixer_rates c st2", folded S]
  note rk = Mixer_rates_kept[of c st2]
  have nS: "m_nTerms S = 3" using fk rk n2 by (simp add: kept_by_Mixer_finish_def)
  have cS: "m_cf S = m_cf (Mixer_rates c st2)" using fk by (simp add: kept_by_Mixer_finish_def)
  have l1: "length (m_cf st2) = nEnergySteps" "length (m_cfTot st2) = nEnergySteps"
    using sh by (simp_all add: table_shape_def rows_shape_def)
  have z: "m_cfTot st2 ! iE = 0"
  proof -
    have "kept_by_gas_loop st2 = kept_by_gas_loop S0"
      using Mixer_gas_kept[OF g1] .
    then have "m_cfTot st2 = replicate nEnergySteps 0"
      using Mixer_reset_totals[of st] by (simp add: kept_by_gas_loop_def S0_def)
    then show ?thesis using i by simp
  qed
  note ml = Mixer_reset_lengths[of st, folded S0_def]
  have r0: "m_cf S0 ! iE = replicate nMaxLevels 0"
    using i by (simp add: S0_def Mixer_reset_def)
  from Mixer_gas_bin[OF g1 _ _ _ i] ml obtain stL withIon where
    "m_cf st2 ! iE = fst (fill_bin stL (gasmix env_dark (m_useAnisotropic S0) ([2] ! 0) (m_eStep S0)
                                  (min (m_eFinal S0) (m_eHigh S0)))
                    0 (m_fraction S0 ! 0 * p) withIon (m_nTerms S0) iE True
                    (m_cf S0 ! iE, m_scatCut S0 ! iE, m_scatPar S0 ! iE))" by blast
  then have row: "m_cf st2 ! iE = replicate nMaxLevels 0"
    unfolding r0 using dark_fill_bin[OF i] by (simp add: env_dark_def)
  have "m_cf S ! iE = fst (Mixer_linear_bin c (m_eStep st2) 3 iE (replicate nMaxLevels 0, 0))"
    using Mixer_rates_linear_bin[OF l1 i, of c] z n2 row unfolding cS by simp
  then have "m_cf S ! iE = replicate nMaxLevels 0" by (simp add: zero_bin)
  then show ?thesis using M nS by blast
qed

lemma first_collision:
  assumes M: "Mixer env c session0 = (True, S)"
  shows "\<exists>col st' k'.
     prepare_tables env c session0 10 = (True, S\<lparr>m_isChanged := False\<rparr>)
     \<and> GetElectronCollision 0 0 env c rnd 10 (0, 0, 1) [] (session0, 0) = Some (Some col, st', k')
     \<and> m_eHigh S = 10000 \<and> m_eStep S = 1 / 500"
proof -
  have f: "m_isChanged session0" "m_eFinal session0 = 40" "\<not> m_useDeexcitation session0"
    by (simp_all add: session0_def)
  have p: "prepare_tables env c session0 10 = (True, S\<lparr>m_isChanged := False\<rparr>)"
    using f M by (simp add: prepare_tables_def)
  note b = Mixer_built[OF M]
  have "\<not> m_useDeexcitation S" using b f(3) by blast
  then have "\<not> m_useDeexcitation (S\<lparr>m_isChanged := False\<rparr>)" by simp
  from collide_without_deexcitation[OF this] obtain col st' k' where
    col: "collide 0 0 c rnd 10 (0, 0, 1) [] (S\<lparr>m_isChanged := False\<rparr>, 0) = Some (col, st', k')"
    by blast
  have g: "GetElectronCollision 0 0 env c rnd 10 (0, 0, 1) [] (session0, 0)
           = Some (Some col, st', k')"
    using p col by (simp add: GetElectronCollision_def)
  have "m_eHigh S = m_eHigh session0 \<and> m_eStep S = m_eStep session0" using b by blast
  then have "m_eHigh S = 10000 \<and> m_eStep S = 1 / 500"
    by (simp add: session0_def nEnergySteps_def)
  then show ?thesis using p g by blast
qed

lemma dark_collision:
  "\<exists>st1 col st' k'.
     prepare_tables env_dark c0 session0 10 = (True, st1)
     \<and> GetElectronCollision 0 0 env_dark c0 rnd_zero 10 (0, 0, 1) [] (session0, 0)
       = Some (Some col, st', k')
     \<and> m_eHigh st1 = 10000 \<and> m_eStep st1 = 1 / 500 \<and> m_nTerms st1 = 3
     \<and> m_cf st1 ! 5000 = replicate nMaxLevels 0
     \<and> col_level col = 0"
proof -
  have i: "(5000 :: nat) < nEnergySteps" by (simp add: nEnergySteps_def)
  have "\<exists>S. Mixer env_dark c0 session0 = (True, S) \<and> m_nTerms S = 3
             \<and> m_cf S ! 5000 = replicate nMaxLevels 0"
    by (rule dark_table) (simp_all add: session0_def nEnergySteps_def)
  then obtain S where M: "Mixer env_dark c0 session0 = (True, S)" and n: "m_nTerms S = 3"
    and z: "m_cf S ! 5000 = replicate nMaxLevels 0" by blast
  define st1 where "st1 = S\<lparr>m_isChanged := False\<rparr>"
  from first_collision[OF M, of rnd_zero] obtain col st' k' where
    p: "prepare_tables env_dark c0 session0 10 = (True, st1)"
    and g: "GetElectronCollision 0 0 env_dark c0 rnd_zero 10 (0, 0, 1) [] (session0, 0)
            = Some (Some col, st', k')"
    and e: "m_eHigh S = 10000" "m_eStep S = 1 / 500"
    unfolding st1_def by blast
  from GetElectronCollision_success[OF g] p
  have c: "collide 0 0 c0 rnd_zero 10 (0, 0, 1) [] (st1, 0) = Some (col, st', k')" by auto
  have "col_level col = sample_level (replicate nMaxLevels 0) 3 0"
    using collide_level[OF c] e z n by (simp add: st1_def nEnergySteps_def rnd_zero_def)
  then have l: "col_level col = 0" by (simp add: sample_level_def nMaxLevels_def)
  show ?thesis using p g e n z l by (auto simp add: st1_def)
qed

subsection \<open>Levels without a de-excitation entry\<close>





















section \<open>The claims\<close>




text \<open>
  Claim C2. The level of a collision that \<^verbatim>\<open>GetElectronCollision\<close> returns, lines
  641-677. \<open>st1\<close> is the session once its tables are up to date, \<open>row\<close> the row of
  cumulative probabilities of the bin of the energy (on the linear grid up to
  \<^verbatim>\<open>m_eHigh\<close>, on the logarithmic grid above), \<open>n\<close> the number of terms and \<open>r\<close> the
  draw, which is the first value the call takes from the random source. For a row
  that is non-decreasing over its first \<open>n\<close> entries, as \<^verbatim>\<open>Mixer\<close> builds them: the
  level is 0 when \<open>r\<close> is at most the first entry; it is \<open>n - 1\<close> when \<open>r\<close> is above
  the first entry and at or above the last one, the second test of the
  \<^verbatim>\<open>if / else if\<close> chain; and whenever \<open>r\<close> is at most the first entry or below the
  last one, the level is the first index whose entry is \<open>\<ge> r\<close>: the entry there is
  \<open>\<ge> r\<close> and every entry before it is \<open>< r\<close>, so the lowest index wins on ties.
  Nothing is assumed about the value of the last entry. The test of the first entry
  comes first: when the cross-sections of the provider are zero, \<^verbatim>\<open>Mixer\<close> builds
  rows of zeros, the draw 0 is at or above the last entry, and the level is 0, not
  \<open>n - 1\<close> (\<open>C2_last_entry_does_not_saturate\<close>).
\<close>

theorem C2_level_selection:
  assumes "GetElectronCollision fuel vfuel env c rnd e d secs (st, k) = Some (Some col, st', k')"
    and "prepare_tables env c st e = (True, st1)"
    and "row = (if e \<le> m_eHigh st1
                then m_cf st1 ! min (nat \<lfloor>e / m_eStep st1\<rfloor>) (nEnergySteps - 1)
                else m_cfLog st1 ! min (nat \<lfloor>ln (e / m_eHigh st1) / m_lnStep st1\<rfloor>)
                                     (nEnergyStepsLog - 1))"
    and "n = m_nTerms st1" and "r = rnd k"
    and "0 < n" and "n \<le> length row" and "sorted (take n row)"
  shows "(r \<le> row ! 0 \<longrightarrow> col_level col = 0)
       \<and> (row ! 0 < r \<and> row ! (n - 1) \<le> r \<longrightarrow> col_level col = n - 1)
       \<and> (r \<le> row ! 0 \<or> r < row ! (n - 1) \<longrightarrow>
            col_level col < n \<and> r \<le> row ! col_level col
            \<and> (\<forall>j. j < col_level col \<longrightarrow> row ! j < r))"
proof -
  from GetElectronCollision_success[OF assms(1)] assms(2)
  have c: "collide fuel vfuel c rnd e d secs (st1, k) = Some (col, st', k')" by auto
  have l: "col_level col = sample_level row n r"
    unfolding assms(3,4,5) using c by (rule collide_level)
  show ?thesis unfolding l using assms(6,8,7) by (rule sample_level_sorted)
qed

theorem C2_level_selection_witness:
  "\<exists>st1 col st' k'.
     GetElectronCollision 0 0 env_argon c0 rnd_half 10 (0, 0, 1) [] (session0, 0)
       = Some (Some col, st', k')
     \<and> prepare_tables env_argon c0 session0 10 = (True, st1)
     \<and> m_cf st1 ! 5000
       = (if 10 \<le> m_eHigh st1
          then m_cf st1 ! min (nat \<lfloor>10 / m_eStep st1\<rfloor>) (nEnergySteps - 1)
          else m_cfLog st1 ! min (nat \<lfloor>ln (10 / m_eHigh st1) / m_lnStep st1\<rfloor>)
                               (nEnergyStepsLog - 1))
     \<and> 0 < m_nTerms st1
     \<and> m_nTerms st1 \<le> length (m_cf st1 ! 5000)
     \<and> sorted (take (m_nTerms st1) (m_cf st1 ! 5000))
     \<and> rnd_half 0 < m_cf st1 ! 5000 ! (m_nTerms st1 - 1)
     \<and> col_level col < m_nTerms st1
     \<and> rnd_half 0 \<le> m_cf st1 ! 5000 ! col_level col"
proof -
  have "\<exists>S. Mixer env_argon c0 session0 = (True, S) \<and> m_nTerms S = 5
             \<and> (\<forall>iE<nEnergySteps. 0 < m_cfTot S ! iE)"
    by (rule argon_bins) (simp_all add: session0_def c0_def nEnergySteps_def)
  then obtain S where M: "Mixer env_argon c0 session0 = (True, S)" and n: "m_nTerms S = 5"
    and t: "\<forall>iE<nEnergySteps. 0 < m_cfTot S ! iE" by blast
  define st1 where "st1 = S\<lparr>m_isChanged := False\<rparr>"
  from first_collision[OF M, of rnd_half] obtain col st' k' where
    p: "prepare_tables env_argon c0 session0 10 = (True, st1)"
    and g: "GetElectronCollision 0 0 env_argon c0 rnd_half 10 (0, 0, 1) [] (session0, 0)
            = Some (Some col, st', k')"
    and e: "m_eHigh S = 10000" "m_eStep S = 1 / 500"
    unfolding st1_def by blast
  have i: "(5000 :: nat) < nEnergySteps" by (simp add: nEnergySteps_def)
  have n': "m_nTerms S \<le> nMaxLevels" using n by (simp add: nMaxLevels_def)
  note r = built_linear_row[OF M n' i]
  have tp: "0 < m_cfTot S ! 5000" using t i by blast
  have h3: "m_cf st1 ! 5000
       = (if 10 \<le> m_eHigh st1
          then m_cf st1 ! min (nat \<lfloor>10 / m_eStep st1\<rfloor>) (nEnergySteps - 1)
          else m_cfLog st1 ! min (nat \<lfloor>ln (10 / m_eHigh st1) / m_lnStep st1\<rfloor>)
                               (nEnergyStepsLog - 1))"
  proof -
    have e1: "m_eHigh st1 = 10000" "m_eStep st1 = 1 / 500" using e by (simp_all add: st1_def)
    show ?thesis unfolding e1 by (simp add: nEnergySteps_def)
  qed
  have h6: "0 < m_nTerms st1" using n by (simp add: st1_def)
  have h7: "m_nTerms st1 \<le> length (m_cf st1 ! 5000)" using r by (simp add: st1_def)
  have h8: "sorted (take (m_nTerms st1) (m_cf st1 ! 5000))" using r by (simp add: st1_def)
  have lt: "rnd_half 0 < m_cf st1 ! 5000 ! (m_nTerms st1 - 1)"
    using r tp by (simp add: st1_def rnd_half_def)
  note c = C2_level_selection[OF g p h3 refl refl h6 h7 h8]
  have "col_level col < m_nTerms st1 \<and> rnd_half 0 \<le> m_cf st1 ! 5000 ! col_level col"
    using c lt by blast
  then show ?thesis using g p h3 h6 h7 h8 lt by blast
qed

theorem C2_last_entry_does_not_saturate:
  "\<exists>st1 col st' k'.
     prepare_tables env_dark c0 session0 10 = (True, st1)
     \<and> GetElectronCollision 0 0 env_dark c0 rnd_zero 10 (0, 0, 1) [] (session0, 0)
       = Some (Some col, st', k')
     \<and> 0 \<le> rnd_zero 0 \<and> rnd_zero 0 < 1
     \<and> 10 \<le> m_eHigh st1
     \<and> m_cf st1 ! min (nat \<lfloor>10 / m_eStep st1\<rfloor>) (nEnergySteps - 1) ! (m_nTerms st1 - 1)
         \<le> rnd_zero 0
     \<and> m_nTerms st1 - 1 = 2
     \<and> col_level col = 0"
proof -
  from dark_collision obtain st1 col st' k' where
    p: "prepare_tables env_dark c0 session0 10 = (True, st1)"
    and g: "GetElectronCollision 0 0 env_dark c0 rnd_zero 10 (0, 0, 1) [] (session0, 0)
       = Some (Some col, st', k')"
    and e: "m_eHigh st1 = 10000" "m_eStep st1 = 1 / 500" and n: "m_nTerms st1 = 3"
    and z: "m_cf st1 ! 5000 = replicate nMaxLevels 0"
    and l: "col_level col = 0" by blast
  have a: "m_cf st1 ! min (nat \<lfloor>10 / m_eStep st1\<rfloor>) (nEnergySteps - 1) ! (m_nTerms st1 - 1)
         \<le> rnd_zero 0"
  proof -
    have "min (nat \<lfloor>10 / m_eStep st1\<rfloor>) (nEnergySteps - 1) = 5000"
      unfolding e by (simp add: nEnergySteps_def)
    then show ?thesis using n z by (simp add: nMaxLevels_def rnd_zero_def)
  qed
  have b: "10 \<le> m_eHigh st1" using e by simp
  have c: "m_nTerms st1 - 1 = 2" using n by simp
  have d: "0 \<le> rnd_zero 0 \<and> rnd_zero 0 < 1" by (simp add: rnd_zero_def)
  show ?thesis using p g a b c d l by blast
qed

text \<open>
  Claim C3. The total rate that \<^verbatim>\<open>Mixer\<close> stores for a bin. On the linear grid it is
  the sum of the frequencies of the levels times the square root of the kinetic energy
  of the bin, and above 1000 eV times \<open>sqrt (1 + 0.5 * re) / (1 + re)\<close>, as the claim
  says. On the logarithmic grid the stored value is the logarithm of the sum times the
  square root of the kinetic energy times \<open>sqrt (1 + re) / (1 + re)\<close>: the factor has
  no \<open>0.5\<close>. For the first logarithmic bin of a grid that starts at 10 keV with ratio 2
  (kinetic energy 20 keV) and a single level of frequency 1 the rate that the code
  stores differs from the rate of the claim.
\<close>

theorem C3_total_rate:
  "snd (Mixer_linear_bin c eStep n iE (row, 0))
     = bin_frequency_sum n row 0 * sqrt (eStep * (real iE + 0.5))
       * (if eStep * (real iE + 0.5) > 1000
          then sqrt (1 + 0.5 * (eStep * (real iE + 0.5) / ElectronMass c))
               / (1 + eStep * (real iE + 0.5) / ElectronMass c)
          else 1)
   \<and> snd (Mixer_log_bin c eHigh rLog n iE (row, 0))
     = ln (bin_frequency_sum n row 0
           * (sqrt (eHigh * rLog ^ (iE + 1))
              * sqrt (1 + eHigh * rLog ^ (iE + 1) / ElectronMass c)
              / (1 + eHigh * rLog ^ (iE + 1) / ElectronMass c)))
   \<and> exp (snd (Mixer_log_bin c0 10000 2 1 0 ([1], 0)))
     \<noteq> sqrt 20000 * (sqrt (1 + 0.5 * (20000 / ElectronMass c0)) / (1 + 20000 / ElectronMass c0))"
proof (intro conjI)
  show "snd (Mixer_linear_bin c eStep n iE (row, 0))
     = bin_frequency_sum n row 0 * sqrt (eStep * (real iE + 0.5))
       * (if eStep * (real iE + 0.5) > 1000
          then sqrt (1 + 0.5 * (eStep * (real iE + 0.5) / ElectronMass c))
               / (1 + eStep * (real iE + 0.5) / ElectronMass c)
          else 1)"
    by (rule Mixer_linear_bin_total)
  show "snd (Mixer_log_bin c eHigh rLog n iE (row, 0))
     = ln (bin_frequency_sum n row 0
           * (sqrt (eHigh * rLog ^ (iE + 1))
              * sqrt (1 + eHigh * rLog ^ (iE + 1) / ElectronMass c)
              / (1 + eHigh * rLog ^ (iE + 1) / ElectronMass c)))"
    by (rule Mixer_log_bin_total)
  show "exp (snd (Mixer_log_bin c0 10000 2 1 0 ([1], 0)))
     \<noteq> sqrt 20000 * (sqrt (1 + 0.5 * (20000 / ElectronMass c0)) / (1 + 20000 / ElectronMass c0))"
    using log_bin_at_20keV by (rule conjunct2)
qed

text \<open>
  Claim C4. The energy after the collision, lines 765 and 788-795 of
  \<^verbatim>\<open>GetElectronCollision\<close>: \<open>loss0\<close> is the energy loss before line 765, \<open>s1\<close> the mass
  parameter \<^verbatim>\<open>m_rgas[igas]\<close> and \<open>ctheta0\<close> the sampled cosine. For all values of
  these the energy is at least \<open>Small\<close>, hence positive when \<open>Small\<close> is. It does not
  exceed the incoming energy when the energy loss is not negative and line 765 leaves
  it so (the loss is at most the energy, or the energy is at least 0.0001 eV), for
  \<open>s1 > 1\<close>, a cosine in \<open>[-1, 1]\<close> and an incoming energy of at least \<open>Small\<close>. The
  last conjunct is about the energy \<^verbatim>\<open>e1\<close> that a successful call returns: it is at
  least \<open>Small\<close>, and at most the incoming energy when the level of the collision has
  a non-negative energy loss and a mass parameter above 1, the scattering angle is
  drawn from the isotropic distribution and the random source gives values in
  \<open>[0, 1]\<close>. For a level with a negative energy loss (a super-elastic collision) the
  energy after the collision can exceed the incoming one
  (\<open>C4_superelastic_gain\<close>).
\<close>

theorem C4_post_collision_energy:
  "Small c \<le> post_collision_energy c e (clamp_loss e loss0) s1 ctheta0
   \<and> (0 < Small c \<longrightarrow> 0 < post_collision_energy c e (clamp_loss e loss0) s1 ctheta0)
   \<and> (0 < Small c \<and> Small c \<le> 1 \<and> Small c \<le> e \<and> 1 < s1 \<and> - 1 \<le> ctheta0 \<and> ctheta0 \<le> 1
        \<and> 0 \<le> loss0 \<and> (loss0 \<le> e \<or> 1 / 10000 \<le> e)
      \<longrightarrow> post_collision_energy c e (clamp_loss e loss0) s1 ctheta0 \<le> e)
   \<and> (GetElectronCollision fuel vfuel env c rnd e d secs (st, k) = Some (Some col, st', k')
      \<longrightarrow> Small c \<le> col_e1 col \<and> (0 < Small c \<longrightarrow> 0 < col_e1 col)
        \<and> (0 < Small c \<and> Small c \<le> 1 \<and> Small c \<le> e \<and> 1 / 10000 \<le> e
             \<and> (\<forall>i. 0 \<le> rnd i \<and> rnd i \<le> 1)
             \<and> (m_useAnisotropic st' \<longrightarrow> m_scatModel st' ! col_level col \<noteq> 1
                                          \<and> m_scatModel st' ! col_level col \<noteq> 2)
             \<and> 0 \<le> m_energyLoss st' ! col_level col
             \<and> 1 < m_rgas st' ! (m_csType st' ! col_level col div nCsTypes)
           \<longrightarrow> col_e1 col \<le> e))"
proof -
  have fl: "Small c \<le> post_collision_energy c e l s t" for e l s t
    by (rule post_collision_energy_floor)
  have up: "post_collision_energy c e (clamp_loss e l) s t \<le> e"
    if "0 < Small c" "Small c \<le> 1" "Small c \<le> e" "1 < s" "- 1 \<le> t" "t \<le> 1"
       "0 \<le> l" "l \<le> e \<or> 1 / 10000 \<le> e" for l s t
  proof -
    have e: "0 < e" using that(1,3) by simp
    have l: "0 \<le> clamp_loss e l" using that(7,8) by (rule clamp_loss_nonneg)
    have "post_collision_energy c e (clamp_loss e l) s t \<le> max e (Small c)"
      using e that(4,5,6,1,2) l by (rule post_collision_energy_upper)
    then show ?thesis using that(3) by (simp add: max_def)
  qed
  have A: "Small c \<le> post_collision_energy c e (clamp_loss e loss0) s1 ctheta0" by (rule fl)
  have B: "0 < Small c \<longrightarrow> 0 < post_collision_energy c e (clamp_loss e loss0) s1 ctheta0"
    using A by simp
  have C: "0 < Small c \<and> Small c \<le> 1 \<and> Small c \<le> e \<and> 1 < s1 \<and> - 1 \<le> ctheta0 \<and> ctheta0 \<le> 1
        \<and> 0 \<le> loss0 \<and> (loss0 \<le> e \<or> 1 / 10000 \<le> e)
      \<longrightarrow> post_collision_energy c e (clamp_loss e loss0) s1 ctheta0 \<le> e"
    using up by blast
  have D: "Small c \<le> col_e1 col \<and> (0 < Small c \<longrightarrow> 0 < col_e1 col)
        \<and> (0 < Small c \<and> Small c \<le> 1 \<and> Small c \<le> e \<and> 1 / 10000 \<le> e
             \<and> (\<forall>i. 0 \<le> rnd i \<and> rnd i \<le> 1)
             \<and> (m_useAnisotropic st' \<longrightarrow> m_scatModel st' ! col_level col \<noteq> 1
                                          \<and> m_scatModel st' ! col_level col \<noteq> 2)
             \<and> 0 \<le> m_energyLoss st' ! col_level col
             \<and> 1 < m_rgas st' ! (m_csType st' ! col_level col div nCsTypes)
           \<longrightarrow> col_e1 col \<le> e)"
    if g: "GetElectronCollision fuel vfuel env c rnd e d secs (st, k) = Some (Some col, st', k')"
  proof -
    from GetElectronCollision_success[OF g] obtain st1 where
      c: "collide fuel vfuel c rnd e d secs (st1, k) = Some (col, st', k')" by blast
    from collide_energy[OF c] obtain l angCut angPar k2 where
      e1: "col_e1 col = post_collision_energy c e (clamp_loss e l)
                          (m_rgas st' ! (m_csType st' ! col_level col div nCsTypes))
                          (fst (scattering_angle rnd st' (col_level col) angCut angPar k2))"
      and ll: "0 < Small c \<longrightarrow> m_energyLoss st' ! col_level col \<le> l" by blast
    have D1: "Small c \<le> col_e1 col" unfolding e1 by (rule fl)
    have D3: "col_e1 col \<le> e"
      if h: "0 < Small c \<and> Small c \<le> 1 \<and> Small c \<le> e \<and> 1 / 10000 \<le> e
             \<and> (\<forall>i. 0 \<le> rnd i \<and> rnd i \<le> 1)
             \<and> (m_useAnisotropic st' \<longrightarrow> m_scatModel st' ! col_level col \<noteq> 1
                                          \<and> m_scatModel st' ! col_level col \<noteq> 2)
             \<and> 0 \<le> m_energyLoss st' ! col_level col
             \<and> 1 < m_rgas st' ! (m_csType st' ! col_level col div nCsTypes)"
    proof -
      have ct: "- 1 \<le> fst (scattering_angle rnd st' (col_level col) angCut angPar k2)
              \<and> fst (scattering_angle rnd st' (col_level col) angCut angPar k2) \<le> 1"
        using h by (intro isotropic_cosine) simp_all
      have l0: "0 \<le> l" using ll h by simp
      show ?thesis unfolding e1 using h ct l0 by (intro up) simp_all
    qed
    show ?thesis using D1 D3 by auto
  qed
  show ?thesis using A B C D by blast
qed

theorem C4_post_collision_energy_witness:
  "\<exists>col st' k'.
     GetElectronCollision 0 0 env0 c0 rnd_half 10 (0, 0, 1) [] (session_built, 0)
       = Some (Some col, st', k')
     \<and> 0 < Small c0 \<and> Small c0 \<le> 1 \<and> Small c0 \<le> 10 \<and> (1::real) < 101 / 100
     \<and> 0 < post_collision_energy c0 10 (clamp_loss 10 12) (101 / 100) (1 / 2)
     \<and> post_collision_energy c0 10 (clamp_loss 10 12) (101 / 100) (1 / 2) \<le> 10
     \<and> 0 < col_e1 col \<and> col_e1 col \<le> 10"
proof -
  from built_collision obtain col st' k' where
    g: "GetElectronCollision 0 0 env0 c0 rnd_half 10 (0, 0, 1) [] (session_built, 0)
       = Some (Some col, st', k')" by blast
  from GetElectronCollision_success[OF g] obtain st1 where
    p: "prepare_tables env0 c0 session_built 10 = (True, st1)"
    and c: "collide 0 0 c0 rnd_half 10 (0, 0, 1) [] (st1, 0) = Some (col, st', k')" by blast
  have st1: "st1 = session_built" using p
    by (simp add: prepare_tables_def session_built_def session0_def)
  have lv: "col_level col = 1" using collide_result[OF c] built_level0 by (simp add: st1)
  obtain loss0 secs' k2 where
    cp: "collision_products 0 0 c0 rnd_half 10 (col_type col) (col_level col)
               (m_csType st1 ! col_level col div nCsTypes) []
               (count_collision (col_type col) (col_level col) st1, 0 + 1)
             = Some (loss0, secs', col_ndxc col, st', k2)"
    using collide_result[OF c] by blast
  have fr: "without_products st' = without_products (count_collision (col_type col) (col_level col) st1)"
    using cp by (rule collision_products_frame)
  have same: "m_energyLoss st' = m_energyLoss session_built" "m_csType st' = m_csType session_built"
    "m_rgas st' = m_rgas session_built" "m_useAnisotropic st' = m_useAnisotropic session_built"
    "m_scatModel st' = m_scatModel session_built"
    using tables_without_products[of st']
      tables_without_products[of "count_collision (col_type col) (col_level col) st1"] fr
    by (simp_all add: count_collision_def st1)
  have h1: "0 < Small c0" by (simp add: c0_def)
  have h2: "Small c0 \<le> 1" by (simp add: c0_def)
  have h3: "Small c0 \<le> 10" by (simp add: c0_def)
  have h4: "(1::real) < 101 / 100" by simp
  have r: "\<forall>i. 0 \<le> rnd_half i \<and> rnd_half i \<le> 1" by (simp add: rnd_half_def)
  have m: "m_useAnisotropic st' \<longrightarrow> m_scatModel st' ! col_level col \<noteq> 1
                                          \<and> m_scatModel st' ! col_level col \<noteq> 2"
    unfolding same lv by (simp add: session_built_def session0_def nMaxLevels_def)
  have el: "0 \<le> m_energyLoss st' ! col_level col"
    unfolding same lv by (simp add: session_built_def)
  have rg: "1 < m_rgas st' ! (m_csType st' ! col_level col div nCsTypes)"
    unfolding same lv by (simp add: session_built_def nCsTypes_def)
  note t = C4_post_collision_energy[of c0 10 12 "101 / 100" "1 / 2" 0 0 env0 rnd_half
              "(0, 0, 1)" "[]" session_built 0 col st' k']
  have "0 < post_collision_energy c0 10 (clamp_loss 10 12) (101 / 100) (1 / 2)
     \<and> post_collision_energy c0 10 (clamp_loss 10 12) (101 / 100) (1 / 2) \<le> 10"
    using t h1 h2 h3 by simp
  moreover have "0 < col_e1 col \<and> col_e1 col \<le> 10"
    using t g h1 h2 h3 r m el rg by simp
  ultimately show ?thesis using g h1 h2 h3 h4 by blast
qed

theorem C4_superelastic_gain:
  "0 < (1::real) \<and> 1 < post_collision_energy c0 1 (clamp_loss 1 (- 1)) (101 / 100) 0"
  by (simp add: post_collision_energy_def kinematic_arg_def clamp_loss_def c0_def Let_def)

text \<open>
  Claim C6. A query on a session whose tables are out of date (\<^verbatim>\<open>m_isChanged\<close>) at an
  energy within the range, when the call of \<^verbatim>\<open>Mixer\<close> returns \<^verbatim>\<open>false\<close>; in the
  loop over the gases the only \<^verbatim>\<open>return false\<close> is the test of the capacity at line
  1557. The terms of the gases entered before the failing one fit the tables
  (\<^verbatim>\<open>m_nTerms\<close> is at most \<open>nMaxLevels\<close> when the call returns). \<^verbatim>\<open>GetElectronCollision\<close> returns \<^verbatim>\<open>false\<close> without consulting the random
  source and \<^verbatim>\<open>GetElectronCollisionRate\<close> returns 0. \<^verbatim>\<open>Mixer\<close> has reset the
  tables (lines 1434-1455) before the loop over the gases: in the session that the
  call leaves the total rates of both grids are all 0 and the list of de-excitation
  levels is empty, whatever they were. The null-collision rate and the collision
  counters are as before the call, and \<^verbatim>\<open>m_isChanged\<close> is still set, so that the
  next query at that energy calls \<^verbatim>\<open>Mixer\<close> again. The tables built before are not
  kept (\<open>C6_tables_not_kept\<close>).
\<close>

theorem C6_failed_rebuild:
  assumes "m_isChanged st" and "0 < e" and "e \<le> m_eFinal st" and "Mixer env c st = (False, st')"
    and "m_nTerms st' \<le> nMaxLevels"
  shows "GetElectronCollision fuel vfuel env c rnd e d secs (st, k) = Some (None, st', k)
       \<and> GetElectronCollisionRate env c st e = (0, st')
       \<and> m_cfTot st' = replicate nEnergySteps 0
       \<and> m_cfTotLog st' = replicate nEnergyStepsLog 0
       \<and> m_deexcitations st' = []
       \<and> m_cfNull st' = m_cfNull st
       \<and> m_nCollisions st' = m_nCollisions st
       \<and> m_nCollisionsDetailed st' = m_nCollisionsDetailed st
       \<and> m_isChanged st'
       \<and> prepare_tables env c st' e
         = (case Mixer env c st' of (False, s) \<Rightarrow> (False, s)
                                  | (True, s) \<Rightarrow> (True, s\<lparr>m_isChanged := False\<rparr>))"
  using failed_rebuild[OF assms(1,2,3,4)] Mixer_failure[OF assms(4)] by simp

theorem C6_failed_rebuild_witness:
  "\<exists>st'. m_isChanged session_rebuilt \<and> (0 :: real) < 10 \<and> 10 \<le> m_eFinal session_rebuilt
      \<and> Mixer (env_mixture 10) c0 session_rebuilt = (False, st')
      \<and> m_nTerms st' \<le> nMaxLevels
      \<and> GetElectronCollision 0 0 (env_mixture 10) c0 rnd_half 10 (0, 0, 1) [] (session_rebuilt, 0)
        = Some (None, st', 0)
      \<and> GetElectronCollisionRate (env_mixture 10) c0 session_rebuilt 10 = (0, st')
      \<and> m_cfTot st' = replicate nEnergySteps 0
      \<and> m_cfNull st' = m_cfNull session_rebuilt
      \<and> m_isChanged st'"
proof -
  from mixture_abort[OF session_rebuilt_grid] obtain st' where
    M: "Mixer (env_mixture 10) c0 session_rebuilt = (False, st')" and n: "m_nTerms st' = 506"
    by blast
  have h1: "m_isChanged session_rebuilt" by (simp add: session_rebuilt_def)
  have h2: "(0 :: real) < 10" by simp
  have h3: "10 \<le> m_eFinal session_rebuilt"
    by (simp add: session_rebuilt_def session_built_def session0_def)
  have h5: "m_nTerms st' \<le> nMaxLevels" using n by (simp add: nMaxLevels_def)
  note t = C6_failed_rebuild[OF h1 h2 h3 M h5, of 0 0 rnd_half "(0, 0, 1)" "[]" 0]
  show ?thesis using h1 h2 h3 M h5 t by blast
qed

theorem C6_tables_not_kept:
  "\<exists>st'. GetElectronCollision 0 0 (env_mixture 10) c0 rnd_half 10 (0, 0, 1) [] (session_rebuilt, 0)
        = Some (None, st', 0)
      \<and> m_isChanged session_rebuilt \<and> m_nTerms st' \<le> nMaxLevels
      \<and> m_cfTot session_rebuilt = replicate nEnergySteps 5
      \<and> m_cfTot st' = replicate nEnergySteps 0
      \<and> m_cfTot st' \<noteq> m_cfTot session_rebuilt"
proof -
  from mixture_abort[OF session_rebuilt_grid] obtain st' where
    M: "Mixer (env_mixture 10) c0 session_rebuilt = (False, st')" and n: "m_nTerms st' = 506"
    by blast
  have h5: "m_nTerms st' \<le> nMaxLevels" using n by (simp add: nMaxLevels_def)
  have h1: "m_isChanged session_rebuilt" by (simp add: session_rebuilt_def)
  have h2: "(0 :: real) < 10" by simp
  have h3: "10 \<le> m_eFinal session_rebuilt"
    by (simp add: session_rebuilt_def session_built_def session0_def)
  have g: "GetElectronCollision 0 0 (env_mixture 10) c0 rnd_half 10 (0, 0, 1) [] (session_rebuilt, 0)
        = Some (None, st', 0)"
    using failed_rebuild[OF h1 h2 h3 M] by (rule conjunct1)
  have a: "m_cfTot session_rebuilt = replicate nEnergySteps 5"
    by (simp add: session_rebuilt_def session_built_def)
  have b: "m_cfTot st' = replicate nEnergySteps 0" using Mixer_failure[OF M] by (rule conjunct1)
  have "m_cfTot st' \<noteq> m_cfTot session_rebuilt" unfolding a b by (simp add: nEnergySteps_def)
  then show ?thesis using g h1 h5 a b by blast
qed




text \<open>
  Claim C8. A collision sampled by \<^verbatim>\<open>GetElectronCollision\<close> on the session \<open>st1\<close>
  (the session once its tables are up to date), with Penning transfer switched on and
  de-excitation switched off. When the sampled level is an excitation whose transfer
  probability is 1 and whose threshold in the frame of the gas (energy loss times
  \<^verbatim>\<open>m_rgas\<close>) exceeds the smallest ionisation potential, and the random source gives
  values in \<open>[0, 1)\<close>, the call reports one de-excitation product, the list of products
  is one electron with the energy threshold minus ionisation potential, and the counter
  of Penning transfers goes up by one. The energy is positive here, so the floor
  \<open>Small\<close> of line 746 does not come into play.
\<close>

theorem C8_penning_transfer:
  assumes "GetElectronCollision fuel vfuel env c rnd e d secs (st, k) = Some (Some col, st', k')"
    and "prepare_tables env c st e = (True, st1)"
    and "col_type col = ElectronCollisionTypeExcitation"
    and "m_usePenning st1" and "\<not> m_useDeexcitation st1"
    and "m_rPenning st1 ! col_level col = 1"
    and "m_energyLoss st1 ! col_level col * m_rgas st1 ! (m_csType st1 ! col_level col div nCsTypes)
         > m_minIonPot st1"
    and "\<forall>i. 0 \<le> rnd i \<and> rnd i < 1"
  shows "col_ndxc col = 1
       \<and> (\<exists>s. m_dxcProducts st'
              = [\<lparr>prod_s = s, prod_t = 0, prod_type = DxcProdTypeElectron,
                  prod_energy = m_energyLoss st1 ! col_level col
                                * m_rgas st1 ! (m_csType st1 ! col_level col div nCsTypes)
                                - m_minIonPot st1\<rparr>])
       \<and> 0 < m_energyLoss st1 ! col_level col
                 * m_rgas st1 ! (m_csType st1 ! col_level col div nCsTypes) - m_minIonPot st1
       \<and> m_nPenning st' = m_nPenning st1 + 1"
proof -
  from GetElectronCollision_success[OF assms(1)] assms(2)
  have col: "collide fuel vfuel c rnd e d secs (st1, k) = Some (col, st', k')" by auto
  define level where "level = col_level col"
  define igas where "igas = m_csType st1 ! level div nCsTypes"
  define st2 where "st2 = count_collision (col_type col) level st1"
  from collide_result[OF col] obtain loss0 secs' k2 where
    cp: "collision_products fuel vfuel c rnd e (col_type col) level igas secs (st2, k + 1)
         = Some (loss0, secs', col_ndxc col, st', k2)"
    unfolding level_def igas_def st2_def by blast
  note t = count_collision_tables[of "col_type col" level st1]
  have thr: "m_energyLoss st2 ! level * m_rgas st2 ! igas > m_minIonPot st2"
    using assms(7) t by (simp add: st2_def level_def igas_def)
  have draw: "rnd (k + 1) < m_rPenning st2 ! level"
    using assms(6,8) t by (simp add: st2_def level_def)
  from penning_transfer_certain[where st = st2 and level = level and igas = igas and rnd = rnd
      and k = "k + 1" and c = c, OF thr draw] obtain s st3 k3 where
    pt: "penning_transfer c rnd level igas (st2, k + 1) = (1, st3, k3)"
    and pr: "m_dxcProducts st3 = [\<lparr>prod_s = s, prod_t = 0, prod_type = DxcProdTypeElectron,
                prod_energy = m_energyLoss st2 ! level * m_rgas st2 ! igas - m_minIonPot st2\<rparr>]"
    and np: "m_nPenning st3 = m_nPenning st2 + 1"
    by blast
  have sw: "m_usePenning st2" "\<not> m_useDeexcitation st2" using assms(4,5) t by (simp_all add: st2_def)
  have "collision_products fuel vfuel c rnd e (col_type col) level igas secs (st2, k + 1)
        = Some (m_energyLoss st2 ! level, secs, 1, st3, k3)"
    using sw pt assms(3)
    by (simp add: collision_products_def Let_def ElectronCollisionTypeExcitation_def
        ElectronCollisionTypeIonisation_def)
  then have r: "col_ndxc col = 1" "st' = st3" using cp by simp_all
  have "m_dxcProducts st' = [\<lparr>prod_s = s, prod_t = 0, prod_type = DxcProdTypeElectron,
                prod_energy = m_energyLoss st1 ! level * m_rgas st1 ! igas - m_minIonPot st1\<rparr>]"
    using pr r t by (simp add: st2_def)
  moreover have "m_nPenning st' = m_nPenning st1 + 1" using np r t by (simp add: st2_def)
  ultimately show ?thesis using r assms(7) by (auto simp add: level_def igas_def)
qed

theorem C8_penning_transfer_witness:
  "\<exists>col st' k'.
     GetElectronCollision 0 0 env0 c0 rnd_half 10 (0, 0, 1) [] (session_penning, 0)
       = Some (Some col, st', k')
     \<and> prepare_tables env0 c0 session_penning 10 = (True, session_penning)
     \<and> col_type col = ElectronCollisionTypeExcitation
     \<and> m_usePenning session_penning \<and> \<not> m_useDeexcitation session_penning
     \<and> m_rPenning session_penning ! col_level col = 1
     \<and> col_ndxc col = 1
     \<and> (\<exists>s. m_dxcProducts st'
            = [\<lparr>prod_s = s, prod_t = 0, prod_type = DxcProdTypeElectron,
                prod_energy = m_energyLoss session_penning ! col_level col
                              * m_rgas session_penning
                                ! (m_csType session_penning ! col_level col div nCsTypes)
                              - m_minIonPot session_penning\<rparr>])"
proof -
  from penning_collision obtain col st' k' where
    g: "GetElectronCollision 0 0 env0 c0 rnd_half 10 (0, 0, 1) [] (session_penning, 0)
          = Some (Some col, st', k')"
    and ty: "col_type col = 4" and lv: "col_level col = 1" by blast
  have p: "prepare_tables env0 c0 session_penning 10 = (True, session_penning)"
    by (simp add: prepare_tables_def session_penning_def session_built_def session0_def)
  have h3: "col_type col = ElectronCollisionTypeExcitation"
    using ty by (simp add: ElectronCollisionTypeExcitation_def)
  have h4: "m_usePenning session_penning"
    by (simp add: session_penning_def session_built_def session0_def)
  have h5: "\<not> m_useDeexcitation session_penning"
    by (simp add: session_penning_def session_built_def session0_def)
  have h6: "m_rPenning session_penning ! col_level col = 1"
    using lv by (simp add: session_penning_def session_built_def session0_def)
  have h7: "m_energyLoss session_penning ! col_level col
            * m_rgas session_penning ! (m_csType session_penning ! col_level col div nCsTypes)
            > m_minIonPot session_penning"
    using lv by (simp add: session_penning_def session_built_def session0_def nCsTypes_def)
  have h8: "\<forall>i. 0 \<le> rnd_half i \<and> rnd_half i < 1" by (simp add: rnd_half_def)
  note t = C8_penning_transfer[OF g p h3 h4 h5 h6 h7 h8]
  show ?thesis using g p h3 h4 h5 h6 t by blast
qed

text \<open>
  Claim C9. For an energy \<open>e \<le> 0\<close>, in a session whose upper end of the energy range
  is not negative (the constructor sets 40 eV and \<^verbatim>\<open>SetMaxElectronEnergy\<close> refuses
  values up to \<open>Small\<close>): the query of the collision rate returns the total rate of the
  first bin of the table, \<^verbatim>\<open>m_cfTot[0]\<close>, and the sampling call returns
  \<^verbatim>\<open>false\<close>; both leave the session as it is, and the sampling call consults
  the random source not at all. The rate returned is the number that a valid query in
  the first bin returns, so the caller of the rate query cannot tell the failure.
\<close>

theorem C9_nonpositive_energy:
  assumes "e \<le> 0" and "0 \<le> m_eFinal st"
  shows "GetElectronCollisionRate env c st e = (m_cfTot st ! 0, st)
       \<and> GetElectronCollision fuel vfuel env c rnd e d secondaries (st, k) = Some (None, st, k)"
  using assms
  by (simp add: GetElectronCollisionRate_def GetElectronCollision_def prepare_tables_nonpositive)

theorem C9_nonpositive_energy_witness:
  "(- 1 :: real) \<le> 0 \<and> 0 \<le> m_eFinal session_built
   \<and> GetElectronCollisionRate env0 c0 session_built (- 1) = (m_cfTot session_built ! 0, session_built)
   \<and> GetElectronCollision 0 0 env0 c0 rnd_half (- 1) (0, 0, 1) [] (session_built, 0)
     = Some (None, session_built, 0)"
proof -
  have h1: "(- 1 :: real) \<le> 0" by simp
  have h2: "0 \<le> m_eFinal session_built" by (simp add: session_built_def session0_def)
  show ?thesis
    using C9_nonpositive_energy[OF h1 h2, of env0 c0 0 0 rnd_half "(0, 0, 1)" "[]" 0] h1 h2
    by blast
qed

theorem C9_rate_query_answers:
  "GetElectronCollisionRate env0 c0 session_built (- 1) = (5, session_built)
   \<and> GetElectronCollisionRate env0 c0 session_built (1 / 1000) = (5, session_built)"
  by (simp add: GetElectronCollisionRate_def session_built_def session0_def bin_index_def
      nEnergySteps_def Let_def)

text \<open>
  Claim C10. A successful call of \<^verbatim>\<open>GetElectronCollision\<close> on the session \<open>st\<close> of
  the caller; \<open>st'\<close> is the session it leaves. The array of counters by type has its
  six entries, the mixture has a component and the number of terms fits the tables
  (\<^verbatim>\<open>m_nTerms\<close> at most \<open>nMaxLevels\<close>). The call finds the tables up to date
  when \<^verbatim>\<open>m_isChanged\<close> is not set and the energy does not make
  \<^verbatim>\<open>SetMaxElectronEnergy\<close> extend the range; for that case the vector of counters by
  level is assumed to have \<^verbatim>\<open>m_nTerms\<close> entries, with at least one level, which
  is what every successful call leaves (third and fourth conjunct). Then exactly the
  counter of the type and the counter of the level of the collision are raised by
  one, so the aggregate of \<^verbatim>\<open>GetNumberOfElectronCollisions()\<close> and the sum of the
  counters by level both go up by one and stay equal if they were. Otherwise the call
  runs \<^verbatim>\<open>Mixer\<close> first, which sets all counters to 0: after the call the counter of
  the type and the counter of the level are 1 and all others 0, whatever they were
  before (\<open>C10_counters_reset_by_rebuild\<close>: an aggregate of 7 becomes 1). In both
  cases the type and the level are in range, the aggregate is the total that the
  overload with six parameters returns, which is the sum of the six counters it hands
  out, and \<^verbatim>\<open>ResetCollisionCounters\<close> sets all these counters to 0. The counters
  are \<^verbatim>\<open>unsigned int\<close>: all sums are modulo \<open>2^32\<close>.
\<close>

theorem C10_collision_counters:
  assumes "GetElectronCollision fuel vfuel env c rnd e d secs (st, k) = Some (Some col, st', k')"
    and "length (m_nCollisions st) = nCsTypes" and "0 < m_nComponents st"
    and "\<not> m_isChanged st \<and> \<not> (e > m_eFinal st \<and> m_useAutoAdjust st \<and> Small c < 1.05 * e)
         \<longrightarrow> length (m_nCollisionsDetailed st) = m_nTerms st \<and> 0 < m_nTerms st"
    and "m_nTerms st' \<le> nMaxLevels"
  shows "col_type col < nCsTypes \<and> col_level col < m_nTerms st'
       \<and> length (m_nCollisions st') = nCsTypes
       \<and> length (m_nCollisionsDetailed st') = m_nTerms st'
       \<and> (\<not> m_isChanged st \<and> \<not> (e > m_eFinal st \<and> m_useAutoAdjust st \<and> Small c < 1.05 * e) \<longrightarrow>
            m_nCollisions st' = (m_nCollisions st)[col_type col := m_nCollisions st ! col_type col + 1]
          \<and> m_nCollisionsDetailed st'
            = (m_nCollisionsDetailed st)[col_level col := m_nCollisionsDetailed st ! col_level col + 1]
          \<and> GetNumberOfElectronCollisions st' = GetNumberOfElectronCollisions st + 1
          \<and> sum_list (m_nCollisionsDetailed st') = sum_list (m_nCollisionsDetailed st) + 1
          \<and> (GetNumberOfElectronCollisions st = sum_list (m_nCollisionsDetailed st)
             \<longrightarrow> GetNumberOfElectronCollisions st' = sum_list (m_nCollisionsDetailed st')))
       \<and> (m_isChanged st \<or> (e > m_eFinal st \<and> m_useAutoAdjust st \<and> Small c < 1.05 * e) \<longrightarrow>
            m_nCollisions st' = (replicate nCsTypes 0)[col_type col := 1]
          \<and> m_nCollisionsDetailed st' = (replicate (m_nTerms st') 0)[col_level col := 1]
          \<and> GetNumberOfElectronCollisions st' = 1
          \<and> sum_list (m_nCollisionsDetailed st') = 1)
       \<and> GetNumberOfElectronCollisions st' = fst (GetNumberOfElectronCollisions_by_type st')
       \<and> fst (GetNumberOfElectronCollisions_by_type st')
         = sum_list (snd (GetNumberOfElectronCollisions_by_type st'))
       \<and> m_nCollisions (ResetCollisionCounters st') = replicate nCsTypes 0
       \<and> m_nCollisionsDetailed (ResetCollisionCounters st') = replicate (m_nTerms st') 0
       \<and> GetNumberOfElectronCollisions (ResetCollisionCounters st') = 0
       \<and> sum_list (m_nCollisionsDetailed (ResetCollisionCounters st')) = 0"
proof -
  from GetElectronCollision_success[OF assms(1)] obtain st1 where
    p: "prepare_tables env c st e = (True, st1)"
    and col: "collide fuel vfuel c rnd e d secs (st1, k) = Some (col, st', k')" by blast
  note r = collide_result[OF col]
  note cnt = collide_counters[OF col]
  have ty: "col_type col < nCsTypes" using r by (simp add: nCsTypes_def)
  have steady: "m_nCollisions st' = (m_nCollisions st)[col_type col := m_nCollisions st ! col_type col + 1]
          \<and> m_nCollisionsDetailed st'
            = (m_nCollisionsDetailed st)[col_level col := m_nCollisionsDetailed st ! col_level col + 1]
          \<and> GetNumberOfElectronCollisions st' = GetNumberOfElectronCollisions st + 1
          \<and> sum_list (m_nCollisionsDetailed st') = sum_list (m_nCollisionsDetailed st) + 1
          \<and> (GetNumberOfElectronCollisions st = sum_list (m_nCollisionsDetailed st)
             \<longrightarrow> GetNumberOfElectronCollisions st' = sum_list (m_nCollisionsDetailed st'))
          \<and> col_level col < m_nTerms st' \<and> length (m_nCollisions st') = nCsTypes"
    if n: "\<not> m_isChanged st \<and> \<not> (e > m_eFinal st \<and> m_useAutoAdjust st \<and> Small c < 1.05 * e)"
  proof -
    have e: "st1 = st" using p n by (intro prepare_steady) auto
    have inv: "length (m_nCollisionsDetailed st) = m_nTerms st" "0 < m_nTerms st"
      using assms(4) n by simp_all
    have lv: "col_level col < m_nTerms st" using r inv(2) e by (simp add: choose_level_bound)
    have a: "GetNumberOfElectronCollisions st' = GetNumberOfElectronCollisions st + 1"
      using cnt ty assms(2) e
      by (simp add: GetNumberOfElectronCollisions_def fold_add_sum_list sum_list_increment)
    have b: "sum_list (m_nCollisionsDetailed st') = sum_list (m_nCollisionsDetailed st) + 1"
      using cnt lv inv(1) e by (simp add: sum_list_increment)
    show ?thesis using cnt a b lv e assms(2) by simp
  qed
  have rebuilt: "m_nCollisions st' = (replicate nCsTypes 0)[col_type col := 1]
          \<and> m_nCollisionsDetailed st' = (replicate (m_nTerms st') 0)[col_level col := 1]
          \<and> GetNumberOfElectronCollisions st' = 1
          \<and> sum_list (m_nCollisionsDetailed st') = 1
          \<and> col_level col < m_nTerms st' \<and> length (m_nCollisions st') = nCsTypes"
    if n: "m_isChanged st \<or> (e > m_eFinal st \<and> m_useAutoAdjust st \<and> Small c < 1.05 * e)"
  proof -
    from prepare_rebuild[OF p n] obtain sa s where
      m: "Mixer env c sa = (True, s)" and s1: "st1 = s\<lparr>m_isChanged := False\<rparr>"
      and k: "m_nComponents sa = m_nComponents st" "m_nCollisions sa = m_nCollisions st" by blast
    have six: "length (m_nCollisions sa) = nCsTypes" using k assms(2) by simp
    have gas: "0 < m_nComponents sa" using k assms(3) by simp
    show ?thesis by (rule collision_after_rebuild[OF m col[unfolded s1] six gas])
  qed
  have both: "col_level col < m_nTerms st' \<and> length (m_nCollisions st') = nCsTypes"
    using steady rebuilt by blast
  have len: "length (m_nCollisionsDetailed st') = m_nTerms st'"
  proof (cases "\<not> m_isChanged st \<and> \<not> (e > m_eFinal st \<and> m_useAutoAdjust st \<and> Small c < 1.05 * e)")
    case True
    then have "st1 = st" using p by (intro prepare_steady) auto
    then show ?thesis using cnt assms(4) True by simp
  next
    case False
    then have "m_isChanged st \<or> (e > m_eFinal st \<and> m_useAutoAdjust st \<and> Small c < 1.05 * e)"
      by blast
    from rebuilt[OF this] show ?thesis by simp
  qed
  note bt = by_type_total[OF both[THEN conjunct2]]
  note rs = ResetCollisionCounters_zero[of st']
  have S: "\<not> m_isChanged st \<and> \<not> (e > m_eFinal st \<and> m_useAutoAdjust st \<and> Small c < 1.05 * e) \<longrightarrow>
            m_nCollisions st' = (m_nCollisions st)[col_type col := m_nCollisions st ! col_type col + 1]
          \<and> m_nCollisionsDetailed st'
            = (m_nCollisionsDetailed st)[col_level col := m_nCollisionsDetailed st ! col_level col + 1]
          \<and> GetNumberOfElectronCollisions st' = GetNumberOfElectronCollisions st + 1
          \<and> sum_list (m_nCollisionsDetailed st') = sum_list (m_nCollisionsDetailed st) + 1
          \<and> (GetNumberOfElectronCollisions st = sum_list (m_nCollisionsDetailed st)
             \<longrightarrow> GetNumberOfElectronCollisions st' = sum_list (m_nCollisionsDetailed st'))"
    using steady by blast
  have R: "m_isChanged st \<or> (e > m_eFinal st \<and> m_useAutoAdjust st \<and> Small c < 1.05 * e) \<longrightarrow>
            m_nCollisions st' = (replicate nCsTypes 0)[col_type col := 1]
          \<and> m_nCollisionsDetailed st' = (replicate (m_nTerms st') 0)[col_level col := 1]
          \<and> GetNumberOfElectronCollisions st' = 1
          \<and> sum_list (m_nCollisionsDetailed st') = 1"
    using rebuilt by blast
  have Z: "m_nCollisions (ResetCollisionCounters st') = replicate nCsTypes 0"
    using rs both by simp
  show ?thesis
    apply (intro conjI)
                 apply (rule ty)
                apply (rule both[THEN conjunct1])
               apply (rule both[THEN conjunct2])
              apply (rule len)
               apply (rule S)
              apply (rule R)
             apply (rule bt[THEN conjunct1])
            apply (rule bt[THEN conjunct2])
           apply (rule Z)
          apply (rule rs[THEN conjunct2, THEN conjunct1])
         apply (rule rs[THEN conjunct2, THEN conjunct2, THEN conjunct2, THEN conjunct1])
    apply (rule rs[THEN conjunct2, THEN conjunct2, THEN conjunct2, THEN conjunct2])
    done
qed

theorem C10_collision_counters_witness:
  "\<exists>col st' k' col2 st2 k2.
     GetElectronCollision 0 0 env0 c0 rnd_half 10 (0, 0, 1) [] (session_built, 0)
       = Some (Some col, st', k')
     \<and> length (m_nCollisions session_built) = nCsTypes \<and> 0 < m_nComponents session_built
     \<and> \<not> m_isChanged session_built
     \<and> length (m_nCollisionsDetailed session_built) = m_nTerms session_built
     \<and> 0 < m_nTerms session_built \<and> m_nTerms st' \<le> nMaxLevels
     \<and> col_type col < nCsTypes \<and> col_level col < m_nTerms st'
     \<and> GetNumberOfElectronCollisions st' = GetNumberOfElectronCollisions session_built + 1
     \<and> sum_list (m_nCollisionsDetailed st') = sum_list (m_nCollisionsDetailed session_built) + 1
     \<and> GetElectronCollision 0 0 env_argon c0 rnd_half 10 (0, 0, 1) [] (session_counted, 0)
       = Some (Some col2, st2, k2)
     \<and> length (m_nCollisions session_counted) = nCsTypes \<and> 0 < m_nComponents session_counted
     \<and> m_isChanged session_counted \<and> m_nTerms st2 \<le> nMaxLevels
     \<and> col_type col2 < nCsTypes \<and> col_level col2 < m_nTerms st2
     \<and> GetNumberOfElectronCollisions st2 = 1
     \<and> sum_list (m_nCollisionsDetailed st2) = 1"
proof -
  from built_collision obtain col st' k' where
    g: "GetElectronCollision 0 0 env0 c0 rnd_half 10 (0, 0, 1) [] (session_built, 0)
          = Some (Some col, st', k')" by blast
  have h2: "length (m_nCollisions session_built) = nCsTypes"
    by (simp add: session_built_def session0_def)
  have h3: "0 < m_nComponents session_built" by (simp add: session_built_def session0_def)
  have n: "\<not> m_isChanged session_built" "m_eFinal session_built = 40"
    by (simp_all add: session_built_def session0_def)
  have h4: "length (m_nCollisionsDetailed session_built) = m_nTerms session_built"
    by (simp add: session_built_def session0_def)
  have h5: "0 < m_nTerms session_built" by (simp add: session_built_def session0_def)
  have h45: "\<not> m_isChanged session_built
         \<and> \<not> (10 > m_eFinal session_built \<and> m_useAutoAdjust session_built \<and> Small c0 < 1.05 * 10)
         \<longrightarrow> length (m_nCollisionsDetailed session_built) = m_nTerms session_built
             \<and> 0 < m_nTerms session_built" using h4 h5 by simp
  have st: "\<not> m_isChanged session_built
         \<and> \<not> (10 > m_eFinal session_built \<and> m_useAutoAdjust session_built \<and> Small c0 < 1.05 * 10)"
    using n by simp
  have h6: "m_nTerms st' \<le> nMaxLevels"
  proof -
    from GetElectronCollision_success[OF g] obtain st1 where
      p: "prepare_tables env0 c0 session_built 10 = (True, st1)"
      and c: "collide 0 0 c0 rnd_half 10 (0, 0, 1) [] (st1, 0) = Some (col, st', k')" by blast
    have "st1 = session_built" using p st by (intro prepare_steady) auto
    then have "m_nTerms st' = 2" using collide_counters[OF c] by (simp add: session_built_def)
    then show ?thesis by (simp add: nMaxLevels_def)
  qed
  note t = C10_collision_counters[OF g h2 h3 h45 h6]
  have steady: "col_type col < nCsTypes \<and> col_level col < m_nTerms st'
     \<and> GetNumberOfElectronCollisions st' = GetNumberOfElectronCollisions session_built + 1
     \<and> sum_list (m_nCollisionsDetailed st') = sum_list (m_nCollisionsDetailed session_built) + 1"
    using t st by blast
  from counted_collision obtain s col2 st2 k2 where
    m2: "Mixer env_argon c0 session_counted = (True, s)"
    and c2: "collide 0 0 c0 rnd_half 10 (0, 0, 1) [] (s\<lparr>m_isChanged := False\<rparr>, 0)
             = Some (col2, st2, k2)"
    and g2: "GetElectronCollision 0 0 env_argon c0 rnd_half 10 (0, 0, 1) [] (session_counted, 0)
          = Some (Some col2, st2, k2)" by blast
  have r6: "m_nTerms st2 \<le> nMaxLevels"
  proof -
    have "\<exists>S. Mixer env_argon c0 session_counted = (True, S) \<and> m_nTerms S = 5
             \<and> (\<forall>iE<nEnergySteps. 0 < m_cfTot S ! iE)"
      by (rule argon_bins)
         (simp_all add: session_counted_def session_built_def session0_def c0_def nEnergySteps_def)
    then have "m_nTerms s = 5" using m2 by auto
    then have "m_nTerms st2 = 5" using collide_counters[OF c2] by simp
    then show ?thesis by (simp add: nMaxLevels_def)
  qed
  have r2: "length (m_nCollisions session_counted) = nCsTypes"
    by (simp add: session_counted_def session_built_def session0_def nCsTypes_def)
  have r3: "0 < m_nComponents session_counted"
    by (simp add: session_counted_def session_built_def session0_def)
  have ch: "m_isChanged session_counted" by (simp add: session_counted_def)
  have r4: "\<not> m_isChanged session_counted
         \<and> \<not> (10 > m_eFinal session_counted \<and> m_useAutoAdjust session_counted \<and> Small c0 < 1.05 * 10)
         \<longrightarrow> length (m_nCollisionsDetailed session_counted) = m_nTerms session_counted
             \<and> 0 < m_nTerms session_counted" using ch by simp
  note t2 = C10_collision_counters[OF g2 r2 r3 r4 r6]
  have rebuilt: "col_type col2 < nCsTypes \<and> col_level col2 < m_nTerms st2
     \<and> GetNumberOfElectronCollisions st2 = 1 \<and> sum_list (m_nCollisionsDetailed st2) = 1"
    using t2 ch by blast
  show ?thesis using g h2 h3 h4 h5 h6 n(1) steady g2 r2 r3 ch r6 rebuilt by blast
qed

theorem C10_counters_reset_by_rebuild:
  "\<exists>col st' k'.
     GetElectronCollision 0 0 env_argon c0 rnd_half 10 (0, 0, 1) [] (session_counted, 0)
       = Some (Some col, st', k')
     \<and> GetNumberOfElectronCollisions session_counted = 7
     \<and> sum_list (m_nCollisionsDetailed session_counted) = 7
     \<and> GetNumberOfElectronCollisions st' = 1
     \<and> sum_list (m_nCollisionsDetailed st') = 1"
proof -
  from counted_collision obtain s col st' k' where
    m: "Mixer env_argon c0 session_counted = (True, s)"
    and col: "collide 0 0 c0 rnd_half 10 (0, 0, 1) [] (s\<lparr>m_isChanged := False\<rparr>, 0)
              = Some (col, st', k')"
    and g: "GetElectronCollision 0 0 env_argon c0 rnd_half 10 (0, 0, 1) [] (session_counted, 0)
            = Some (Some col, st', k')" by blast
  have six: "length (m_nCollisions session_counted) = nCsTypes"
    by (simp add: session_counted_def session_built_def session0_def nCsTypes_def)
  have gas: "0 < m_nComponents session_counted"
    by (simp add: session_counted_def session_built_def session0_def)
  note r = collision_after_rebuild[OF m col six gas]
  have one: "GetNumberOfElectronCollisions st' = 1 \<and> sum_list (m_nCollisionsDetailed st') = 1"
    using r by blast
  have seven: "GetNumberOfElectronCollisions session_counted = 7
               \<and> sum_list (m_nCollisionsDetailed session_counted) = 7"
    by (simp add: GetNumberOfElectronCollisions_def session_counted_def)
  show ?thesis using g one seven by blast
qed

end
